theory Spec2Isabelle
  imports Complex_Main
begin

section \<open>Double-precision numbers\<close>

text \<open>
  The C type \<^verbatim>\<open>double\<close> is modelled as IEEE 754 binary64: a finite value (a real
  number that results from rounding), the two infinities and one not-a-number. Every
  arithmetic operation computes the exact real result and rounds it to the nearest
  binary64 value, ties to even, with gradual underflow and overflow to infinity.
  Two things are left out: the sign of zero (a zero divisor counts as \<open>+0\<close>) and the
  payload of a NaN. The library functions \<^verbatim>\<open>sqrt\<close>, \<^verbatim>\<open>pow\<close> and \<^verbatim>\<open>log\<close> are taken
  to be correctly rounded, with the special cases of Annex F of the C standard.
\<close>

datatype double = Fin real | PInf | NInf | NaN

definition round_even :: "real \<Rightarrow> int" where
  "round_even q =
     (let fl = \<lfloor>q\<rfloor>; r = q - of_int fl
      in if r < 1 / 2 then fl else if 1 / 2 < r then fl + 1
         else if even fl then fl else fl + 1)"

definition ulp_exp :: "real \<Rightarrow> int" where
  "ulp_exp x = max (\<lfloor>log 2 \<bar>x\<bar>\<rfloor> - 52) (- 1074)"

definition rnd :: "real \<Rightarrow> double" where
  "rnd x =
     (if x = 0 then Fin 0
      else let u = 2 powi (ulp_exp x); y = of_int (round_even (x / u)) * u
           in if 2 ^ 1024 \<le> \<bar>y\<bar> then (if 0 < x then PInf else NInf) else Fin y)"

text \<open>A decimal literal of the source denotes the nearest binary64 value.\<close>

definition lit :: "real \<Rightarrow> double" where
  "lit r = rnd r"

instantiation double :: "{zero, one, plus, uminus, times, abs}"
begin

definition zero_double :: double where
  "zero_double = Fin 0"

definition one_double :: double where
  "one_double = Fin 1"

fun uminus_double :: "double \<Rightarrow> double" where
  "uminus_double (Fin x) = Fin (- x)"
| "uminus_double PInf = NInf"
| "uminus_double NInf = PInf"
| "uminus_double NaN = NaN"

fun plus_double :: "double \<Rightarrow> double \<Rightarrow> double" where
  "plus_double (Fin x) (Fin y) = rnd (x + y)"
| "plus_double NaN _ = NaN"
| "plus_double _ NaN = NaN"
| "plus_double PInf NInf = NaN"
| "plus_double NInf PInf = NaN"
| "plus_double PInf _ = PInf"
| "plus_double _ PInf = PInf"
| "plus_double NInf _ = NInf"
| "plus_double _ NInf = NInf"

fun times_double :: "double \<Rightarrow> double \<Rightarrow> double" where
  "times_double (Fin x) (Fin y) = rnd (x * y)"
| "times_double NaN _ = NaN"
| "times_double _ NaN = NaN"
| "times_double (Fin x) PInf = (if x = 0 then NaN else if 0 < x then PInf else NInf)"
| "times_double (Fin x) NInf = (if x = 0 then NaN else if 0 < x then NInf else PInf)"
| "times_double PInf (Fin y) = (if y = 0 then NaN else if 0 < y then PInf else NInf)"
| "times_double NInf (Fin y) = (if y = 0 then NaN else if 0 < y then NInf else PInf)"
| "times_double PInf PInf = PInf"
| "times_double NInf NInf = PInf"
| "times_double PInf NInf = NInf"
| "times_double NInf PInf = NInf"

fun abs_double :: "double \<Rightarrow> double" where
  "abs_double (Fin x) = Fin \<bar>x\<bar>"
| "abs_double PInf = PInf"
| "abs_double NInf = PInf"
| "abs_double NaN = NaN"

instance ..

end

instantiation double :: minus
begin

definition minus_double :: "double \<Rightarrow> double \<Rightarrow> double" where
  "minus_double x y = x + (- y)"

instance ..

end

instantiation double :: inverse
begin

fun divide_double :: "double \<Rightarrow> double \<Rightarrow> double" where
  "divide_double (Fin x) (Fin y) =
     (if y = 0 then (if x = 0 then NaN else if 0 < x then PInf else NInf)
      else rnd (x / y))"
| "divide_double NaN _ = NaN"
| "divide_double _ NaN = NaN"
| "divide_double (Fin x) _ = Fin 0"
| "divide_double PInf (Fin y) = (if 0 \<le> y then PInf else NInf)"
| "divide_double NInf (Fin y) = (if 0 \<le> y then NInf else PInf)"
| "divide_double _ _ = NaN"

fun inverse_double :: "double \<Rightarrow> double" where
  "inverse_double (Fin y) = (if y = 0 then PInf else rnd (1 / y))"
| "inverse_double PInf = Fin 0"
| "inverse_double NInf = Fin 0"
| "inverse_double NaN = NaN"

instance ..

end

instantiation double :: ord
begin

fun less_double :: "double \<Rightarrow> double \<Rightarrow> bool" where
  "less_double (Fin x) (Fin y) = (x < y)"
| "less_double NaN _ = False"
| "less_double _ NaN = False"
| "less_double _ NInf = False"
| "less_double PInf _ = False"
| "less_double _ _ = True"

fun less_eq_double :: "double \<Rightarrow> double \<Rightarrow> bool" where
  "less_eq_double (Fin x) (Fin y) = (x \<le> y)"
| "less_eq_double NaN _ = False"
| "less_eq_double _ NaN = False"
| "less_eq_double NInf _ = True"
| "less_eq_double _ PInf = True"
| "less_eq_double _ _ = False"

instance ..

end

text \<open>
  The comparisons \<^verbatim>\<open>==\<close> and \<^verbatim>\<open>!=\<close> of C: a NaN is equal to nothing, itself
  included, so \<^verbatim>\<open>v != v\<close> tests for NaN.
\<close>

definition deq :: "double \<Rightarrow> double \<Rightarrow> bool" where
  "deq x y = (x \<noteq> NaN \<and> y \<noteq> NaN \<and> x = y)"

definition dne :: "double \<Rightarrow> double \<Rightarrow> bool" where
  "dne x y = (\<not> deq x y)"

fun sqrt_d :: "double \<Rightarrow> double" where
  "sqrt_d (Fin x) = (if x < 0 then NaN else rnd (sqrt x))"
| "sqrt_d PInf = PInf"
| "sqrt_d NInf = NaN"
| "sqrt_d NaN = NaN"

fun log_d :: "double \<Rightarrow> double" where
  "log_d (Fin x) = (if x < 0 then NaN else if x = 0 then NInf else rnd (ln x))"
| "log_d PInf = PInf"
| "log_d NInf = NaN"
| "log_d NaN = NaN"

definition odd_integer :: "real \<Rightarrow> bool" where
  "odd_integer y = (of_int \<lfloor>y\<rfloor> = y \<and> odd \<lfloor>y\<rfloor>)"

fun pow :: "double \<Rightarrow> double \<Rightarrow> double" where
  "pow x (Fin y) =
     (if y = 0 then Fin 1
      else case x of
        NaN \<Rightarrow> NaN
      | Fin b \<Rightarrow>
          (if b = 1 then Fin 1
           else if 0 < b then rnd (b powr y)
           else if b = 0 then (if y < 0 then PInf else Fin 0)
           else if of_int \<lfloor>y\<rfloor> = y
             then (if odd \<lfloor>y\<rfloor> then rnd (- ((- b) powr y)) else rnd ((- b) powr y))
           else NaN)
      | PInf \<Rightarrow> (if y < 0 then Fin 0 else PInf)
      | NInf \<Rightarrow> (if y < 0 then Fin 0 else if odd_integer y then NInf else PInf))"
| "pow x PInf =
     (case x of
        NaN \<Rightarrow> NaN
      | Fin b \<Rightarrow> (if \<bar>b\<bar> = 1 then Fin 1 else if \<bar>b\<bar> < 1 then Fin 0 else PInf)
      | _ \<Rightarrow> PInf)"
| "pow x NInf =
     (case x of
        NaN \<Rightarrow> NaN
      | Fin b \<Rightarrow> (if \<bar>b\<bar> = 1 then Fin 1 else if \<bar>b\<bar> < 1 then PInf else Fin 0)
      | _ \<Rightarrow> Fin 0)"
| "pow x NaN = (if x = Fin 1 then Fin 1 else NaN)"

text \<open>
  The header \<^verbatim>\<open>global.h\<close> is not among the sources. Its macros \<^verbatim>\<open>Power\<close>, \<^verbatim>\<open>Sqrt\<close>
  and \<^verbatim>\<open>Pi\<close> are taken to expand to \<^verbatim>\<open>pow\<close>, \<^verbatim>\<open>sqrt\<close> and \<^verbatim>\<open>M_PI\<close>. The function
  \<^verbatim>\<open>abs\<close>, applied to a \<^verbatim>\<open>double\<close>, is the overload of the C++ library for that type:
  the absolute value, a NaN for a NaN.
\<close>

abbreviation Power :: "double \<Rightarrow> double \<Rightarrow> double" where
  "Power x n \<equiv> pow x n"

abbreviation Sqrt :: "double \<Rightarrow> double" where
  "Sqrt x \<equiv> sqrt_d x"

definition M_PI :: double where
  "M_PI = lit pi"

abbreviation Pi :: double where
  "Pi \<equiv> M_PI"

section \<open>Results, errors and printed output\<close>

text \<open>
  A function of the source that can throw or print returns what it printed, in order,
  and either the exception or its value. Every exception of \<^verbatim>\<open>Utility.cc\<close> is a
  \<^verbatim>\<open>std::invalid_argument\<close>; the constructors of \<open>err\<close> stand for their messages.
  \<open>Out_of_bounds\<close> marks an access past the end of an array, which C leaves undefined.
\<close>

datatype msg =
    Printf_sanity double double double double
  | Printf_55 double
  | Printf_apex double double double double
  | Printf_max_iteration
  | Printf_result double double double
  | Printf_sep double double double double double
  | Cout_nan_r double double double double double double
  | Cout_omega double double double

datatype err =
    EllipticK_failed double
  | EllipticF_failed double double
  | EllipticE_failed double
  | EllipticEIncomp_failed double
  | EllipticPi_failed double double
  | EllipticPiIncomp_failed double
  | Nan_in_fundamental_frequencies
  | Brent_root_solver_failed
  | Std_exception
  | Out_of_bounds

type_synonym 'a res = "msg list \<times> (err + 'a)"

definition ret :: "'a \<Rightarrow> 'a res" where
  "ret v = ([], Inr v)"

definition throw :: "err \<Rightarrow> 'a res" where
  "throw ex = ([], Inl ex)"

definition printf :: "msg \<Rightarrow> unit res" where
  "printf m = ([m], Inr ())"

definition bind_res :: "'a res \<Rightarrow> ('a \<Rightarrow> 'b res) \<Rightarrow> 'b res" where
  "bind_res m k =
     (case m of
        (out, Inl ex) \<Rightarrow> (out, Inl ex)
      | (out, Inr v) \<Rightarrow> (case k v of (out', r) \<Rightarrow> (out @ out', r)))"

section \<open>Input check\<close>

definition sanity_check :: "double \<Rightarrow> double \<Rightarrow> double \<Rightarrow> double \<Rightarrow> msg list \<times> int" where
  "sanity_check a p e Y =
     (let res = (0 :: int)
      in if p < Fin 0 then ([], 1)
         else if Fin 1 < e \<or> e < Fin 0 then ([], 1)
         else if Fin 1 < Y \<or> Y < Fin (- 1) then ([], 1)
         else if Fin 1 < a \<or> a < Fin 0 then ([], 1)
         else if res = 1 then ([Printf_sanity a p e Y], res)
         else ([], res))"

section \<open>Elliptic integrals\<close>

text \<open>
  The special functions come from the GNU Scientific Library, which is not part of the
  sources: they are a parameter of the model. Each takes its arguments and gives a
  status and a value. \<open>GSL_SUCCESS\<close> and \<open>GSL_CONTINUE\<close> are the library's status codes.
\<close>

record gsl_sf_ellint =
  gsl_sf_ellint_Kcomp_e :: "double \<Rightarrow> int \<times> double"
  gsl_sf_ellint_F_e :: "double \<Rightarrow> double \<Rightarrow> int \<times> double"
  gsl_sf_ellint_Ecomp_e :: "double \<Rightarrow> int \<times> double"
  gsl_sf_ellint_E_e :: "double \<Rightarrow> double \<Rightarrow> int \<times> double"
  gsl_sf_ellint_Pcomp_e :: "double \<Rightarrow> double \<Rightarrow> int \<times> double"
  gsl_sf_ellint_P_e :: "double \<Rightarrow> double \<Rightarrow> double \<Rightarrow> int \<times> double"

definition GSL_SUCCESS :: int where
  "GSL_SUCCESS = 0"

definition GSL_CONTINUE :: int where
  "GSL_CONTINUE = - 2"

definition EllipticK :: "gsl_sf_ellint \<Rightarrow> double \<Rightarrow> double res" where
  "EllipticK G k =
     (let (status, result_val) = gsl_sf_ellint_Kcomp_e G (sqrt_d k)
      in if status \<noteq> GSL_SUCCESS then throw (EllipticK_failed k) else ret result_val)"

definition EllipticF :: "gsl_sf_ellint \<Rightarrow> double \<Rightarrow> double \<Rightarrow> double res" where
  "EllipticF G phi k =
     (let (status, result_val) = gsl_sf_ellint_F_e G phi (sqrt_d k)
      in if status \<noteq> GSL_SUCCESS then throw (EllipticF_failed phi k) else ret result_val)"

definition EllipticE :: "gsl_sf_ellint \<Rightarrow> double \<Rightarrow> double res" where
  "EllipticE G k =
     (let (status, result_val) = gsl_sf_ellint_Ecomp_e G (sqrt_d k)
      in if status \<noteq> GSL_SUCCESS then throw (EllipticE_failed k) else ret result_val)"

definition EllipticEIncomp :: "gsl_sf_ellint \<Rightarrow> double \<Rightarrow> double \<Rightarrow> double res" where
  "EllipticEIncomp G phi k =
     (let (status, result_val) = gsl_sf_ellint_E_e G phi (sqrt_d k)
      in if status \<noteq> GSL_SUCCESS then throw (EllipticEIncomp_failed k) else ret result_val)"

definition EllipticPi :: "gsl_sf_ellint \<Rightarrow> double \<Rightarrow> double \<Rightarrow> double res" where
  "EllipticPi G n k =
     (let (status, result_val) = gsl_sf_ellint_Pcomp_e G (sqrt_d k) (- n)
      in if status \<noteq> GSL_SUCCESS
         then bind_res (printf (Printf_55 k)) (\<lambda>_. throw (EllipticPi_failed k n))
         else ret result_val)"

definition EllipticPiIncomp :: "gsl_sf_ellint \<Rightarrow> double \<Rightarrow> double \<Rightarrow> double \<Rightarrow> double res" where
  "EllipticPiIncomp G n phi k =
     (let (status, result_val) = gsl_sf_ellint_P_e G phi (sqrt_d k) (- n)
      in if status \<noteq> GSL_SUCCESS then throw (EllipticPiIncomp_failed k) else ret result_val)"

section \<open>Constants of motion\<close>

definition CapitalDelta :: "double \<Rightarrow> double \<Rightarrow> double" where
  "CapitalDelta r a = pow r (Fin 2) - Fin 2 * r + pow a (Fin 2)"

definition f :: "double \<Rightarrow> double \<Rightarrow> double \<Rightarrow> double" where
  "f r a zm = pow r (Fin 4) + pow a (Fin 2) * (r * (r + Fin 2) + pow zm (Fin 2) * CapitalDelta r
                a)"

definition g :: "double \<Rightarrow> double \<Rightarrow> double \<Rightarrow> double" where
  "g r a zm = Fin 2 * a * r"

definition h :: "double \<Rightarrow> double \<Rightarrow> double \<Rightarrow> double" where
  "h r a zm = r * (r - Fin 2) + pow zm (Fin 2) / (Fin 1 - pow zm (Fin 2)) * CapitalDelta r a"

definition d :: "double \<Rightarrow> double \<Rightarrow> double \<Rightarrow> double" where
  "d r a zm = (pow r (Fin 2) + pow a (Fin 2) * pow zm (Fin 2)) * CapitalDelta r a"

definition KerrGeoEnergy :: "double \<Rightarrow> double \<Rightarrow> double \<Rightarrow> double \<Rightarrow> double" where
  "KerrGeoEnergy a p e x =
     (let r1 = p / (Fin 1 - e);
          r2 = p / (Fin 1 + e);
          zm = sqrt_d (Fin 1 - pow x (Fin 2));
          Kappa = d r1 a zm * h r2 a zm - h r1 a zm * d r2 a zm;
          Epsilon = d r1 a zm * g r2 a zm - g r1 a zm * d r2 a zm;
          Rho = f r1 a zm * h r2 a zm - h r1 a zm * f r2 a zm;
          Eta = f r1 a zm * g r2 a zm - g r1 a zm * f r2 a zm;
          Sigma = g r1 a zm * h r2 a zm - h r1 a zm * g r2 a zm
      in sqrt_d ((Kappa * Rho + Fin 2 * Epsilon * Sigma - x * Fin 2 * sqrt_d (Sigma * (Sigma *
           pow Epsilon (Fin 2) + Rho * Epsilon * Kappa - Eta * pow Kappa (Fin 2)) / pow x (Fin
           2))) / (pow Rho (Fin 2) + Fin 4 * Eta * Sigma)))"

definition KerrGeoAngularMomentum :: "double \<Rightarrow> double \<Rightarrow> double \<Rightarrow> double \<Rightarrow> double \<Rightarrow> double" where
  "KerrGeoAngularMomentum a p e x En =
     (let r1 = p / (Fin 1 - e);
          zm = sqrt_d (Fin 1 - pow x (Fin 2))
      in (- En * g r1 a zm + x * sqrt_d ((- d r1 a zm * h r1 a zm + pow En (Fin 2) * (pow (g r1
           a zm) (Fin 2) + f r1 a zm * h r1 a zm)) / pow x (Fin 2))) / h r1 a zm)"

definition KerrGeoCarterConstant ::
    "double \<Rightarrow> double \<Rightarrow> double \<Rightarrow> double \<Rightarrow> double \<Rightarrow> double \<Rightarrow> double" where
  "KerrGeoCarterConstant a p e x En L =
     (let zm = sqrt_d (Fin 1 - pow x (Fin 2))
      in pow zm (Fin 2) * (pow a (Fin 2) * (Fin 1 - pow En (Fin 2)) + pow L (Fin 2) / (Fin 1 -
           pow zm (Fin 2))))"

text \<open>The three output cells \<^verbatim>\<open>E_out\<close>, \<^verbatim>\<open>L_out\<close>, \<^verbatim>\<open>Q_out\<close> are returned as a triple.\<close>

definition KerrGeoConstantsOfMotion ::
    "double \<Rightarrow> double \<Rightarrow> double \<Rightarrow> double \<Rightarrow> double \<times> double \<times> double" where
  "KerrGeoConstantsOfMotion a p e x =
     (let E_out = KerrGeoEnergy a p e x;
          L_out = KerrGeoAngularMomentum a p e x E_out;
          Q_out = KerrGeoCarterConstant a p e x E_out L_out
      in (E_out, L_out, Q_out))"

definition KerrGeoRadialRoots ::
    "double \<Rightarrow> double \<Rightarrow> double \<Rightarrow> double \<Rightarrow> double \<Rightarrow> double \<Rightarrow> double \<times> double \<times> double \<times> double" where
  "KerrGeoRadialRoots a p e x En Q =
     (let M = Fin 1;
          r1 = p / (Fin 1 - e);
          r2 = p / (Fin 1 + e);
          AplusB = Fin 2 * M / (Fin 1 - pow En (Fin 2)) - (r1 + r2);
          AB = pow a (Fin 2) * Q / ((Fin 1 - pow En (Fin 2)) * r1 * r2);
          r3 = (AplusB + sqrt_d (pow AplusB (Fin 2) - Fin 4 * AB)) / Fin 2;
          r4 = AB / r3
      in (r1, r2, r3, r4))"

section \<open>Fundamental frequencies\<close>

text \<open>
  The functions return the cells they write through their pointer arguments as a tuple,
  in the order of the arguments. Operands are evaluated from left to right; a call of an
  elliptic integral that is repeated with the same arguments gives the same result, so
  each is bound once, where it first occurs.
\<close>

definition KerrGeoMinoFrequencies ::
    "gsl_sf_ellint \<Rightarrow> double \<Rightarrow> double \<Rightarrow> double \<Rightarrow> double \<Rightarrow> (double \<times> double \<times> double \<times> double) res" where
  "KerrGeoMinoFrequencies G a p e x =
     (let M = Fin 1;
          En = KerrGeoEnergy a p e x;
          L = KerrGeoAngularMomentum a p e x En;
          Q = KerrGeoCarterConstant a p e x En L;
          (r1, r2, r3, r4) = KerrGeoRadialRoots a p e x En Q;
          Epsilon0 = pow a (Fin 2) * (Fin 1 - pow En (Fin 2)) / pow L (Fin 2);
          zm = Fin 1 - pow x (Fin 2);
          a2zp = (pow L (Fin 2) + pow a (Fin 2) * (Fin (- 1) + pow En (Fin 2)) * (Fin (- 1) +
                   zm)) / ((Fin (- 1) + pow En (Fin 2)) * (Fin (- 1) + zm));
          Epsilon0zp = - ((pow L (Fin 2) + pow a (Fin 2) * (Fin (- 1) + pow En (Fin 2)) * (Fin
                         (- 1) + zm)) / (pow L (Fin 2) * (Fin (- 1) + zm)));
          zmOverZp = zm / ((pow L (Fin 2) + pow a (Fin 2) * (Fin (- 1) + pow En (Fin 2)) * (Fin
                       (- 1) + zm)) / (pow a (Fin 2) * (Fin (- 1) + pow En (Fin 2)) * (Fin (- 1) +
                       zm)));
          kr = sqrt_d ((r1 - r2) / (r1 - r3) * (r3 - r4) / (r2 - r4));
          kTheta = sqrt_d zmOverZp
      in bind_res (EllipticK G (pow kr (Fin 2))) (\<lambda>K_kr.
         let CapitalUpsilonr = M_PI * sqrt_d ((Fin 1 - pow En (Fin 2)) * (r1 - r3) * (r2 - r4))
                                 / (Fin 2 * K_kr)
         in bind_res (EllipticK G (pow kTheta (Fin 2))) (\<lambda>K_kTheta.
         let CapitalUpsilonTheta = M_PI * L * sqrt_d Epsilon0zp / (Fin 2 * K_kTheta);
             rp = M + sqrt_d (pow M (Fin 2) - pow a (Fin 2));
             rm = M - sqrt_d (pow M (Fin 2) - pow a (Fin 2));
             hr = (r1 - r2) / (r1 - r3);
             hp = (r1 - r2) * (r3 - rp) / ((r1 - r3) * (r2 - rp));
             hm = (r1 - r2) * (r3 - rm) / ((r1 - r3) * (r2 - rm))
         in bind_res (EllipticPi G zm (pow kTheta (Fin 2))) (\<lambda>Pi_zm.
            bind_res (EllipticPi G hp (pow kr (Fin 2))) (\<lambda>Pi_hp.
            bind_res (EllipticPi G hm (pow kr (Fin 2))) (\<lambda>Pi_hm.
         let CapitalUpsilonPhi = Fin 2 * CapitalUpsilonTheta / (M_PI * sqrt_d Epsilon0zp) *
                                   Pi_zm + Fin 2 * a * CapitalUpsilonr / (M_PI * (rp - rm) *
                                   sqrt_d ((Fin 1 - pow En (Fin 2)) * (r1 - r3) * (r2 - r4))) *
                                   ((Fin 2 * M * En * rp - a * L) / (r3 - rp) * (K_kr - (r2 - r3)
                                   / (r2 - rp) * Pi_hp) - (Fin 2 * M * En * rm - a * L) / (r3 -
                                   rm) * (K_kr - (r2 - r3) / (r2 - rm) * Pi_hm))
         in bind_res (EllipticE G (pow kTheta (Fin 2))) (\<lambda>E_kTheta.
            bind_res (EllipticPi G hr (pow kr (Fin 2))) (\<lambda>Pi_hr.
            bind_res (EllipticE G (pow kr (Fin 2))) (\<lambda>E_kr.
         let CapitalGamma = Fin 4 * pow M (Fin 2) * En + Fin 2 * a2zp * En * CapitalUpsilonTheta
                              / (M_PI * L * sqrt_d Epsilon0zp) * (K_kTheta - E_kTheta) + Fin 2 *
                              CapitalUpsilonr / (M_PI * sqrt_d ((Fin 1 - pow En (Fin 2)) * (r1 -
                              r3) * (r2 - r4))) * (En / Fin 2 * ((r3 * (r1 + r2 + r3) - r1 * r2) *
                              K_kr + (r2 - r3) * (r1 + r2 + r3 + r4) * Pi_hr + (r1 - r3) * (r2 -
                              r4) * E_kr) + Fin 2 * M * En * (r3 * K_kr + (r2 - r3) * Pi_hr) + Fin
                              2 * M / (rp - rm) * (((Fin 4 * pow M (Fin 2) * En - a * L) * rp -
                              Fin 2 * M * pow a (Fin 2) * En) / (r3 - rp) * (K_kr - (r2 - r3) /
                              (r2 - rp) * Pi_hp) - ((Fin 4 * pow M (Fin 2) * En - a * L) * rm -
                              Fin 2 * M * pow a (Fin 2) * En) / (r3 - rm) * (K_kr - (r2 - r3) /
                              (r2 - rm) * Pi_hm)))
         in ret (CapitalGamma, CapitalUpsilonPhi, CapitalUpsilonTheta, CapitalUpsilonr))))))))))"

definition KerrEqGeoMinoFrequencies ::
    "double \<Rightarrow> double \<Rightarrow> double \<Rightarrow> double \<Rightarrow> double \<times> double \<times> double \<times> double" where
  "KerrEqGeoMinoFrequencies a p e x =
     (let CapitalUpsilonr = Sqrt (p * (Fin (- 2) * Power a (Fin 2) + Fin 6 * a * Sqrt p + (Fin
                              (- 5) + p) * p + Power (a - Sqrt p) (Fin 2) * (Power a (Fin 2) - Fin
                              4 * a * Sqrt p - (Fin (- 4) + p) * p) / \<bar>Power a (Fin 2) - Fin
                              4 * a * Sqrt p - (Fin (- 4) + p) * p\<bar>) / (Fin 2 * a * Sqrt p +
                              (Fin (- 3) + p) * p));
          CapitalUpsilonTheta = \<bar>Power p (Fin 0.25) * Sqrt (Fin 3 * Power a (Fin 2) - Fin 4
                                  * a * Sqrt p + Power p (Fin 2)) / Sqrt (Fin 2 * a + (Fin (- 3) +
                                  p) * Sqrt p)\<bar>;
          CapitalUpsilonPhi = Power p (Fin 1.25) / Sqrt (Fin 2 * a + (Fin (- 3) + p) * Sqrt p);
          CapitalGamma = Power p (Fin 1.25) * (a + Power p (Fin 1.5)) / Sqrt (Fin 2 * a + (Fin
                           (- 3) + p) * Sqrt p)
      in (CapitalGamma, CapitalUpsilonPhi, CapitalUpsilonTheta, CapitalUpsilonr))"

definition KerrGeoCoordinateFrequencies ::
    "gsl_sf_ellint \<Rightarrow> double \<Rightarrow> double \<Rightarrow> double \<Rightarrow> double \<Rightarrow> (double \<times> double \<times> double) res" where
  "KerrGeoCoordinateFrequencies G a p e x =
     bind_res
       (if deq \<bar>x\<bar> (Fin 1) then ret (KerrEqGeoMinoFrequencies a p e x)
        else KerrGeoMinoFrequencies G a p e x)
       (\<lambda>(CapitalGamma, CapitalUpsilonPhi, CapitalUpsilonTheta, CapitalUpsilonR).
          if dne CapitalUpsilonPhi CapitalUpsilonPhi \<or> dne CapitalGamma CapitalGamma
             \<or> dne CapitalUpsilonR CapitalUpsilonR
          then bind_res (printf (Printf_apex a p e x)) (\<lambda>_. throw Nan_in_fundamental_frequencies)
          else ret (CapitalUpsilonPhi / CapitalGamma, CapitalUpsilonTheta / CapitalGamma,
                    CapitalUpsilonR / CapitalGamma))"

definition SchwarzschildGeoCoordinateFrequencies ::
    "gsl_sf_ellint \<Rightarrow> double \<Rightarrow> double \<Rightarrow> (double \<times> double) res" where
  "SchwarzschildGeoCoordinateFrequencies G p e =
     bind_res (EllipticE G (Fin 4 * e / (p - Fin 6 + Fin 2 * e))) (\<lambda>EllipE.
     bind_res (EllipticK G (Fin 4 * e / (p - Fin 6 + Fin 2 * e))) (\<lambda>EllipK.
     bind_res (EllipticPi G (Fin 16 * e / (Fin 12 + Fin 8 * e - Fin 4 * e * e - Fin 8 * p + p * p))
                 (Fin 4 * e / (p - Fin 6 + Fin 2 * e))) (\<lambda>EllipPi1.
     bind_res (EllipticPi G (Fin 2 * e * (p - Fin 4) / ((Fin 1 + e) * (p - Fin 6 + Fin 2 * e)))
                 (Fin 4 * e / (p - Fin 6 + Fin 2 * e))) (\<lambda>EllipPi2.
     let OmegaPhi = Fin 2 * Power p (Fin 1.5) / (Sqrt (Fin (- 4) * Power e (Fin 2) + Power (Fin
                      (- 2) + p) (Fin 2)) * (Fin 8 + (Fin (- 2) * EllipPi2 * (Fin 6 + Fin 2 * e -
                      p) * (Fin 3 + Power e (Fin 2) - p) * Power p (Fin 2) / ((Fin (- 1) + e) *
                      Power (Fin 1 + e) (Fin 2)) - EllipE * (Fin (- 4) + p) * Power p (Fin 2) *
                      (Fin (- 6) + Fin 2 * e + p) / (Fin (- 1) + Power e (Fin 2)) + EllipK * Power
                      p (Fin 2) * (Fin 28 + Fin 4 * Power e (Fin 2) - Fin 12 * p + Power p (Fin
                      2)) / (Fin (- 1) + Power e (Fin 2)) + Fin 4 * (Fin (- 4) + p) * p * (Fin 2 *
                      (Fin 1 + e) * EllipK + EllipPi2 * (Fin (- 6) - Fin 2 * e + p)) / (Fin 1 + e)
                      + Fin 2 * Power (Fin (- 4) + p) (Fin 2) * (EllipK * (Fin (- 4) + p) +
                      EllipPi1 * p * (Fin (- 6) - Fin 2 * e + p) / (Fin 2 + Fin 2 * e - p))) /
                      (EllipK * Power (Fin (- 4) + p) (Fin 2))));
         OmegaR = p * Sqrt ((Fin (- 6) + Fin 2 * e + p) / (Fin (- 4) * Power e (Fin 2) + Power
                    (Fin (- 2) + p) (Fin 2))) * Pi / (Fin 8 * EllipK + (Fin (- 2) * EllipPi2 *
                    (Fin 6 + Fin 2 * e - p) * (Fin 3 + Power e (Fin 2) - p) * Power p (Fin 2) /
                    ((Fin (- 1) + e) * Power (Fin 1 + e) (Fin 2)) - EllipE * (Fin (- 4) + p) *
                    Power p (Fin 2) * (Fin (- 6) + Fin 2 * e + p) / (Fin (- 1) + Power e (Fin 2))
                    + EllipK * Power p (Fin 2) * (Fin 28 + Fin 4 * Power e (Fin 2) - Fin 12 * p +
                    Power p (Fin 2)) / (Fin (- 1) + Power e (Fin 2)) + Fin 4 * (Fin (- 4) + p) * p
                    * (Fin 2 * (Fin 1 + e) * EllipK + EllipPi2 * (Fin (- 6) - Fin 2 * e + p)) /
                    (Fin 1 + e) + Fin 2 * Power (Fin (- 4) + p) (Fin 2) * (EllipK * (Fin (- 4) +
                    p) + EllipPi1 * p * (Fin (- 6) - Fin 2 * e + p) / (Fin 2 + Fin 2 * e - p))) /
                    Power (Fin (- 4) + p) (Fin 2))
     in ret (OmegaPhi, OmegaR)))))"

text \<open>
  Arrays are lists. An index past the end of a list is the error \<open>Out_of_bounds\<close>; the
  loop runs in the order of the indices, and an exception ends it.
\<close>

definition rd :: "double list \<Rightarrow> int \<Rightarrow> double res" where
  "rd xs i = (if 0 \<le> i \<and> i < int (length xs) then ret (xs ! nat i) else throw Out_of_bounds)"

definition wr :: "double list \<Rightarrow> int \<Rightarrow> double \<Rightarrow> double list res" where
  "wr xs i v = (if 0 \<le> i \<and> i < int (length xs) then ret (xs[nat i := v]) else throw Out_of_bounds)"

definition KerrGeoCoordinateFrequenciesVectorized_body ::
    "gsl_sf_ellint \<Rightarrow> double list \<Rightarrow> double list \<Rightarrow> double list \<Rightarrow> double list \<Rightarrow> int
     \<Rightarrow> double list \<times> double list \<times> double list \<Rightarrow> (double list \<times> double list \<times> double list) res" where
  "KerrGeoCoordinateFrequenciesVectorized_body G a p e x i outs =
     (case outs of (OmegaPhi_out, OmegaTheta_out, OmegaR_out) \<Rightarrow>
      bind_res (rd a i) (\<lambda>a_i.
      if dne a_i (Fin 0)
      then bind_res (rd p i) (\<lambda>p_i. bind_res (rd e i) (\<lambda>e_i. bind_res (rd x i) (\<lambda>x_i.
           bind_res (KerrGeoCoordinateFrequencies G a_i p_i e_i x_i) (\<lambda>(OmegaPhi, OmegaTheta, OmegaR).
           bind_res (wr OmegaPhi_out i OmegaPhi) (\<lambda>OmegaPhi_out'.
           bind_res (wr OmegaTheta_out i OmegaTheta) (\<lambda>OmegaTheta_out'.
           bind_res (wr OmegaR_out i OmegaR) (\<lambda>OmegaR_out'.
           ret (OmegaPhi_out', OmegaTheta_out', OmegaR_out'))))))))
      else bind_res (rd p i) (\<lambda>p_i. bind_res (rd e i) (\<lambda>e_i.
           bind_res (SchwarzschildGeoCoordinateFrequencies G p_i e_i) (\<lambda>(OmegaPhi, OmegaR).
           bind_res (wr OmegaPhi_out i OmegaPhi) (\<lambda>OmegaPhi_out'.
           bind_res (wr OmegaR_out i OmegaR) (\<lambda>OmegaR_out'.
           bind_res (rd OmegaPhi_out' i) (\<lambda>v.
           bind_res (wr OmegaTheta_out i v) (\<lambda>OmegaTheta_out'.
           ret (OmegaPhi_out', OmegaTheta_out', OmegaR_out'))))))))))"

function KerrGeoCoordinateFrequenciesVectorized_loop ::
    "gsl_sf_ellint \<Rightarrow> double list \<Rightarrow> double list \<Rightarrow> double list \<Rightarrow> double list \<Rightarrow> int \<Rightarrow> int
     \<Rightarrow> double list \<times> double list \<times> double list \<Rightarrow> (double list \<times> double list \<times> double list) res" where
  "KerrGeoCoordinateFrequenciesVectorized_loop G a p e x len i outs =
     (if i < len
      then (case KerrGeoCoordinateFrequenciesVectorized_body G a p e x i outs of
              (out, Inl ex) \<Rightarrow> (out, Inl ex)
            | (out, Inr outs') \<Rightarrow>
                (case KerrGeoCoordinateFrequenciesVectorized_loop G a p e x len (i + 1) outs' of
                   (out', r) \<Rightarrow> (out @ out', r)))
      else ret outs)"
  by pat_completeness auto
termination
  by (relation "measure (\<lambda>(G, a, p, e, x, len, i, outs). nat (len - i))") auto

declare KerrGeoCoordinateFrequenciesVectorized_loop.simps [simp del]

definition KerrGeoCoordinateFrequenciesVectorized ::
    "gsl_sf_ellint \<Rightarrow> double list \<times> double list \<times> double list
     \<Rightarrow> double list \<Rightarrow> double list \<Rightarrow> double list \<Rightarrow> double list \<Rightarrow> int
     \<Rightarrow> (double list \<times> double list \<times> double list) res" where
  "KerrGeoCoordinateFrequenciesVectorized G outs a p e x len =
     KerrGeoCoordinateFrequenciesVectorized_loop G a p e x len 0 outs"

section \<open>Separatrix\<close>

record params_holder =
  params_a :: double
  params_p :: double
  params_e :: double
  params_x :: double
  params_Y :: double

definition separatrix_polynomial_full :: "double \<Rightarrow> params_holder \<Rightarrow> double" where
  "separatrix_polynomial_full p params =
     (let a = params_a params; e = params_e params; x = params_x params
      in Fin (- 4) * (Fin 3 + e) * Power p (Fin 11) + Power p (Fin 12) + Power a (Fin 12) *
           Power (Fin (- 1) + e) (Fin 4) * Power (Fin 1 + e) (Fin 8) * Power (Fin (- 1) + x) (Fin
           4) * Power (Fin 1 + x) (Fin 4) - Fin 4 * Power a (Fin 10) * (Fin (- 3) + e) * Power
           (Fin (- 1) + e) (Fin 3) * Power (Fin 1 + e) (Fin 7) * p * Power (Fin (- 1) + Power x
           (Fin 2)) (Fin 4) - Fin 4 * Power a (Fin 8) * (Fin (- 1) + e) * Power (Fin 1 + e) (Fin
           5) * Power p (Fin 3) * Power (Fin (- 1) + x) (Fin 3) * Power (Fin 1 + x) (Fin 3) * (Fin
           7 - Fin 7 * Power x (Fin 2) - Power e (Fin 2) * (Fin (- 13) + Power x (Fin 2)) + Power
           e (Fin 3) * (Fin (- 5) + Power x (Fin 2)) + Fin 7 * e * (Fin (- 1) + Power x (Fin 2)))
           + Fin 8 * Power a (Fin 6) * (Fin (- 1) + e) * Power (Fin 1 + e) (Fin 3) * Power p (Fin
           5) * Power (Fin (- 1) + Power x (Fin 2)) (Fin 2) * (Fin 3 + e + Fin 12 * Power x (Fin
           2) + Fin 4 * e * Power x (Fin 2) + Power e (Fin 3) * (Fin (- 5) + Fin 2 * Power x (Fin
           2)) + Power e (Fin 2) * (Fin 1 + Fin 2 * Power x (Fin 2))) - Fin 8 * Power a (Fin 4) *
           Power (Fin 1 + e) (Fin 2) * Power p (Fin 7) * (Fin (- 1) + x) * (Fin 1 + x) * (Fin (-
           3) + e + Fin 15 * Power x (Fin 2) - Fin 5 * e * Power x (Fin 2) + Power e (Fin 3) *
           (Fin (- 5) + Fin 3 * Power x (Fin 2)) + Power e (Fin 2) * (Fin (- 1) + Fin 3 * Power x
           (Fin 2))) + Fin 4 * Power a (Fin 2) * Power p (Fin 9) * (Fin (- 7) - Fin 7 * e + Power
           e (Fin 3) * (Fin (- 5) + Fin 4 * Power x (Fin 2)) + Power e (Fin 2) * (Fin (- 13) + Fin
           12 * Power x (Fin 2))) + Fin 2 * Power a (Fin 8) * Power (Fin (- 1) + e) (Fin 2) *
           Power (Fin 1 + e) (Fin 6) * Power p (Fin 2) * Power (Fin (- 1) + Power x (Fin 2)) (Fin
           3) * (Fin 2 * Power (Fin (- 3) + e) (Fin 2) * (Fin (- 1) + Power x (Fin 2)) + Power a
           (Fin 2) * (Power e (Fin 2) * (Fin (- 3) + Power x (Fin 2)) - Fin 3 * (Fin 1 + Power x
           (Fin 2)) + Fin 2 * e * (Fin 1 + Power x (Fin 2)))) - Fin 2 * Power p (Fin 10) * (Fin (-
           2) * Power (Fin 3 + e) (Fin 2) + Power a (Fin 2) * (Fin (- 3) + Fin 6 * Power x (Fin 2)
           + Power e (Fin 2) * (Fin (- 3) + Fin 2 * Power x (Fin 2)) + e * (Fin (- 2) + Fin 4 *
           Power x (Fin 2)))) + Power a (Fin 6) * Power (Fin 1 + e) (Fin 4) * Power p (Fin 4) *
           Power (Fin (- 1) + Power x (Fin 2)) (Fin 2) * (Fin (- 16) * Power (Fin (- 1) + e) (Fin
           2) * (Fin (- 3) - Fin 2 * e + Power e (Fin 2)) * (Fin (- 1) + Power x (Fin 2)) + Power
           a (Fin 2) * (Fin 15 + Fin 6 * Power x (Fin 2) + Fin 9 * Power x (Fin 4) + Power e (Fin
           2) * (Fin 26 + Fin 20 * Power x (Fin 2) - Fin 2 * Power x (Fin 4)) + Power e (Fin 4) *
           (Fin 15 - Fin 10 * Power x (Fin 2) + Power x (Fin 4)) + Fin 4 * Power e (Fin 3) * (Fin
           (- 5) - Fin 2 * Power x (Fin 2) + Power x (Fin 4)) - Fin 4 * e * (Fin 5 + Fin 2 * Power
           x (Fin 2) + Fin 3 * Power x (Fin 4)))) - Fin 4 * Power a (Fin 4) * Power (Fin 1 + e)
           (Fin 2) * Power p (Fin 6) * (Fin (- 1) + x) * (Fin 1 + x) * (Fin (- 2) * (Fin 11 - Fin
           14 * Power e (Fin 2) + Fin 3 * Power e (Fin 4)) * (Fin (- 1) + Power x (Fin 2)) + Power
           a (Fin 2) * (Fin 5 - Fin 5 * Power x (Fin 2) - Fin 9 * Power x (Fin 4) + Fin 4 * Power
           e (Fin 3) * Power x (Fin 2) * (Fin (- 2) + Power x (Fin 2)) + Power e (Fin 4) * (Fin 5
           - Fin 5 * Power x (Fin 2) + Power x (Fin 4)) + Power e (Fin 2) * (Fin 6 - Fin 6 * Power
           x (Fin 2) + Fin 4 * Power x (Fin 4)))) + Power a (Fin 2) * Power p (Fin 8) * (Fin (-
           16) * Power (Fin 1 + e) (Fin 2) * (Fin (- 3) + Fin 2 * e + Power e (Fin 2)) * (Fin (-
           1) + Power x (Fin 2)) + Power a (Fin 2) * (Fin 15 - Fin 36 * Power x (Fin 2) + Fin 30 *
           Power x (Fin 4) + Power e (Fin 4) * (Fin 15 - Fin 20 * Power x (Fin 2) + Fin 6 * Power
           x (Fin 4)) + Fin 4 * Power e (Fin 3) * (Fin 5 - Fin 12 * Power x (Fin 2) + Fin 6 *
           Power x (Fin 4)) + Fin 4 * e * (Fin 5 - Fin 12 * Power x (Fin 2) + Fin 10 * Power x
           (Fin 4)) + Power e (Fin 2) * (Fin 26 - Fin 72 * Power x (Fin 2) + Fin 44 * Power x (Fin
           4)))))"

definition separatrix_polynomial_polar :: "double \<Rightarrow> params_holder \<Rightarrow> double" where
  "separatrix_polynomial_polar p params =
     (let a = params_a params; e = params_e params; x = params_x params
      in Power a (Fin 6) * Power (Fin (- 1) + e) (Fin 2) * Power (Fin 1 + e) (Fin 4) + Power p
           (Fin 5) * (Fin (- 6) - Fin 2 * e + p) + Power a (Fin 2) * Power p (Fin 3) * (Fin (- 4)
           * (Fin (- 1) + e) * Power (Fin 1 + e) (Fin 2) + (Fin 3 + e * (Fin 2 + Fin 3 * e)) * p)
           - Power a (Fin 4) * Power (Fin 1 + e) (Fin 2) * p * (Fin 6 + Fin 2 * Power e (Fin 3) +
           Fin 2 * e * (Fin (- 1) + p) - Fin 3 * p - Fin 3 * Power e (Fin 2) * (Fin 2 + p)))"

definition separatrix_polynomial_equat :: "double \<Rightarrow> params_holder \<Rightarrow> double" where
  "separatrix_polynomial_equat p params =
     (let a = params_a params; e = params_e params; x = params_x params
      in Power a (Fin 4) * Power (Fin (- 3) - Fin 2 * e + Power e (Fin 2)) (Fin 2) + Power p
           (Fin 2) * Power (Fin (- 6) - Fin 2 * e + p) (Fin 2) - Fin 2 * Power a (Fin 2) * (Fin 1
           + e) * p * (Fin 14 + Fin 2 * Power e (Fin 2) + Fin 3 * p - e * p))"

text \<open>
  The bracketing root solver is the library's Brent solver, a parameter of the model:
  \<open>'s\<close> is the type of its state, each function is named as the library names it. The
  error handler of the library is switched off, so a failing call only returns its
  status.
\<close>

record 's gsl_root_fsolver =
  gsl_root_fsolver_alloc :: "'s"
  gsl_root_fsolver_set :: "'s \<Rightarrow> (double \<Rightarrow> double) \<Rightarrow> double \<Rightarrow> double \<Rightarrow> int \<times> 's"
  gsl_root_fsolver_iterate :: "'s \<Rightarrow> int \<times> 's"
  gsl_root_fsolver_root :: "'s \<Rightarrow> double"
  gsl_root_fsolver_x_lower :: "'s \<Rightarrow> double"
  gsl_root_fsolver_x_upper :: "'s \<Rightarrow> double"
  gsl_root_test_interval :: "double \<Rightarrow> double \<Rightarrow> double \<Rightarrow> double \<Rightarrow> int"

text \<open>The \<^verbatim>\<open>do ... while\<close> loop of \<^verbatim>\<open>solver\<close>, from the value of \<^verbatim>\<open>iter\<close> on.\<close>

function solver_iterations ::
    "'s gsl_root_fsolver \<Rightarrow> double \<Rightarrow> int \<Rightarrow> 's \<Rightarrow> int \<Rightarrow> int \<times> int \<times> double \<times> double \<times> double" where
  "solver_iterations R epsrel max_iter s iter =
     (let iter' = iter + 1;
          status_iterate = fst (gsl_root_fsolver_iterate R s);
          s' = snd (gsl_root_fsolver_iterate R s);
          r = gsl_root_fsolver_root R s';
          x_lo = gsl_root_fsolver_x_lower R s';
          x_hi = gsl_root_fsolver_x_upper R s';
          status = gsl_root_test_interval R x_lo x_hi (Fin 0) epsrel
      in if status = GSL_CONTINUE \<and> iter' < max_iter
         then solver_iterations R epsrel max_iter s' iter'
         else (status, iter', r, x_lo, x_hi))"
  by pat_completeness auto
termination
  by (relation "measure (\<lambda>(R, epsrel, max_iter, s, iter). nat (max_iter - iter))") auto

declare solver_iterations.simps [simp del]

text \<open>
  \<^verbatim>\<open>solver\<close> calls \<^verbatim>\<open>get_separatrix\<close> for its diagnostic and \<^verbatim>\<open>get_separatrix\<close>
  calls \<^verbatim>\<open>solver\<close>. The first argument after the library is the number of nested
  diagnostics the run may make; \<open>None\<close> is a run that needs more.
\<close>

definition bind_opt :: "'a res option \<Rightarrow> ('a \<Rightarrow> 'b res option) \<Rightarrow> 'b res option" where
  "bind_opt m k =
     (case m of
        None \<Rightarrow> None
      | Some (out, Inl ex) \<Rightarrow> Some (out, Inl ex)
      | Some (out, Inr v) \<Rightarrow>
          (case k v of None \<Rightarrow> None | Some (out', r) \<Rightarrow> Some (out @ out', r)))"

function solver ::
    "'s gsl_root_fsolver \<Rightarrow> nat \<Rightarrow> params_holder \<Rightarrow> (double \<Rightarrow> params_holder \<Rightarrow> double)
     \<Rightarrow> double \<Rightarrow> double \<Rightarrow> double res option"
  and get_separatrix :: "'s gsl_root_fsolver \<Rightarrow> nat \<Rightarrow> double \<Rightarrow> double \<Rightarrow> double \<Rightarrow> double res option" where
  "solver R n params func x_lo x_hi =
     (let max_iter = 1000;
          status_set = fst (gsl_root_fsolver_set R (gsl_root_fsolver_alloc R) (\<lambda>v. func v params) x_lo x_hi);
          s = snd (gsl_root_fsolver_set R (gsl_root_fsolver_alloc R) (\<lambda>v. func v params) x_lo x_hi);
          epsrel = lit 0.001;
          (status, iter, r, x_lo, x_hi) = solver_iterations R epsrel max_iter s 0
      in if status \<noteq> GSL_SUCCESS
         then (if iter = max_iter
               then (case n of
                       0 \<Rightarrow> None
                     | Suc m \<Rightarrow>
                         (case get_separatrix R m (params_a params) (params_e params) r of
                            None \<Rightarrow> None
                          | Some (out, Inl ex) \<Rightarrow>
                              Some ([Printf_max_iteration, Printf_result r x_lo x_hi] @ out, Inl ex)
                          | Some (out, Inr sep) \<Rightarrow>
                              Some ([Printf_max_iteration, Printf_result r x_lo x_hi] @ out
                                    @ [Printf_sep (params_a params) (params_p params) (params_e params)
                                         (params_Y params) sep], Inr r)))
               else Some (throw Brent_root_solver_failed))
         else Some (ret r))"
| "get_separatrix R n a e x =
     (if deq a (Fin 0) then Some (ret (Fin 6 + Fin 2 * e))
      else if deq e (Fin 0) \<and> deq \<bar>x\<bar> (Fin 1) then
        (let z1 = Fin 1 + pow (Fin 1 - pow a (Fin 2)) (Fin 1 / Fin 3) * (pow (Fin 1 + a) (Fin 1
                    / Fin 3) + pow (Fin 1 - a) (Fin 1 / Fin 3));
             z2 = sqrt_d (Fin 3 * pow a (Fin 2) + pow z1 (Fin 2));
             sign = (if Fin 0 < x then Fin (- 1) else Fin 1)
         in Some (ret (Fin 3 + z2 + sign * sqrt_d ((Fin 3 - z1) * (Fin 3 + z1 + Fin 2 * z2)))))
      else
        (let params = \<lparr>params_a = a, params_p = Fin 0, params_e = e, params_x = x, params_Y = Fin 0\<rparr>;
             x_lo = Fin 1 + sqrt_d (Fin 3) + sqrt_d (Fin 3 + Fin 2 * sqrt_d (Fin 3));
             x_hi = Fin 8
         in bind_opt (solver R n params separatrix_polynomial_polar x_lo x_hi) (\<lambda>polar_p_sep.
            if deq x (Fin 0) then Some (ret polar_p_sep)
            else if Fin 0 < x then
              (let x_lo = Fin 1 + e;
                   x_hi = Fin 6 + Fin 2 * e
               in bind_opt (solver R n params separatrix_polynomial_equat x_lo x_hi) (\<lambda>equat_p_sep.
                  let x_lo = equat_p_sep;
                      x_hi = polar_p_sep
                  in solver R n params separatrix_polynomial_full x_lo x_hi))
            else
              (let x_lo = polar_p_sep;
                   x_hi = Fin 12
               in solver R n params separatrix_polynomial_full x_lo x_hi))))"
  by pat_completeness auto
termination
  by (relation "measure (\<lambda>v. case v of Inl (R, n, rest) \<Rightarrow> 2 * n | Inr (R, n, rest) \<Rightarrow> 2 * n + 1)") auto

declare solver.simps [simp del] get_separatrix.simps [simp del]

section \<open>Inclination mapping\<close>


definition YLIM :: double where
  "YLIM = lit 0.998"


section \<open>Right-hand sides of the orbital evolution\<close>

text \<open>
  The cells behind the pointer arguments of a \<^verbatim>\<open>deriv_func\<close> are a record; the function
  takes their content and returns it updated. The interpolants and
  \<^verbatim>\<open>KerrGeoEquatorialCoordinateFrequencies\<close> are not among the sources: they are
  parameters.
\<close>

record derivs =
  pdot :: double
  edot :: double
  xdot :: double
  Omega_phi :: double
  Omega_theta :: double
  Omega_r :: double

record interp_params =
  Edot_eval :: "double \<Rightarrow> double \<Rightarrow> double"
  Ldot_eval :: "double \<Rightarrow> double \<Rightarrow> double"

definition SchwarzEccFlux_deriv_func ::
    "gsl_sf_ellint \<Rightarrow> interp_params \<Rightarrow> derivs \<Rightarrow> double \<Rightarrow> double \<Rightarrow> double \<Rightarrow> double \<Rightarrow> double
     \<Rightarrow> derivs res" where
  "SchwarzEccFlux_deriv_func G interps st epsilon a p e x =
     (if p < Fin 6 + Fin 2 * e
      then ret (st\<lparr>pdot := Fin 0, edot := Fin 0, xdot := Fin 0\<rparr>)
      else bind_res (SchwarzschildGeoCoordinateFrequencies G p e) (\<lambda>(OmegaPhi, OmegaR).
        let st = st\<lparr>Omega_phi := OmegaPhi, Omega_r := OmegaR\<rparr>;
            st = st\<lparr>Omega_theta := Omega_phi st\<rparr>;
            Omega_phi_v = Omega_phi st;
            y1 = log_d (p - Fin 2 * e - lit 2.1);
            yPN = pow Omega_phi_v (Fin 2 / Fin 3);
            EdotPN = (Fin 96 + Fin 292 * Power e (Fin 2) + Fin 37 * Power e (Fin 4)) / (Fin 15 *
                       Power (Fin 1 - Power e (Fin 2)) (Fin 3.5)) * pow yPN (Fin 5);
            LdotPN = Fin 4 * (Fin 8 + Fin 7 * Power e (Fin 2)) / (Fin 5 * Power (Fin (- 1) +
                       Power e (Fin 2)) (Fin 2)) * pow yPN (Fin 7 / Fin 2);
            Edot_v = Edot_eval interps y1 e;
            Edot = - epsilon * (Edot_v * pow yPN (Fin 6) + EdotPN);
            Ldot_v = Ldot_eval interps y1 e;
            Ldot = - epsilon * (Ldot_v * pow yPN (Fin 9 / Fin 2) + LdotPN);
            st = st\<lparr>pdot := Fin (- 2) * (Edot * Sqrt ((Fin 4 * Power e (Fin 2) - Power
                                     (Fin (- 2) + p) (Fin 2)) / (Fin 3 + Power e (Fin 2) - p)) *
                                     (Fin 3 + Power e (Fin 2) - p) * Power p (Fin 1.5) + Ldot *
                                     Power (Fin (- 4) + p) (Fin 2) * Sqrt (Fin (- 3) - Power e
                                     (Fin 2) + p)) / (Fin 4 * Power e (Fin 2) - Power (Fin (- 6) +
                                     p) (Fin 2))\<rparr>;
            st = (if Fin 0 < e
                  then st\<lparr>edot := - ((Edot * Sqrt ((Fin 4 * Power e (Fin 2) - Power (Fin
                                           (- 2) + p) (Fin 2)) / (Fin 3 + Power e (Fin 2) - p)) *
                                           Power p (Fin 1.5) * (Fin 18 + Fin 2 * Power e (Fin 4) -
                                           Fin 3 * Power e (Fin 2) * (Fin (- 4) + p) - Fin 9 * p +
                                           Power p (Fin 2)) + (Fin (- 1) + Power e (Fin 2)) * Ldot
                                           * Sqrt (Fin (- 3) - Power e (Fin 2) + p) * (Fin 12 +
                                           Fin 4 * Power e (Fin 2) - Fin 8 * p + Power p (Fin 2)))
                                           / (e * (Fin 4 * Power e (Fin 2) - Power (Fin (- 6) + p)
                                           (Fin 2)) * p))\<rparr>
                  else st\<lparr>edot := Fin 0\<rparr>)
        in ret (st\<lparr>xdot := Fin 0\<rparr>)))"

record KerrEccentricEquatorial_env =
  pdot_interp_eval :: "double \<Rightarrow> double \<Rightarrow> double \<Rightarrow> double"
  edot_interp_eval :: "double \<Rightarrow> double \<Rightarrow> double \<Rightarrow> double"
  KerrGeoEquatorialCoordinateFrequencies ::
    "double \<Rightarrow> double \<Rightarrow> double \<Rightarrow> double \<Rightarrow> (double \<times> double \<times> double) res"

definition KerrEccentricEquatorial_deriv_func ::
    "'s gsl_root_fsolver \<Rightarrow> nat \<Rightarrow> KerrEccentricEquatorial_env \<Rightarrow> derivs
     \<Rightarrow> double \<Rightarrow> double \<Rightarrow> double \<Rightarrow> double \<Rightarrow> double \<Rightarrow> derivs res option" where
  "KerrEccentricEquatorial_deriv_func R n K st epsilon a p e x =
     bind_opt (get_separatrix R n a e x) (\<lambda>p_sep.
     if e < Fin 0 \<or> p < p_sep
     then Some (ret (st\<lparr>pdot := Fin 0, edot := Fin 0, xdot := Fin 0\<rparr>))
     else bind_opt (Some (KerrGeoEquatorialCoordinateFrequencies K a p e x))
       (\<lambda>(OmegaPhi, OmegaTheta, OmegaR).
        let st = st\<lparr>Omega_phi := OmegaPhi, Omega_theta := OmegaTheta, Omega_r := OmegaR\<rparr>;
            Omega_phi_v = Omega_phi st;
            Omega_phi_sep_circ = Fin 1 / (a + pow (p_sep / (Fin 1 + e)) (Fin 1.5));
            r = pow (Omega_phi_v / Omega_phi_sep_circ) (Fin 2 / Fin 3) * (Fin 1 + e)
        in if dne r r
           then Some ([Cout_nan_r a p e x r p_sep,
                       Cout_omega Omega_phi_sep_circ (Omega_phi st) (Omega_r st)], Inl Std_exception)
           else bind_opt (get_separatrix R n a (Fin 0) x) (\<lambda>risco.
             let u = log_d ((p - p_sep + Fin 4 - lit 0.05) / Fin 4);
                 w = sqrt_d e;
                 pdot_v = pdot_interp_eval K a u w;
                 pdot_out = pdot_v * (Fin 8 * pow (Fin 1 - pow e (Fin 2)) (Fin 1.5) * (Fin 8 +
                              Fin 7 * pow e (Fin 2)) / (Fin 5 * p * (pow (p - risco) (Fin 2) - pow
                              (- risco + p_sep) (Fin 2))));
                 edot_v = edot_interp_eval K a u w;
                 edot_out = edot_v * (pow (Fin 1 - pow e (Fin 2)) (Fin 1.5) * (Fin 304 + Fin 121
                              * pow e (Fin 2)) / (Fin 15 * pow p (Fin 2) * (pow (p - risco) (Fin
                              2) - pow (- risco + p_sep) (Fin 2))));
                 st = (if lit (1 / 1000000) < e
                       then st\<lparr>pdot := epsilon * pdot_out, edot := epsilon * edot_out\<rparr>
                       else st\<lparr>edot := Fin 0, pdot := epsilon * pdot_out\<rparr>)
             in Some (ret (st\<lparr>xdot := Fin 0\<rparr>)))))"

section \<open>Sample instances of the library interfaces\<close>

text \<open>
  Closed examples need a library. \<open>circular_ellint\<close> gives every complete integral the
  value it has at modulus and characteristic zero, \<open>\<pi>/2\<close>, and every incomplete
  integral its amplitude; \<open>failing_ellint\<close> reports a domain error for every call.
  \<open>midpoint_fsolver\<close> keeps the interval it is given, reports its midpoint as the root,
  refuses an interval whose end points have values of the same sign with \<open>GSL_EINVAL\<close>,
  and tests an interval as the library documents it.
\<close>

definition GSL_EDOM :: int where
  "GSL_EDOM = 1"

definition GSL_EINVAL :: int where
  "GSL_EINVAL = 4"

definition circular_ellint :: gsl_sf_ellint where
  "circular_ellint =
     \<lparr>gsl_sf_ellint_Kcomp_e = (\<lambda>k. (GSL_SUCCESS, M_PI / Fin 2)),
      gsl_sf_ellint_F_e = (\<lambda>phi k. (GSL_SUCCESS, phi)),
      gsl_sf_ellint_Ecomp_e = (\<lambda>k. (GSL_SUCCESS, M_PI / Fin 2)),
      gsl_sf_ellint_E_e = (\<lambda>phi k. (GSL_SUCCESS, phi)),
      gsl_sf_ellint_Pcomp_e = (\<lambda>k n. (GSL_SUCCESS, M_PI / Fin 2)),
      gsl_sf_ellint_P_e = (\<lambda>phi k n. (GSL_SUCCESS, phi))\<rparr>"

definition failing_ellint :: gsl_sf_ellint where
  "failing_ellint =
     \<lparr>gsl_sf_ellint_Kcomp_e = (\<lambda>k. (GSL_EDOM, NaN)),
      gsl_sf_ellint_F_e = (\<lambda>phi k. (GSL_EDOM, NaN)),
      gsl_sf_ellint_Ecomp_e = (\<lambda>k. (GSL_EDOM, NaN)),
      gsl_sf_ellint_E_e = (\<lambda>phi k. (GSL_EDOM, NaN)),
      gsl_sf_ellint_Pcomp_e = (\<lambda>k n. (GSL_EDOM, NaN)),
      gsl_sf_ellint_P_e = (\<lambda>phi k n. (GSL_EDOM, NaN))\<rparr>"

definition midpoint_fsolver :: "(double \<times> double) gsl_root_fsolver" where
  "midpoint_fsolver =
     \<lparr>gsl_root_fsolver_alloc = (Fin 0, Fin 0),
      gsl_root_fsolver_set = (\<lambda>s func x_lo x_hi.
        (if (func x_lo < Fin 0 \<and> func x_hi < Fin 0) \<or> (Fin 0 < func x_lo \<and> Fin 0 < func x_hi)
         then GSL_EINVAL else GSL_SUCCESS, (x_lo, x_hi))),
      gsl_root_fsolver_iterate = (\<lambda>s. (GSL_SUCCESS, s)),
      gsl_root_fsolver_root = (\<lambda>s. Fin 0.5 * (fst s + snd s)),
      gsl_root_fsolver_x_lower = fst,
      gsl_root_fsolver_x_upper = snd,
      gsl_root_test_interval = (\<lambda>x_lo x_hi epsabs epsrel.
        if \<bar>x_hi - x_lo\<bar> < epsabs + epsrel * min \<bar>x_lo\<bar> \<bar>x_hi\<bar> then GSL_SUCCESS else GSL_CONTINUE)\<rparr>"

section \<open>Definitions for the statements\<close>

text \<open>
  The staged strategy for the separatrix as the specification words it: the polar
  polynomial on its fixed bracket, then for a positive \<open>x\<close> the equatorial polynomial and
  the full polynomial between the two roots, for a negative \<open>x\<close> the full polynomial
  between the polar root and 12.
\<close>

definition staged_separatrix ::
    "'s gsl_root_fsolver \<Rightarrow> nat \<Rightarrow> double \<Rightarrow> double \<Rightarrow> double \<Rightarrow> double res option" where
  "staged_separatrix R n a e x =
     (let params = \<lparr>params_a = a, params_p = Fin 0, params_e = e, params_x = x, params_Y = Fin 0\<rparr>
      in bind_opt (solver R n params separatrix_polynomial_polar
                     (Fin 1 + sqrt_d (Fin 3) + sqrt_d (Fin 3 + Fin 2 * sqrt_d (Fin 3))) (Fin 8))
           (\<lambda>polar_p_sep.
              if x = Fin 0 then Some (ret polar_p_sep)
              else if Fin 0 < x then
                bind_opt (solver R n params separatrix_polynomial_equat (Fin 1 + e) (Fin 6 + Fin 2 * e))
                  (\<lambda>equat_p_sep. solver R n params separatrix_polynomial_full equat_p_sep polar_p_sep)
              else solver R n params separatrix_polynomial_full polar_p_sep (Fin 12)))"

text \<open>The real number a run returns, 0 when it returns none.\<close>

definition returned_real :: "double res option \<Rightarrow> real" where
  "returned_real r = (case r of Some (out, Inr (Fin v)) \<Rightarrow> v | _ \<Rightarrow> 0)"

text \<open>
  The library \<open>R\<close>, except that setting up the solver and a step of it report the
  statuses \<open>st_set\<close> and \<open>st_iterate\<close>.
\<close>

definition with_status :: "int \<Rightarrow> int \<Rightarrow> 's gsl_root_fsolver \<Rightarrow> 's gsl_root_fsolver" where
  "with_status st_set st_iterate R =
     R\<lparr>gsl_root_fsolver_set := (\<lambda>s func x_lo x_hi. (st_set, snd (gsl_root_fsolver_set R s func x_lo x_hi))),
       gsl_root_fsolver_iterate := (\<lambda>s. (st_iterate, snd (gsl_root_fsolver_iterate R s)))\<rparr>"

text \<open>Cells and interpolants for closed examples of the right-hand sides.\<close>

definition st0 :: derivs where
  "st0 = \<lparr>pdot = Fin 1, edot = Fin 1, xdot = Fin 1, Omega_phi = Fin 1, Omega_theta = Fin 1, Omega_r = Fin 1\<rparr>"

definition zero_interps :: interp_params where
  "zero_interps = \<lparr>Edot_eval = (\<lambda>y e. Fin 0), Ldot_eval = (\<lambda>y e. Fin 0)\<rparr>"

definition zero_env :: KerrEccentricEquatorial_env where
  "zero_env =
     \<lparr>pdot_interp_eval = (\<lambda>a u w. Fin 0),
      edot_interp_eval = (\<lambda>a u w. Fin 0),
      KerrGeoEquatorialCoordinateFrequencies = (\<lambda>a p e x. ret (Fin 0, Fin 0, Fin 0))\<rparr>"

text \<open>
  What the loop of the batch form has done at index \<open>j\<close> once it is past it, and what
  a run of the loop from index \<open>i\<close> establishes.
\<close>

definition index_done ::
    "gsl_sf_ellint \<Rightarrow> double list \<Rightarrow> double list \<Rightarrow> double list \<Rightarrow> double list
     \<Rightarrow> double list \<times> double list \<times> double list \<Rightarrow> nat \<Rightarrow> bool" where
  "index_done G a p e x outs j =
     (case outs of (OmegaPhi, OmegaTheta, OmegaR) \<Rightarrow>
        if dne (a ! j) (Fin 0)
        then snd (KerrGeoCoordinateFrequencies G (a ! j) (p ! j) (e ! j) (x ! j))
               = Inr (OmegaPhi ! j, OmegaTheta ! j, OmegaR ! j)
        else snd (SchwarzschildGeoCoordinateFrequencies G (p ! j) (e ! j)) = Inr (OmegaPhi ! j, OmegaR ! j)
             \<and> OmegaTheta ! j = OmegaPhi ! j)"

definition loop_post ::
    "gsl_sf_ellint \<Rightarrow> double list \<Rightarrow> double list \<Rightarrow> double list \<Rightarrow> double list \<Rightarrow> int \<Rightarrow> int
     \<Rightarrow> double list \<times> double list \<times> double list \<Rightarrow> double list \<times> double list \<times> double list \<Rightarrow> bool" where
  "loop_post G a p e x len i ins outs =
     ((\<forall>j. i \<le> int j \<and> int j < len \<longrightarrow> index_done G a p e x outs j)
      \<and> (\<forall>j. int j < i \<longrightarrow> fst outs ! j = fst ins ! j \<and> fst (snd outs) ! j = fst (snd ins) ! j
                              \<and> snd (snd outs) ! j = snd (snd ins) ! j))"

text \<open>
  \<open>halving_fsolver\<close> is a second sample of the root solver. It refuses an interval whose
  end points have values of the same sign as \<open>midpoint_fsolver\<close> does; each step moves the
  lower end of the interval to its midpoint and reports it as the root, as a bisection
  does while the function keeps the sign it has at the lower end.
\<close>

definition halving_fsolver :: "(double \<times> double) gsl_root_fsolver" where
  "halving_fsolver =
     \<lparr>gsl_root_fsolver_alloc = (Fin 0, Fin 0),
      gsl_root_fsolver_set = (\<lambda>s func x_lo x_hi.
        (if (func x_lo < Fin 0 \<and> func x_hi < Fin 0) \<or> (Fin 0 < func x_lo \<and> Fin 0 < func x_hi)
         then GSL_EINVAL else GSL_SUCCESS, (x_lo, x_hi))),
      gsl_root_fsolver_iterate = (\<lambda>s. (GSL_SUCCESS, (Fin 0.5 * (fst s + snd s), snd s))),
      gsl_root_fsolver_root = fst,
      gsl_root_fsolver_x_lower = fst,
      gsl_root_fsolver_x_upper = snd,
      gsl_root_test_interval = (\<lambda>x_lo x_hi epsabs epsrel.
        if \<bar>x_hi - x_lo\<bar> < epsabs + epsrel * min \<bar>x_lo\<bar> \<bar>x_hi\<bar> then GSL_SUCCESS else GSL_CONTINUE)\<rparr>"

definition failing_env :: KerrEccentricEquatorial_env where
  "failing_env =
     \<lparr>pdot_interp_eval = (\<lambda>a u w. Fin 0),
      edot_interp_eval = (\<lambda>a u w. Fin 0),
      KerrGeoEquatorialCoordinateFrequencies = (\<lambda>a p e x. throw Nan_in_fundamental_frequencies)\<rparr>"

section \<open>Rounding\<close>

lemma round_even_bounds: "\<bar>of_int (round_even q) - q\<bar> \<le> 1 / 2"
  unfolding round_even_def Let_def by (auto; linarith)

lemma round_even_of_int [simp]: "round_even (of_int z) = z"
  unfolding round_even_def Let_def by simp

lemma round_even_nonneg: "0 \<le> q \<Longrightarrow> 0 \<le> round_even q"
  unfolding round_even_def Let_def by (auto; linarith)

lemma round_even_nonpos: "q \<le> 0 \<Longrightarrow> round_even q \<le> 0"
  unfolding round_even_def Let_def by (auto; linarith)

lemma powi2_le_iff: "(2::real) powi a \<le> 2 powi b \<longleftrightarrow> a \<le> b"
proof
  assume h: "(2::real) powi a \<le> 2 powi b"
  show "a \<le> b"
  proof (rule ccontr)
    assume "\<not> a \<le> b"
    then have "(2::real) powi b < 2 powi a" by (intro power_int_strict_increasing) auto
    with h show False by simp
  qed
qed (auto intro: power_int_increasing)

lemma powi2_less_iff: "(2::real) powi a < 2 powi b \<longleftrightarrow> a < b"
  using powi2_le_iff [of b a] by (auto simp: not_le [symmetric])

lemma powr2_of_int: "(2::real) powr (of_int k) = 2 powi k"
  by (rule powr_real_of_int') auto

lemma floor_log2_bounds:
  assumes "x \<noteq> 0"
  shows "2 powi \<lfloor>log 2 \<bar>x\<bar>\<rfloor> \<le> \<bar>x\<bar>" and "\<bar>x\<bar> < 2 powi (\<lfloor>log 2 \<bar>x\<bar>\<rfloor> + 1)"
proof -
  have pos: "0 < \<bar>x\<bar>" using assms by simp
  have "\<lfloor>log 2 \<bar>x\<bar>\<rfloor> = \<lfloor>log 2 \<bar>x\<bar>\<rfloor>" ..
  then have "2 powr (of_int \<lfloor>log 2 \<bar>x\<bar>\<rfloor>) \<le> \<bar>x\<bar> \<and> \<bar>x\<bar> < 2 powr (of_int \<lfloor>log 2 \<bar>x\<bar>\<rfloor> + 1)"
    using floor_log_eq_powr_iff [OF pos, of 2 "\<lfloor>log 2 \<bar>x\<bar>\<rfloor>"] by simp
  then show "2 powi \<lfloor>log 2 \<bar>x\<bar>\<rfloor> \<le> \<bar>x\<bar>" and "\<bar>x\<bar> < 2 powi (\<lfloor>log 2 \<bar>x\<bar>\<rfloor> + 1)"
    using powr2_of_int [of "\<lfloor>log 2 \<bar>x\<bar>\<rfloor>"] powr2_of_int [of "\<lfloor>log 2 \<bar>x\<bar>\<rfloor> + 1"] by simp_all
qed

lemma floor_log2_eq:
  assumes "2 powi k \<le> \<bar>x\<bar>" "\<bar>x\<bar> < 2 powi (k + 1)"
  shows "\<lfloor>log 2 \<bar>x\<bar>\<rfloor> = k"
proof -
  have "(0::real) < 2 powi k" by simp
  then have pos: "0 < \<bar>x\<bar>" using assms(1) by linarith
  show ?thesis
    using assms floor_log_eq_powr_iff [OF pos, of 2 k] powr2_of_int [of k] powr2_of_int [of "k + 1"]
    by simp
qed

lemma ulp_exp_le: assumes "x \<noteq> 0" "\<bar>x\<bar> \<le> 2 ^ 1023" shows "ulp_exp x \<le> 971"
proof -
  have "(2::real) ^ 1023 = 2 powi 1023" by simp
  then have "2 powi \<lfloor>log 2 \<bar>x\<bar>\<rfloor> \<le> (2::real) powi 1023"
    using floor_log2_bounds(1) [OF assms(1)] assms(2) by linarith
  then have "\<lfloor>log 2 \<bar>x\<bar>\<rfloor> \<le> 1023" using powi2_le_iff [of "\<lfloor>log 2 \<bar>x\<bar>\<rfloor>" 1023] by blast
  then show ?thesis unfolding ulp_exp_def by simp
qed

text \<open>The result of rounding, with the error bound of half a unit in the last place.\<close>

lemma rnd_cases:
  assumes "x \<noteq> 0" "\<bar>x\<bar> \<le> 2 ^ 1023"
  obtains y where "rnd x = Fin y" "\<bar>y - x\<bar> \<le> 2 powi (ulp_exp x) / 2"
    "y = of_int (round_even (x / 2 powi (ulp_exp x))) * 2 powi (ulp_exp x)"
proof -
  define u :: real where "u = 2 powi (ulp_exp x)"
  define m where "m = round_even (x / u)"
  have u0: "0 < u" unfolding u_def by simp
  have "u \<le> 2 powi 971" unfolding u_def using ulp_exp_le [OF assms] by (intro power_int_increasing) auto
  then have u971: "u \<le> 2 ^ 971" by simp
  have "\<bar>of_int m - x / u\<bar> \<le> 1 / 2" unfolding m_def by (rule round_even_bounds)
  then have err: "\<bar>of_int m * u - x\<bar> \<le> u / 2" using u0 by (simp add: field_simps abs_le_iff)
  then have "\<bar>of_int m * u\<bar> \<le> \<bar>x\<bar> + u / 2" by linarith
  also have "\<dots> \<le> 2 ^ 1023 + 2 ^ 971 / 2" using assms u971 by linarith
  also have "\<dots> < (2 :: real) ^ 1024" by simp
  finally have "\<not> 2 ^ 1024 \<le> \<bar>of_int m * u\<bar>" by simp
  then have "rnd x = Fin (of_int m * u)"
    using assms(1) unfolding rnd_def Let_def u_def [symmetric] m_def [symmetric] by simp
  then show ?thesis using err that unfolding u_def m_def by blast
qed


lemma rnd_not_NaN [simp]: "rnd x \<noteq> NaN"
  unfolding rnd_def Let_def by simp

lemma rnd_0 [simp]: "rnd 0 = Fin 0"
  by (simp add: rnd_def)

text \<open>A number \<open>m * 2\<^sup>k\<close> with a significand of at most 53 bits is its own rounding.\<close>

lemma rnd_exact:
  assumes "x = of_int m * 2 powi k" "\<bar>m\<bar> < 2 ^ 53" "- 1074 \<le> k" "k \<le> 970"
  shows "rnd x = Fin x"
proof (cases "x = 0")
  case True then show ?thesis by simp
next
  case False
  have xle: "\<bar>x\<bar> < 2 powi (k + 53)"
  proof -
    have "\<bar>x\<bar> = \<bar>of_int m\<bar> * 2 powi k" unfolding assms(1) by (simp add: abs_mult)
    also have "\<dots> < 2 ^ 53 * 2 powi k" using assms(2) by (intro mult_strict_right_mono) (simp_all flip: of_int_abs)
    also have "\<dots> = 2 powi (k + 53)" by (simp add: power_int_add)
    finally show ?thesis .
  qed
  have "(2::real) powi (k + 53) \<le> 2 powi 1023" using assms(4) by (intro power_int_increasing) auto
  moreover have "(2::real) ^ 1023 = 2 powi 1023" by simp
  ultimately have x1023: "\<bar>x\<bar> \<le> 2 ^ 1023" using xle by linarith
  have "2 powi \<lfloor>log 2 \<bar>x\<bar>\<rfloor> < (2::real) powi (k + 53)"
    using floor_log2_bounds(1) [OF False] xle by linarith
  then have "\<lfloor>log 2 \<bar>x\<bar>\<rfloor> < k + 53" using powi2_less_iff [of "\<lfloor>log 2 \<bar>x\<bar>\<rfloor>" "k + 53"] by blast
  then have jk: "ulp_exp x \<le> k" unfolding ulp_exp_def using assms(3) by simp
  define j where "j = ulp_exp x"
  have "x / 2 powi j = of_int m * 2 powi (k - j)" unfolding assms(1) by (simp add: power_int_diff)
  also have "\<dots> = of_int (m * 2 ^ nat (k - j))" using jk unfolding j_def by (simp add: power_int_def)
  finally have q: "x / 2 powi j = of_int (m * 2 ^ nat (k - j))" .
  obtain y where y: "rnd x = Fin y" "y = of_int (round_even (x / 2 powi (ulp_exp x))) * 2 powi (ulp_exp x)"
    using rnd_cases [OF False x1023] by metis
  have r: "round_even (x / 2 powi j) = m * 2 ^ nat (k - j)" unfolding q by (rule round_even_of_int)
  have "y = of_int (m * 2 ^ nat (k - j)) * 2 powi j" unfolding y(2) j_def [symmetric] r ..
  also have "\<dots> = x / 2 powi j * 2 powi j" unfolding q ..
  also have "\<dots> = x" by simp
  finally show ?thesis using y(1) by simp
qed

lemma rnd_of_int: "\<bar>m\<bar> < 2 ^ 53 \<Longrightarrow> rnd (of_int m) = Fin (of_int m)"
  by (rule rnd_exact [where m = m and k = 0]) simp_all

text \<open>Away from underflow and overflow the relative error is at most \<open>2\<^sup>-\<^sup>5\<^sup>3\<close>.\<close>

lemma rnd_approx:
  assumes "2 powi (- 1022) \<le> \<bar>x\<bar>" "\<bar>x\<bar> \<le> 2 ^ 1023"
  obtains y where "rnd x = Fin y" "\<bar>y - x\<bar> \<le> \<bar>x\<bar> / 2 ^ 53"
proof -
  have "(0::real) < 2 powi (- 1022)" by simp
  then have nz: "x \<noteq> 0" using assms(1) by auto
  define e where "e = \<lfloor>log 2 \<bar>x\<bar>\<rfloor>"
  have "(2::real) powi (- 1022) < 2 powi (e + 1)"
    using floor_log2_bounds(2) [OF nz] assms(1) unfolding e_def by linarith
  then have "- 1022 < e + 1" using powi2_less_iff [of "- 1022" "e + 1"] by blast
  then have "- 1022 \<le> e" by simp
  then have "max (e - 52) (- 1074) = e - 52" by simp
  then have ue: "ulp_exp x = e - 52" unfolding ulp_exp_def e_def [symmetric] .
  obtain y where y: "rnd x = Fin y" "\<bar>y - x\<bar> \<le> 2 powi (ulp_exp x) / 2"
    using rnd_cases [OF nz assms(2)] by metis
  have "2 powi (ulp_exp x) / 2 = 2 powi e / (2::real) ^ 53"
    unfolding ue by (simp add: power_int_diff)
  also have "\<dots> \<le> \<bar>x\<bar> / 2 ^ 53"
    using floor_log2_bounds(1) [OF nz] unfolding e_def by (simp add: divide_right_mono)
  finally show ?thesis using y that by force
qed

lemma rnd_sign:
  assumes "rnd x = Fin y"
  shows "(0 \<le> x \<longrightarrow> 0 \<le> y) \<and> (x \<le> 0 \<longrightarrow> y \<le> 0)"
proof (cases "x = 0")
  case True then show ?thesis using assms by simp
next
  case False
  define u :: real where "u = 2 powi (ulp_exp x)"
  have u0: "0 < u" unfolding u_def by simp
  have y: "y = of_int (round_even (x / u)) * u"
    using assms False unfolding rnd_def Let_def u_def by (auto split: if_splits)
  show ?thesis
  proof (intro conjI impI)
    assume "0 \<le> x"
    then have "0 \<le> round_even (x / u)" using u0 by (intro round_even_nonneg) simp
    then show "0 \<le> y" unfolding y using u0 by simp
  next
    assume "x \<le> 0"
    then have "round_even (x / u) \<le> 0" using u0 by (intro round_even_nonpos) (simp add: divide_nonpos_pos)
    then show "y \<le> 0" unfolding y using u0 by (simp add: mult_nonpos_nonneg)
  qed
qed

lemma rnd_numeral [simp]: "numeral n < (2::int) ^ 53 \<Longrightarrow> rnd (numeral n) = Fin (numeral n)"
  using rnd_of_int [of "numeral n"] by simp

lemma rnd_neg_numeral [simp]: "numeral n < (2::int) ^ 53 \<Longrightarrow> rnd (- numeral n) = Fin (- numeral n)"
  using rnd_of_int [of "- numeral n"] by simp

lemma rnd_1 [simp]: "rnd 1 = Fin 1"
  using rnd_of_int [of 1] by simp

lemma rnd_neg_1 [simp]: "rnd (- 1) = Fin (- 1)"
  using rnd_of_int [of "- 1"] by simp

lemma rnd_half [simp]: "rnd (1 / 2) = Fin (1 / 2)"
  by (rule rnd_exact [where m = 1 and k = "- 1"]) simp_all

lemma YLIM_bounds: "\<exists>l. YLIM = Fin l \<and> 99 / 100 < l \<and> l < 1"
proof -
  obtain y where y: "rnd 0.998 = Fin y" "\<bar>y - 0.998\<bar> \<le> \<bar>0.998\<bar> / 2 ^ 53"
    by (rule rnd_approx [of "0.998"]) simp_all
  have "\<bar>0.998\<bar> / 2 ^ 53 \<le> (1 / 1000 :: real)" by simp
  then have "\<bar>y - 998 / 1000\<bar> \<le> 1 / 1000" using y(2) by simp
  then have "99 / 100 < y" "y < 1" by linarith+
  then show ?thesis using y(1) unfolding YLIM_def lit_def by simp
qed





lemma round_even_near: assumes "\<bar>q - of_int m\<bar> < 1 / 2" shows "round_even q = m"
proof -
  consider "of_int m \<le> q" | "q < of_int m" by linarith
  then show ?thesis
  proof cases
    case 1
    then have "\<lfloor>q\<rfloor> = m" using assms by (intro floor_unique) linarith+
    then show ?thesis using assms 1 unfolding round_even_def Let_def by auto
  next
    case 2
    have m1: "real_of_int (m - 1) = of_int m - 1" by simp
    have f: "\<lfloor>q\<rfloor> = m - 1" using assms 2 unfolding m1 by (intro floor_unique; unfold m1) linarith+
    have "1 / 2 < q - of_int (m - 1)" using assms 2 unfolding m1 by linarith
    then show ?thesis using f unfolding round_even_def Let_def by auto
  qed
qed

lemma rnd_eval:
  assumes "2 powi e \<le> \<bar>x\<bar>" "\<bar>x\<bar> < 2 powi (e + 1)" "- 1022 \<le> e" "e \<le> 1022"
    and "\<bar>x / 2 powi (e - 52) - of_int m\<bar> < 1 / 2"
  shows "rnd x = Fin (of_int m * 2 powi (e - 52))"
proof -
  have "\<not> (2::real) powi e \<le> 0" by (simp add: not_le)
  then have nz: "x \<noteq> 0" using assms(1) by auto
  have "(2::real) powi (e + 1) \<le> 2 powi 1023" using assms(4) by (intro power_int_increasing) auto
  moreover have "(2::real) ^ 1023 = 2 powi 1023" by simp
  ultimately have x1023: "\<bar>x\<bar> \<le> 2 ^ 1023" using assms(2) by linarith
  have fl: "\<lfloor>log 2 \<bar>x\<bar>\<rfloor> = e" using assms(1,2) by (rule floor_log2_eq)
  have "max (e - 52) (- 1074) = e - 52" using assms(3) by simp
  then have ue: "ulp_exp x = e - 52" unfolding ulp_exp_def fl .
  obtain y where y: "rnd x = Fin y" "y = of_int (round_even (x / 2 powi (ulp_exp x))) * 2 powi (ulp_exp x)"
    using rnd_cases [OF nz x1023] by metis
  have "round_even (x / 2 powi (e - 52)) = m" using assms(5) by (rule round_even_near)
  then show ?thesis using y unfolding ue by simp
qed

text \<open>A value within a quarter of a unit in the last place of a binary64 number rounds to it.\<close>

lemma rnd_near:
  assumes c: "c = of_int m * 2 powi k" and m: "2 ^ 52 \<le> m" "m < 2 ^ 53"
    and k: "- 1022 \<le> k" "k \<le> 970" and x: "\<bar>x - c\<bar> < 2 powi (k - 2)"
  shows "rnd x = Fin c"
proof -
  have k0: "(0::real) < 2 powi k" by simp
  have q4: "(2::real) powi (k - 2) = 2 powi k / 4" by (simp add: power_int_diff)
  have q2: "(2::real) powi (k - 1) = 2 powi k / 2" by (simp add: power_int_diff)
  have p52: "(2::real) powi (k + 52) = 2 ^ 52 * 2 powi k" by (simp add: power_int_add)
  have p53: "(2::real) powi (k + 53) = 2 ^ 53 * 2 powi k" by (simp add: power_int_add)
  have p51: "(2::real) powi (k + 51) = 2 ^ 51 * 2 powi k" by (simp add: power_int_add)
  have "m \<le> 2 ^ 53 - 1" using m(2) by simp
  then have "real_of_int m \<le> of_int (2 ^ 53 - 1)" by (simp only: of_int_le_iff)
  moreover have "real_of_int (2 ^ 52) \<le> of_int m" using m(1) by (simp only: of_int_le_iff)
  ultimately have mr: "(2::real) ^ 52 \<le> of_int m" "of_int m \<le> (2::real) ^ 53 - 1" by simp_all
  have clo: "2 ^ 52 * 2 powi k \<le> c" unfolding c using mr(1) k0 by (intro mult_right_mono) auto
  have chi: "c \<le> (2 ^ 53 - 1) * 2 powi k" unfolding c using mr(2) k0 by (intro mult_right_mono) auto
  have xq: "\<bar>x / 2 powi k - of_int m\<bar> < 1 / 4"
  proof -
    have "x / 2 powi k - of_int m = (x - c) / 2 powi k" unfolding c by (simp add: field_simps)
    then have "\<bar>x / 2 powi k - of_int m\<bar> = \<bar>x - c\<bar> / 2 powi k" by (simp add: abs_divide)
    also have "\<dots> < (2 powi k / 4) / 2 powi k" using x k0 unfolding q4 by (intro divide_strict_right_mono) auto
    also have "\<dots> = 1 / 4" by simp
    finally show ?thesis .
  qed
  have "2 powi k / 4 < 2 ^ 52 * (2::real) powi k" using k0 by simp
  then have xpos: "0 < x" using x clo k0 unfolding q4 by linarith
  show ?thesis
  proof (cases "2 powi (k + 52) \<le> x")
    case True
    have "x < c + 2 powi k / 4" using x unfolding q4 by linarith
    also have "\<dots> < 2 powi (k + 53)"
    proof -
      have "(2 ^ 53 - 1) * t + t / 4 < 2 ^ 53 * t" if "0 < t" for t :: real
        using that by (simp add: algebra_simps)
      from this [OF k0] show ?thesis unfolding p53 using chi by linarith
    qed
    finally have hi: "\<bar>x\<bar> < 2 powi (k + 52 + 1)" using xpos by (simp add: add.commute)
    have lo: "2 powi (k + 52) \<le> \<bar>x\<bar>" using True xpos by simp
    have kk: "k + 52 - 52 = k" by simp
    have "\<bar>z\<bar> < 1 / 2" if "\<bar>z\<bar> < 1 / 4" for z :: real using that by linarith
    from this [OF xq] have near: "\<bar>x / 2 powi (k + 52 - 52) - of_int m\<bar> < 1 / 2" unfolding kk .
    have "rnd x = Fin (of_int m * 2 powi (k + 52 - 52))"
      by (rule rnd_eval [OF lo hi _ _ near]) (use k in simp_all)
    then show ?thesis unfolding c by simp
  next
    case False
    then have xl: "x < 2 ^ 52 * 2 powi k" unfolding p52 by simp
    have cx: "c < x + 2 powi k / 4" using x unfolding q4 by linarith
    have expand: "(2 ^ 52 + 1 / 4) * t = 2 ^ 52 * t + t / 4" for t :: real
      by (simp add: algebra_simps)
    have "real_of_int m * 2 powi k < (2 ^ 52 + 1 / 4) * 2 powi k"
      unfolding expand using cx xl unfolding c by linarith
    then have "of_int m < (2::real) ^ 52 + 1 / 4" using k0 by (simp only: mult_less_cancel_right_pos)
    then have "of_int m < (2::real) ^ 52 + 1" by linarith
    then have "m < 2 ^ 52 + 1" by (simp flip: of_int_less_iff)
    then have m52: "m = 2 ^ 52" using m(1) by simp
    have ceq: "c = 2 ^ 52 * 2 powi k" unfolding c m52 by simp
    have lo: "2 powi (k + 51) \<le> \<bar>x\<bar>" unfolding p51 using cx ceq k0 xpos by (simp add: algebra_simps)
    have hi: "\<bar>x\<bar> < 2 powi (k + 51 + 1)" using xl xpos p52 by (simp add: add.commute)
    have "x / 2 powi (k - 1) - of_int (2 ^ 53 :: int) = 2 * (x / 2 powi k - of_int m)"
      unfolding q2 m52 by (simp add: field_simps)
    moreover have "k + 51 - 52 = k - 1" by simp
    moreover have "\<bar>2 * z\<bar> < 1 / 2" if "\<bar>z\<bar> < 1 / 4" for z :: real using that by linarith
    ultimately have near: "\<bar>x / 2 powi (k + 51 - 52) - of_int (2 ^ 53 :: int)\<bar> < 1 / 2"
      using xq by (simp only:)
    have "rnd x = Fin (of_int (2 ^ 53) * 2 powi (k + 51 - 52))"
      by (rule rnd_eval [OF lo hi _ _ near]) (use k in simp_all)
    also have "of_int (2 ^ 53) * 2 powi (k + 51 - 52) = c" unfolding ceq using q2 by simp
    finally show ?thesis .
  qed
qed

text \<open>The absolute error of rounding, underflow included.\<close>

lemma rnd_abs_le:
  assumes "\<bar>x\<bar> \<le> 2 ^ 1023"
  obtains y where "rnd x = Fin y" "\<bar>y - x\<bar> \<le> \<bar>x\<bar> / 2 ^ 53 + 2 powi (- 1075)"
proof (cases "x = 0")
  case True then show ?thesis using that [of 0] by simp
next
  case False
  obtain y where y: "rnd x = Fin y" "\<bar>y - x\<bar> \<le> 2 powi (ulp_exp x) / 2"
    using rnd_cases [OF False assms] by metis
  define e where "e = \<lfloor>log 2 \<bar>x\<bar>\<rfloor>"
  have ex: "2 powi e \<le> \<bar>x\<bar>" unfolding e_def by (rule floor_log2_bounds(1) [OF False])
  have "2 powi (ulp_exp x) / 2 \<le> \<bar>x\<bar> / 2 ^ 53 + 2 powi (- 1075)"
  proof (cases "- 1074 \<le> e - 52")
    case True
    then have "max (e - 52) (- 1074) = e - 52" by simp
    then have "ulp_exp x = e - 52" unfolding ulp_exp_def e_def [symmetric] .
    then have "2 powi (ulp_exp x) / 2 = 2 powi e / (2::real) ^ 53" by (simp add: power_int_diff)
    also have "\<dots> \<le> \<bar>x\<bar> / 2 ^ 53" using ex by (simp add: divide_right_mono)
    finally show ?thesis by (smt (verit) zero_less_power_int)
  next
    case False
    then have "max (e - 52) (- 1074) = - 1074" by simp
    then have "ulp_exp x = - 1074" unfolding ulp_exp_def e_def [symmetric] .
    moreover have "(2::real) powi (j - 1) = 2 powi j / 2" for j :: int by (simp add: power_int_diff)
    from this [of "- 1074"] have "(2::real) powi (- 1074) / 2 = 2 powi (- 1074 - 1)" by (rule sym)
    moreover have "(- 1074 :: int) - 1 = - 1075" by simp
    ultimately have "2 powi (ulp_exp x) / 2 = (2::real) powi (- 1075)" by (simp only:)
    then show ?thesis by simp
  qed
  then show ?thesis using y that by force
qed

lemma powi_neg_numeral: "(2::real) powi (- numeral n) = 1 / 2 ^ numeral n"
  by (simp add: power_int_def power_divide flip: power_inverse)

lemma one_normal: "(1::real) = of_int (2 ^ 52) * 2 powi (- 52)"
  by (simp add: powi_neg_numeral)

lemma rnd_near_1: assumes "\<bar>t\<bar> < 1 / 2 ^ 54" shows "rnd (1 + t) = Fin 1"
proof -
  have h: "\<bar>(1 + t) - 1\<bar> < 2 powi (- 52 - 2)" using assms by (simp add: powi_neg_numeral)
  show ?thesis by (rule rnd_near [OF one_normal _ _ _ _ h]) simp_all
qed

lemma nine_normal: "(9::real) = of_int (9 * 2 ^ 49) * 2 powi (- 49)"
  by (simp add: powi_neg_numeral)

lemma rnd_near_9: assumes "\<bar>t\<bar> < 1 / 2 ^ 51" shows "rnd (t + 9) = Fin 9"
proof -
  have h: "\<bar>(t + 9) - 9\<bar> < 2 powi (- 49 - 2)" using assms by (simp add: powi_neg_numeral)
  show ?thesis by (rule rnd_near [OF nine_normal _ _ _ _ h]) simp_all
qed

lemma third_fin: "\<exists>t. Fin 1 / Fin 3 = Fin t \<and> t \<noteq> 0"
proof -
  obtain y where y: "rnd (1 / 3) = Fin y" "\<bar>y - 1 / 3\<bar> \<le> \<bar>1 / 3\<bar> / 2 ^ 53"
    by (rule rnd_approx [of "1 / 3"]) (simp_all add: powi_neg_numeral)
  have "\<bar>1 / 3\<bar> / 2 ^ 53 \<le> (1 / 6 :: real)" by simp
  then have "y \<noteq> 0" using y(2) by linarith
  then show ?thesis using y(1) by simp
qed

text \<open>Rounding a small non-negative number gives a small non-negative number.\<close>

lemma rnd_small:
  assumes "0 \<le> x" "x \<le> 1 / 2 ^ 100"
  obtains y where "rnd x = Fin y" "0 \<le> y" "y \<le> 4 * x + 1 / 2 ^ 1000"
proof -
  have "x \<le> 1" using assms(2) by (rule order_trans) simp
  then have "\<bar>x\<bar> \<le> 2 ^ 1023" using assms(1) by (simp add: order_trans [OF _ one_le_power])
  then obtain y where y: "rnd x = Fin y" "\<bar>y - x\<bar> \<le> \<bar>x\<bar> / 2 ^ 53 + 2 powi (- 1075)"
    by (rule rnd_abs_le)
  have y0: "0 \<le> y" using rnd_sign [OF y(1)] assms(1) by simp
  have "\<bar>x\<bar> / 2 ^ 53 \<le> x" using assms(1) by (simp add: divide_le_eq mult_le_cancel_left1)
  moreover have "(2::real) powi (- 1075) \<le> 1 / 2 ^ 1000" by (simp add: powi_neg_numeral)
  ultimately have "y \<le> 4 * x + 1 / 2 ^ 1000" using y(2) assms(1) by linarith
  then show ?thesis using y(1) y0 that by blast
qed

lemma get_separatrix_small_spin:
  assumes "0 < a" "a \<le> 1 / 2 ^ 60"
  shows "get_separatrix R n (Fin a) (Fin 0) (Fin 1) = Some (ret (Fin 6))"
proof -
  have a1: "a \<noteq> 1" using assms(2) by auto
  obtain t where t: "Fin 1 / Fin 3 = Fin t" "t \<noteq> 0" using third_fin by blast
  have asq: "a powr 2 = a * a" using assms(1) by (simp add: power2_eq_square)
  have "a * a \<le> (1 / 2 ^ 60) * (1 / 2 ^ 60)" using assms by (intro mult_mono) auto
  then have asq_le: "a * a \<le> 1 / 2 ^ 120" by simp
  then have "a * a \<le> 1 / 2 ^ 100" by (rule order_trans) simp
  moreover have "0 \<le> a * a" by simp
  ultimately obtain y where y: "rnd (a * a) = Fin y" "0 \<le> y" "y \<le> 4 * (a * a) + 1 / 2 ^ 1000"
    using rnd_small [of "a * a"] by blast
  have "4 * (1 / 2 ^ 120) + 1 / 2 ^ 1000 \<le> (1::real) / 2 ^ 110" by simp
  then have yle: "y \<le> 1 / 2 ^ 110" using y(3) asq_le by linarith
  have f1: "pow (Fin a) (Fin 2) = Fin y" using assms(1) a1 y(1) asq by simp
  have "(1::real) / 2 ^ 110 < 1 / 2 ^ 54" "(1::real) / 2 ^ 60 < 1 / 2 ^ 54" by simp_all
  then have s54: "\<bar>- y\<bar> < 1 / 2 ^ 54" "\<bar>a\<bar> < 1 / 2 ^ 54" "\<bar>- a\<bar> < 1 / 2 ^ 54"
    using y(2) yle assms by linarith+
  have f2: "Fin 1 - Fin y = Fin 1" using rnd_near_1 [OF s54(1)] by (simp add: minus_double_def)
  have f4: "pow (Fin 1) (Fin t) = Fin 1" using t(2) by simp
  have f5: "Fin 1 + Fin a = Fin 1" using rnd_near_1 [OF s54(2)] by simp
  have f6: "Fin 1 - Fin a = Fin 1" using rnd_near_1 [OF s54(3)] by (simp add: minus_double_def)
  have f7: "Fin 1 + Fin 1 * (Fin 1 + Fin 1) = Fin 3" by simp
  have "3 * y \<le> 1 / 2 ^ 100" using yle by (rule order_trans [OF mult_left_mono]) simp_all
  moreover have "0 \<le> 3 * y" using y(2) by simp
  ultimately obtain b where b: "rnd (3 * y) = Fin b" "0 \<le> b" "b \<le> 4 * (3 * y) + 1 / 2 ^ 1000"
    using rnd_small [of "3 * y"] by blast
  have "12 * (1 / 2 ^ 110) + 1 / 2 ^ 1000 < (1::real) / 2 ^ 51" by simp
  then have "\<bar>b\<bar> < 1 / 2 ^ 51" using b(2,3) yle by linarith
  then have f10: "Fin b + Fin 9 = Fin 9" using rnd_near_9 [of b] by simp
  have f8: "Fin 3 * Fin y = Fin b" using b(1) by simp
  have f9: "pow (Fin 3) (Fin 2) = Fin 9" by simp
  have s9: "sqrt 9 = 3" by (rule real_sqrt_unique) simp_all
  have f11: "sqrt_d (Fin 9) = Fin 3" by (simp add: s9)
  have f12: "Fin 3 + Fin 3 + Fin (- 1) * sqrt_d ((Fin 3 - Fin 3) * (Fin 3 + Fin 3 + Fin 2 * Fin 3)) = Fin 6"
    by (simp add: minus_double_def)
  have c1: "deq (Fin a) (Fin 0) = False" using assms(1) by (simp add: deq_def)
  have c2: "deq (Fin 0) (Fin 0) = True" "deq \<bar>Fin 1\<bar> (Fin 1) = True" "(Fin 0 < Fin 1) = True"
    by (simp_all add: deq_def)
  show ?thesis
    unfolding get_separatrix.simps [of R n "Fin a" "Fin 0" "Fin 1"] Let_def
    by (simp only: c1 c2 if_True if_False simp_thms f1 f2 t(1) f4 f5 f6 f7 f8 f9 f10 f11 f12)
qed

lemma rnd_dyadic:
  assumes "\<bar>m\<bar> < 2 ^ 53" "j \<le> 1074"
  shows "rnd (of_int m / 2 ^ j) = Fin (of_int m / 2 ^ j)"
proof -
  have "of_int m / (2::real) ^ j = of_int m * 2 powi (- int j)"
    by (simp add: power_int_minus field_simps)
  then show ?thesis using assms by (intro rnd_exact [where m = m and k = "- int j"]) simp_all
qed

text \<open>Rounding a positive number keeps it within one part in a thousand.\<close>

lemma rnd_pos_bounds:
  assumes "lo \<le> x" "x \<le> hi" "1 / 2 ^ 1000 \<le> lo" "hi \<le> 2 ^ 1000"
  obtains y where "rnd x = Fin y" "lo * (999 / 1000) \<le> y" "y \<le> hi * (1001 / 1000)"
proof -
  have lo0: "0 < lo" using assms(3) by (rule less_le_trans [rotated]) simp
  then have x0: "0 < x" using assms(1) by linarith
  have "(2::real) powi (- 1022) \<le> 1 / 2 ^ 1000" by (simp add: powi_neg_numeral)
  then have a: "2 powi (- 1022) \<le> \<bar>x\<bar>" using assms(1,3) x0 by linarith
  have "(2::real) ^ 1000 \<le> 2 ^ 1023" by simp
  then have b: "\<bar>x\<bar> \<le> 2 ^ 1023" using assms(2,4) x0 by linarith
  obtain y where y: "rnd x = Fin y" "\<bar>y - x\<bar> \<le> \<bar>x\<bar> / 2 ^ 53" using rnd_approx [OF a b] by blast
  have "\<bar>x\<bar> / 2 ^ 53 \<le> x / 1000" using x0 by (simp add: field_simps)
  then have "x - x / 1000 \<le> y" "y \<le> x + x / 1000" using y(2) by linarith+
  moreover have "lo * (999 / 1000) \<le> x - x / 1000" using assms(1) by simp
  moreover have "x + x / 1000 \<le> hi * (1001 / 1000)" using assms(2) by simp
  ultimately have "lo * (999 / 1000) \<le> y" "y \<le> hi * (1001 / 1000)" by linarith+
  then show ?thesis using y(1) that by blast
qed

lemma epsrel_bounds: "\<exists>c. lit 0.001 = Fin c \<and> 9 / 10000 \<le> c \<and> c \<le> 11 / 10000"
proof -
  obtain y where y: "rnd 0.001 = Fin y" "0.001 * (999 / 1000) \<le> y" "y \<le> 0.001 * (1001 / 1000)"
    by (rule rnd_pos_bounds [of "0.001" "0.001" "0.001"]) simp_all
  have "9 / 10000 \<le> y" "y \<le> 11 / 10000" using y(2,3) by simp_all
  then show ?thesis using y(1) unfolding lit_def by simp
qed

section \<open>The statuses the solver discards\<close>

lemma with_status_fields [simp]:
  "gsl_root_fsolver_alloc (with_status a b R) = gsl_root_fsolver_alloc R"
  "snd (gsl_root_fsolver_set (with_status a b R) s func x_lo x_hi) = snd (gsl_root_fsolver_set R s func x_lo x_hi)"
  "snd (gsl_root_fsolver_iterate (with_status a b R) s) = snd (gsl_root_fsolver_iterate R s)"
  "gsl_root_fsolver_root (with_status a b R) = gsl_root_fsolver_root R"
  "gsl_root_fsolver_x_lower (with_status a b R) = gsl_root_fsolver_x_lower R"
  "gsl_root_fsolver_x_upper (with_status a b R) = gsl_root_fsolver_x_upper R"
  "gsl_root_test_interval (with_status a b R) = gsl_root_test_interval R"
  by (simp_all add: with_status_def)

lemma solver_iterations_with_status:
  "solver_iterations (with_status a b R) epsrel max_iter s iter = solver_iterations R epsrel max_iter s iter"
proof (induction R epsrel max_iter s iter rule: solver_iterations.induct)
  case (1 R epsrel max_iter s iter)
  show ?case
    using "1.IH"
    by (subst (1 2) solver_iterations.simps) (simp add: Let_def)
qed

lemma solver_get_separatrix_with_status:
  "(\<forall>params func x_lo x_hi.
      solver (with_status a b R) n params func x_lo x_hi = solver R n params func x_lo x_hi)
   \<and> (\<forall>sa e x. get_separatrix (with_status a b R) n sa e x = get_separatrix R n sa e x)"
proof (induction n)
  case 0
  have s: "solver (with_status a b R) 0 params func x_lo x_hi = solver R 0 params func x_lo x_hi"
    for params func x_lo x_hi
    by (simp add: solver.simps solver_iterations_with_status Let_def split: prod.splits)
  show ?case by (simp add: get_separatrix.simps s Let_def cong: if_cong)
next
  case (Suc n)
  have s: "solver (with_status a b R) (Suc n) params func x_lo x_hi = solver R (Suc n) params func x_lo x_hi"
    for params func x_lo x_hi
    using Suc by (simp add: solver.simps solver_iterations_with_status Let_def split: prod.splits)
  show ?case by (simp add: get_separatrix.simps s Let_def cong: if_cong)
qed

text \<open>
  Whatever status setting up the solver and its steps report, \<^verbatim>\<open>solver\<close> does the same:
  the first status is never read and the second is overwritten by the interval test.
\<close>

theorem solver_status_blind:
  "solver (with_status st_set st_iterate R) n params func x_lo x_hi = solver R n params func x_lo x_hi"
  using solver_get_separatrix_with_status by blast

section \<open>Sequencing\<close>

lemma bind_res_ret [simp]: "bind_res (ret v) k = k v"
  by (cases "k v") (simp add: bind_res_def ret_def)

lemma bind_res_throw [simp]: "bind_res (throw ex) k = throw ex"
  by (simp add: bind_res_def throw_def)

lemma bind_opt_Some_ret [simp]: "bind_opt (Some (ret v)) k = k v"
  by (cases "k v") (auto simp: bind_opt_def ret_def)

lemma bind_opt_None [simp]: "bind_opt None k = None"
  by (simp add: bind_opt_def)

section \<open>The loop of the batch form\<close>

lemma bind_res_eq_Inr:
  "bind_res m k = (out, Inr v) \<longleftrightarrow>
     (\<exists>o1 v1 o2. m = (o1, Inr v1) \<and> k v1 = (o2, Inr v) \<and> out = o1 @ o2)"
  unfolding bind_res_def by (auto split: prod.splits sum.splits)

lemma rd_eq_Inr:
  "rd xs i = (out, Inr v) \<longleftrightarrow> out = [] \<and> 0 \<le> i \<and> i < int (length xs) \<and> v = xs ! nat i"
  unfolding rd_def ret_def throw_def by (auto split: if_splits)

lemma wr_eq_Inr:
  "wr xs i v = (out, Inr ys) \<longleftrightarrow> out = [] \<and> 0 \<le> i \<and> i < int (length xs) \<and> ys = xs[nat i := v]"
  unfolding wr_def ret_def throw_def by (auto split: if_splits)

lemma ret_eq_Inr: "ret v = (out, Inr w) \<longleftrightarrow> out = [] \<and> w = v"
  by (auto simp: ret_def)

lemma body_Inr:
  assumes "KerrGeoCoordinateFrequenciesVectorized_body G a p e x i (P, T, Q) = (out, Inr (P', T', Q'))"
  shows "0 \<le> i \<and> i < int (length P) \<and> i < int (length T) \<and> i < int (length Q)
         \<and> length P' = length P \<and> length T' = length T \<and> length Q' = length Q
         \<and> (\<forall>j. j \<noteq> nat i \<longrightarrow> P' ! j = P ! j \<and> T' ! j = T ! j \<and> Q' ! j = Q ! j)
         \<and> index_done G a p e x (P', T', Q') (nat i)"
  using assms unfolding KerrGeoCoordinateFrequenciesVectorized_body_def index_done_def
  by (auto simp: bind_res_eq_Inr rd_eq_Inr wr_eq_Inr ret_eq_Inr split: if_splits prod.splits)

lemma index_done_cong:
  assumes "index_done G a p e x (P, T, Q) j" "P' ! j = P ! j" "T' ! j = T ! j" "Q' ! j = Q ! j"
  shows "index_done G a p e x (P', T', Q') j"
  using assms unfolding index_done_def by simp

lemma loop_unfold:
  assumes "KerrGeoCoordinateFrequenciesVectorized_loop G a p e x len i (P, T, Q) = (out, Inr (P', T', Q'))"
    and lt: "i < len"
  shows "\<exists>o1 P1 T1 Q1 o2. KerrGeoCoordinateFrequenciesVectorized_body G a p e x i (P, T, Q) = (o1, Inr (P1, T1, Q1)) \<and>
     KerrGeoCoordinateFrequenciesVectorized_loop G a p e x len (i + 1) (P1, T1, Q1) = (o2, Inr (P', T', Q'))"
proof -
  have "(case KerrGeoCoordinateFrequenciesVectorized_body G a p e x i (P, T, Q) of
           (out, Inl ex) \<Rightarrow> (out, Inl ex)
         | (out, Inr outs') \<Rightarrow>
             (case KerrGeoCoordinateFrequenciesVectorized_loop G a p e x len (i + 1) outs' of
                (out', r) \<Rightarrow> (out @ out', r))) = (out, Inr (P', T', Q'))"
    using assms
    by (simp add: KerrGeoCoordinateFrequenciesVectorized_loop.simps [of G a p e x len i])
  then show ?thesis
    by (auto split: prod.splits sum.splits)
qed

lemma loop_stop:
  assumes "KerrGeoCoordinateFrequenciesVectorized_loop G a p e x len i (P, T, Q) = (out, Inr (P', T', Q'))"
    and "\<not> i < len"
  shows "P' = P \<and> T' = T \<and> Q' = Q"
  using assms by (simp add: KerrGeoCoordinateFrequenciesVectorized_loop.simps [of G a p e x len i] ret_def)

lemma loop_post_stop: "\<not> i < len \<Longrightarrow> loop_post G a p e x len i ins ins"
  unfolding loop_post_def by auto

lemma loop_post_step:
  assumes b: "KerrGeoCoordinateFrequenciesVectorized_body G a p e x i (P, T, Q) = (o1, Inr (P1, T1, Q1))"
    and ih: "loop_post G a p e x len (i + 1) (P1, T1, Q1) (P', T', Q')"
  shows "loop_post G a p e x len i (P, T, Q) (P', T', Q')"
proof -
  note bd = body_Inr [OF b]
  have i0: "0 \<le> i" using bd by simp
  have keep1: "P1 ! j = P ! j \<and> T1 ! j = T ! j \<and> Q1 ! j = Q ! j" if "j \<noteq> nat i" for j
    using bd that by simp
  have keep2: "P' ! j = P1 ! j \<and> T' ! j = T1 ! j \<and> Q' ! j = Q1 ! j" if "int j < i + 1" for j
    using ih that unfolding loop_post_def by simp
  have later: "index_done G a p e x (P', T', Q') j" if "i + 1 \<le> int j" "int j < len" for j
    using ih that unfolding loop_post_def by simp
  have d1: "index_done G a p e x (P1, T1, Q1) (nat i)" using bd by simp
  have "int (nat i) < i + 1" using i0 by simp
  from keep2 [OF this] have here: "index_done G a p e x (P', T', Q') (nat i)"
    by (intro index_done_cong [OF d1]) simp_all
  have A: "index_done G a p e x (P', T', Q') j" if "i \<le> int j" "int j < len" for j
  proof (cases "int j = i")
    case True
    then have "j = nat i" by simp
    then show ?thesis using here by simp
  next
    case False
    with that have "i + 1 \<le> int j" by simp
    then show ?thesis using that(2) by (rule later)
  qed
  have B: "P' ! j = P ! j \<and> T' ! j = T ! j \<and> Q' ! j = Q ! j" if "int j < i" for j
  proof -
    have "j \<noteq> nat i" "int j < i + 1" using that i0 by auto
    then show ?thesis using keep1 [of j] keep2 [of j] by simp
  qed
  show ?thesis unfolding loop_post_def using A B by simp
qed

lemma loop_Inr:
  assumes "KerrGeoCoordinateFrequenciesVectorized_loop G a p e x len i ins = (out, Inr outs)"
  shows "loop_post G a p e x len i ins outs"
  using assms
proof (induction "nat (len - i)" arbitrary: i ins out)
  case 0
  then have n: "\<not> i < len" by simp
  obtain P T Q P' T' Q' where s: "ins = (P, T, Q)" "outs = (P', T', Q')"
    by (metis prod_cases3)
  have "outs = ins" using loop_stop [OF "0.prems" [unfolded s] n] unfolding s by simp
  then show ?case using loop_post_stop [OF n] by simp
next
  case (Suc k)
  then have lt: "i < len" by linarith
  obtain P T Q P' T' Q' where s: "ins = (P, T, Q)" "outs = (P', T', Q')"
    by (metis prod_cases3)
  from loop_unfold [OF Suc.prems [unfolded s] lt] obtain o1 P1 T1 Q1 o2 where
    b: "KerrGeoCoordinateFrequenciesVectorized_body G a p e x i (P, T, Q) = (o1, Inr (P1, T1, Q1))" and
    l: "KerrGeoCoordinateFrequenciesVectorized_loop G a p e x len (i + 1) (P1, T1, Q1) = (o2, Inr outs)"
    unfolding s by blast
  have k: "k = nat (len - (i + 1))" using Suc.hyps(2) by linarith
  have "loop_post G a p e x len (i + 1) (P1, T1, Q1) outs" using k l by (rule Suc.hyps(1))
  then show ?case unfolding s by (rule loop_post_step [OF b])
qed

lemma Elliptic_circular:
  "EllipticK circular_ellint k = ret (M_PI / Fin 2)"
  "EllipticE circular_ellint k = ret (M_PI / Fin 2)"
  "EllipticPi circular_ellint n k = ret (M_PI / Fin 2)"
  by (simp_all add: EllipticE_def EllipticK_def EllipticPi_def circular_ellint_def)

lemma Schwarzschild_circular:
  "\<exists>v w. SchwarzschildGeoCoordinateFrequencies circular_ellint p e = ret (v, w)"
  unfolding SchwarzschildGeoCoordinateFrequencies_def Elliptic_circular bind_res_ret Let_def
  by blast

lemma Vectorized_one_zero_spin:
  "\<exists>v w. SchwarzschildGeoCoordinateFrequencies circular_ellint p e = ret (v, w) \<and>
     KerrGeoCoordinateFrequenciesVectorized circular_ellint ([Fin 0], [Fin 0], [Fin 0]) [Fin 0] [p] [e] [x] 1
       = ret ([v], [v], [w])"
proof -
  obtain v w where s: "SchwarzschildGeoCoordinateFrequencies circular_ellint p e = ret (v, w)"
    using Schwarzschild_circular by blast
  have b: "KerrGeoCoordinateFrequenciesVectorized_body circular_ellint [Fin 0] [p] [e] [x] 0
             ([Fin 0], [Fin 0], [Fin 0]) = ret ([v], [v], [w])"
    by (simp add: KerrGeoCoordinateFrequenciesVectorized_body_def rd_def wr_def dne_def deq_def s)
  have l: "KerrGeoCoordinateFrequenciesVectorized_loop circular_ellint [Fin 0] [p] [e] [x] 1 1 outs = ret outs" for outs
    by (simp add: KerrGeoCoordinateFrequenciesVectorized_loop.simps [of _ _ _ _ _ 1 1])
  have "KerrGeoCoordinateFrequenciesVectorized circular_ellint ([Fin 0], [Fin 0], [Fin 0]) [Fin 0] [p] [e] [x] 1
       = ret ([v], [v], [w])"
    unfolding KerrGeoCoordinateFrequenciesVectorized_def
    by (simp add: KerrGeoCoordinateFrequenciesVectorized_loop.simps [of _ _ _ _ _ 1 0] b l) (simp add: ret_def)
  with s show ?thesis by blast
qed

lemma KerrGeoCoordinateFrequencies_throws:
  "KerrGeoCoordinateFrequencies G (Fin 0) (Fin 1) (Fin 0) (Fin 1) =
     ([Printf_apex (Fin 0) (Fin 1) (Fin 0) (Fin 1)], Inl Nan_in_fundamental_frequencies)"
proof -
  have "Power (Fin 1) (Fin 1.25) / Sqrt (Fin 2 * Fin 0 + (Fin (- 3) + Fin 1) * Sqrt (Fin 1)) = NaN"
    by simp
  then show ?thesis
    by (simp add: KerrGeoCoordinateFrequencies_def KerrEqGeoMinoFrequencies_def Let_def deq_def dne_def
        bind_res_def printf_def throw_def ret_def)
qed

section \<open>A circular orbit with spin\<close>

lemma sqrt_bounds:
  assumes "0 \<le> lo" "lo ^ 2 \<le> x" "0 \<le> hi" "x \<le> hi ^ 2"
  shows "lo \<le> sqrt x" "sqrt x \<le> hi"
  using assms by (auto intro: real_le_rsqrt real_le_lsqrt simp: order_trans [of 0 "lo ^ 2" x])

lemma sqrt_16: "sqrt 16 = (4::real)"
  using real_sqrt_abs [of 4] by simp

lemma powr_16:
  "(16::real) powr (1 / 4) = 2" "(16::real) powr (5 / 4) = 32" "(16::real) powr (3 / 2) = 64"
proof -
  have "(16::real) = 2 powr 4" by simp
  then have e: "(16::real) powr y = 2 powr (4 * y)" for y by (simp only: powr_powr)
  show "(16::real) powr (1 / 4) = 2" "(16::real) powr (5 / 4) = 32" "(16::real) powr (3 / 2) = 64"
    unfolding e by simp_all
qed

text \<open>The Mino-time quantities of the circular prograde equatorial orbit at \<open>a = 1\<close>, \<open>p = 16\<close>.\<close>

lemma KerrEq_1_16:
  "KerrEqGeoMinoFrequencies (Fin 1) (Fin 16) (Fin 0) (Fin 1) =
     (Fin 2080 / Sqrt (Fin 54), Fin 32 / Sqrt (Fin 54),
      \<bar>Fin 2 * Sqrt (Fin 243) / Sqrt (Fin 54)\<bar>, Sqrt (Fin 14))"
  by (simp add: KerrEqGeoMinoFrequencies_def Let_def sqrt_16 powr_16 minus_double_def)

lemma rnd_between:
  assumes "lo \<le> x" "x \<le> hi" "1 / 1000 \<le> lo" "hi \<le> 1000000"
    and "lo' \<le> lo * (999 / 1000)" "hi * (1001 / 1000) \<le> hi'"
  shows "\<exists>y. rnd x = Fin y \<and> lo' \<le> y \<and> y \<le> hi'"
proof -
  have "(1::real) / 2 ^ 1000 \<le> 1 / 2 ^ 10" by (intro divide_left_mono power_increasing) simp_all
  then have a: "1 / 2 ^ 1000 \<le> lo" using assms(3) by simp
  have "(2::real) ^ 20 \<le> 2 ^ 1000" by (intro power_increasing) simp_all
  then have b: "hi \<le> 2 ^ 1000" using assms(4) by simp
  obtain y where "rnd x = Fin y" "lo * (999 / 1000) \<le> y" "y \<le> hi * (1001 / 1000)"
    using rnd_pos_bounds [OF assms(1,2) a b] by blast
  then show ?thesis using assms(5,6) by force
qed

lemma div_between:
  fixes n d :: real
  assumes "nlo \<le> n" "n \<le> nhi" "dlo \<le> d" "d \<le> dhi" "0 < dlo" "0 \<le> nlo"
  shows "nlo / dhi \<le> n / d" "n / d \<le> nhi / dlo"
  using assms by (auto intro!: frac_le)

lemma KerrGeoCoordinateFrequencies_1_16:
  "\<exists>OmegaPhi OmegaTheta OmegaR.
     KerrGeoCoordinateFrequencies G (Fin 1) (Fin 16) (Fin 0) (Fin 1) = ret (Fin OmegaPhi, Fin OmegaTheta, Fin OmegaR)
     \<and> OmegaTheta \<le> 1520 / 100000 \<and> 1525 / 100000 \<le> OmegaPhi"
proof -
  have "7348 / 1000 \<le> sqrt 54" "sqrt 54 \<le> 7349 / 1000"
    by (rule sqrt_bounds [of "7348 / 1000" 54 "7349 / 1000"]; simp add: power2_eq_square)+
  then have "\<exists>s. rnd (sqrt 54) = Fin s \<and> 734 / 100 \<le> s \<and> s \<le> 736 / 100"
    by (rule rnd_between) simp_all
  then obtain s where s: "rnd (sqrt 54) = Fin s" "734 / 100 \<le> s" "s \<le> 736 / 100" by blast
  have "15588 / 1000 \<le> sqrt 243" "sqrt 243 \<le> 15589 / 1000"
    by (rule sqrt_bounds [of "15588 / 1000" 243 "15589 / 1000"]; simp add: power2_eq_square)+
  then have "\<exists>r. rnd (sqrt 243) = Fin r \<and> 1557 / 100 \<le> r \<and> r \<le> 1561 / 100"
    by (rule rnd_between) simp_all
  then obtain r where r: "rnd (sqrt 243) = Fin r" "1557 / 100 \<le> r" "r \<le> 1561 / 100" by blast
  have "2 * (1557 / 100) \<le> 2 * r" "2 * r \<le> 2 * (1561 / 100)" using r(2,3) by simp_all
  then have "\<exists>t. rnd (2 * r) = Fin t \<and> 311 / 10 \<le> t \<and> t \<le> 313 / 10"
    by (rule rnd_between) simp_all
  then obtain t where t: "rnd (2 * r) = Fin t" "311 / 10 \<le> t" "t \<le> 313 / 10" by blast
  have "(311 / 10) / (736 / 100) \<le> t / s" "t / s \<le> (313 / 10) / (734 / 100)"
    by (rule div_between [OF t(2,3) s(2,3)]; simp)+
  then have "\<exists>ut. rnd (t / s) = Fin ut \<and> 422 / 100 \<le> ut \<and> ut \<le> 427 / 100"
    by (rule rnd_between) simp_all
  then obtain ut where ut: "rnd (t / s) = Fin ut" "422 / 100 \<le> ut" "ut \<le> 427 / 100" by blast
  have "32 / (736 / 100) \<le> 32 / s" "32 / s \<le> 32 / (734 / 100)"
    using div_between [of 32 32 32 "734 / 100" s "736 / 100"] s(2,3) by simp_all
  then have "\<exists>up. rnd (32 / s) = Fin up \<and> 434 / 100 \<le> up \<and> up \<le> 437 / 100"
    by (rule rnd_between) simp_all
  then obtain up where up: "rnd (32 / s) = Fin up" "434 / 100 \<le> up" "up \<le> 437 / 100" by blast
  have "2080 / (736 / 100) \<le> 2080 / s" "2080 / s \<le> 2080 / (734 / 100)"
    using div_between [of 2080 2080 2080 "734 / 100" s "736 / 100"] s(2,3) by simp_all
  then have "\<exists>ga. rnd (2080 / s) = Fin ga \<and> 282 \<le> ga \<and> ga \<le> 284"
    by (rule rnd_between) simp_all
  then obtain ga where ga: "rnd (2080 / s) = Fin ga" "282 \<le> ga" "ga \<le> 284" by blast
  have "37 / 10 \<le> sqrt 14" "sqrt 14 \<le> 38 / 10"
    by (rule sqrt_bounds [of "37 / 10" 14 "38 / 10"]; simp add: power2_eq_square)+
  then have "\<exists>ur. rnd (sqrt 14) = Fin ur \<and> 36 / 10 \<le> ur \<and> ur \<le> 39 / 10"
    by (rule rnd_between) simp_all
  then obtain ur where ur: "rnd (sqrt 14) = Fin ur" "36 / 10 \<le> ur" "ur \<le> 39 / 10" by blast
  have "(434 / 100) / 284 \<le> up / ga" "up / ga \<le> (437 / 100) / 282"
    by (rule div_between [OF up(2,3) ga(2,3)]; simp)+
  then have "\<exists>op. rnd (up / ga) = Fin op \<and> 1525 / 100000 \<le> op \<and> op \<le> 2 / 100"
    by (rule rnd_between) simp_all
  then obtain op where op: "rnd (up / ga) = Fin op" "1525 / 100000 \<le> op" "op \<le> 2 / 100" by blast
  have "(422 / 100) / 284 \<le> ut / ga" "ut / ga \<le> (427 / 100) / 282"
    by (rule div_between [OF ut(2,3) ga(2,3)]; simp)+
  then have "\<exists>ot. rnd (ut / ga) = Fin ot \<and> 1 / 100 \<le> ot \<and> ot \<le> 1520 / 100000"
    by (rule rnd_between) simp_all
  then obtain ot where ot: "rnd (ut / ga) = Fin ot" "1 / 100 \<le> ot" "ot \<le> 1520 / 100000" by blast
  have "(36 / 10) / 284 \<le> ur / ga" "ur / ga \<le> (39 / 10) / 282"
    by (rule div_between [OF ur(2,3) ga(2,3)]; simp)+
  then have "\<exists>or. rnd (ur / ga) = Fin or \<and> 1 / 100 \<le> or \<and> or \<le> 2 / 100"
    by (rule rnd_between) simp_all
  then obtain or where or: "rnd (ur / ga) = Fin or" "1 / 100 \<le> or" "or \<le> 2 / 100" by blast
  have s0: "s \<noteq> 0" "ga \<noteq> 0" "0 \<le> ut" using s(2) ga(2) ut(2) by simp_all
  have v: "Sqrt (Fin 54) = Fin s" "Sqrt (Fin 243) = Fin r" "Sqrt (Fin 14) = Fin ur"
    using s(1) r(1) ur(1) by simp_all
  have "KerrEqGeoMinoFrequencies (Fin 1) (Fin 16) (Fin 0) (Fin 1) = (Fin ga, Fin up, Fin ut, Fin ur)"
    unfolding KerrEq_1_16 v using s0 t(1) ut(1) up(1) ga(1) by simp
  then have "KerrGeoCoordinateFrequencies G (Fin 1) (Fin 16) (Fin 0) (Fin 1) = ret (Fin op, Fin ot, Fin or)"
    using s0 op(1) ot(1) or(1) by (simp add: KerrGeoCoordinateFrequencies_def deq_def dne_def bind_res_def ret_def)
  then show ?thesis using op(2) ot(3) by blast
qed

lemma loop_end:
  "\<not> i < len \<Longrightarrow> KerrGeoCoordinateFrequenciesVectorized_loop G a p e x len i outs = ret outs"
  by (simp add: KerrGeoCoordinateFrequenciesVectorized_loop.simps [of G a p e x len i])

lemma loop_step:
  assumes "i < len" "KerrGeoCoordinateFrequenciesVectorized_body G a p e x i outs = ret outs'"
  shows "KerrGeoCoordinateFrequenciesVectorized_loop G a p e x len i outs =
           KerrGeoCoordinateFrequenciesVectorized_loop G a p e x len (i + 1) outs'"
  using assms
  by (cases "KerrGeoCoordinateFrequenciesVectorized_loop G a p e x len (i + 1) outs'")
     (simp add: KerrGeoCoordinateFrequenciesVectorized_loop.simps [of G a p e x len i] ret_def)

lemma Vectorized_two:
  "\<exists>P T R. KerrGeoCoordinateFrequenciesVectorized circular_ellint ([Fin 0, Fin 0], [Fin 0, Fin 0], [Fin 0, Fin 0])
       [Fin 1, Fin 0] [Fin 16, Fin 16] [Fin 0, Fin 0] [Fin 1, Fin 1] 2 = ([], Inr (P, T, R))"
proof -
  obtain op ot or where k: "KerrGeoCoordinateFrequencies circular_ellint (Fin 1) (Fin 16) (Fin 0) (Fin 1)
      = ret (Fin op, Fin ot, Fin or)"
    using KerrGeoCoordinateFrequencies_1_16 by blast
  obtain v w where s: "SchwarzschildGeoCoordinateFrequencies circular_ellint (Fin 16) (Fin 0) = ret (v, w)"
    using Schwarzschild_circular by blast
  have b0: "KerrGeoCoordinateFrequenciesVectorized_body circular_ellint [Fin 1, Fin 0] [Fin 16, Fin 16]
              [Fin 0, Fin 0] [Fin 1, Fin 1] 0 ([Fin 0, Fin 0], [Fin 0, Fin 0], [Fin 0, Fin 0])
            = ret ([Fin op, Fin 0], [Fin ot, Fin 0], [Fin or, Fin 0])"
    by (simp add: KerrGeoCoordinateFrequenciesVectorized_body_def rd_def wr_def dne_def deq_def k)
  have b1: "KerrGeoCoordinateFrequenciesVectorized_body circular_ellint [Fin 1, Fin 0] [Fin 16, Fin 16]
              [Fin 0, Fin 0] [Fin 1, Fin 1] 1 ([Fin op, Fin 0], [Fin ot, Fin 0], [Fin or, Fin 0])
            = ret ([Fin op, v], [Fin ot, v], [Fin or, w])"
    by (simp add: KerrGeoCoordinateFrequenciesVectorized_body_def rd_def wr_def dne_def deq_def s)
  have "KerrGeoCoordinateFrequenciesVectorized circular_ellint ([Fin 0, Fin 0], [Fin 0, Fin 0], [Fin 0, Fin 0])
       [Fin 1, Fin 0] [Fin 16, Fin 16] [Fin 0, Fin 0] [Fin 1, Fin 1] 2 = ret ([Fin op, v], [Fin ot, v], [Fin or, w])"
    unfolding KerrGeoCoordinateFrequenciesVectorized_def
    using loop_step [OF _ b0, of 2] loop_step [OF _ b1, of 2]
      loop_end [of 2 2 circular_ellint "[Fin 1, Fin 0]" "[Fin 16, Fin 16]" "[Fin 0, Fin 0]" "[Fin 1, Fin 1]"]
    by simp
  then show ?thesis unfolding ret_def by blast
qed

section \<open>Exact rounding\<close>

lemma round_even_tie:
  assumes "\<bar>q - of_int m\<bar> = 1 / 2" "even m"
  shows "round_even q = m"
proof -
  consider "q = of_int m + 1 / 2" | "q = of_int m - 1 / 2" using assms(1) by (auto simp: abs_if split: if_splits)
  then show ?thesis
  proof cases
    case 1
    have "\<lfloor>q\<rfloor> = m" unfolding 1 by (intro floor_unique) simp_all
    then show ?thesis using assms(2) unfolding round_even_def Let_def 1 by simp
  next
    case 2
    have m1: "real_of_int (m - 1) = of_int m - 1" by simp
    have f: "\<lfloor>q\<rfloor> = m - 1" unfolding 2 by (intro floor_unique; unfold m1) simp_all
    have "q - of_int (m - 1) = 1 / 2" unfolding 2 m1 by simp
    then show ?thesis using assms(2) f unfolding round_even_def Let_def by simp
  qed
qed

lemma rnd_eval_tie:
  assumes "2 powi e \<le> \<bar>x\<bar>" "\<bar>x\<bar> < 2 powi (e + 1)" "- 1022 \<le> e" "e \<le> 1022"
    and "\<bar>x / 2 powi (e - 52) - of_int m\<bar> = 1 / 2" "even m"
  shows "rnd x = Fin (of_int m * 2 powi (e - 52))"
proof -
  have "\<not> (2::real) powi e \<le> 0" by (simp add: not_le)
  then have nz: "x \<noteq> 0" using assms(1) by auto
  have "(2::real) powi (e + 1) \<le> 2 powi 1023" using assms(4) by (intro power_int_increasing) auto
  moreover have "(2::real) ^ 1023 = 2 powi 1023" by simp
  ultimately have x1023: "\<bar>x\<bar> \<le> 2 ^ 1023" using assms(2) by linarith
  have fl: "\<lfloor>log 2 \<bar>x\<bar>\<rfloor> = e" using assms(1,2) by (rule floor_log2_eq)
  have "max (e - 52) (- 1074) = e - 52" using assms(3) by simp
  then have ue: "ulp_exp x = e - 52" unfolding ulp_exp_def fl .
  obtain y where y: "rnd x = Fin y" "y = of_int (round_even (x / 2 powi (ulp_exp x))) * 2 powi (ulp_exp x)"
    using rnd_cases [OF nz x1023] by metis
  have "round_even (x / 2 powi (e - 52)) = m" using assms(5,6) by (rule round_even_tie)
  then show ?thesis using y unfolding ue by simp
qed

text \<open>
  Rounding a number of the binade \<open>[2\<^sup>5\<^sup>2\<^sup>-\<^sup>i, 2\<^sup>5\<^sup>3\<^sup>-\<^sup>i)\<close>: the nearest multiple of \<open>2\<^sup>-\<^sup>i\<close>,
  the even one at a tie.
\<close>

lemma binade_powi:
  fixes x :: real and i :: nat
  assumes "2 ^ 52 \<le> \<bar>x\<bar> * 2 ^ i" "\<bar>x\<bar> * 2 ^ i < 2 ^ 53"
  shows "2 powi (52 - int i) \<le> \<bar>x\<bar>" "\<bar>x\<bar> < 2 powi (52 - int i + 1)" "x / 2 powi (52 - int i - 52) = x * 2 ^ i"
    "of_int m * 2 powi (52 - int i - 52) = of_int m / (2::real) ^ i"
proof -
  have p: "(2::real) powi (52 - int i) = 2 ^ 52 / 2 ^ i" "(2::real) powi (52 - int i + 1) = 2 ^ 53 / 2 ^ i"
    by (simp_all add: power_int_diff power_int_add)
  show "2 powi (52 - int i) \<le> \<bar>x\<bar>" unfolding p using assms(1) by (simp add: field_simps)
  show "\<bar>x\<bar> < 2 powi (52 - int i + 1)" unfolding p using assms(2) by (simp add: field_simps)
  have z: "52 - int i - 52 = - int i" by simp
  show "x / 2 powi (52 - int i - 52) = x * 2 ^ i" unfolding z by (simp add: power_int_minus field_simps)
  show "of_int m * 2 powi (52 - int i - 52) = of_int m / (2::real) ^ i"
    unfolding z by (simp add: power_int_minus field_simps)
qed

lemma rnd_frac:
  fixes x :: real and i :: nat
  assumes "2 ^ 52 \<le> \<bar>x\<bar> * 2 ^ i" "\<bar>x\<bar> * 2 ^ i < 2 ^ 53" "i \<le> 1074"
    and "\<bar>x * 2 ^ i - of_int m\<bar> < 1 / 2"
  shows "rnd x = Fin (of_int m / 2 ^ i)"
proof -
  note b = binade_powi [OF assms(1,2)]
  have near: "\<bar>x / 2 powi (52 - int i - 52) - of_int m\<bar> < 1 / 2" unfolding b(3) by (rule assms(4))
  have "rnd x = Fin (of_int m * 2 powi (52 - int i - 52))"
    by (rule rnd_eval [OF b(1,2) _ _ near]) (use assms(3) in simp_all)
  then show ?thesis unfolding b(4) .
qed

lemma rnd_tie:
  fixes x :: real and i :: nat
  assumes "2 ^ 52 \<le> \<bar>x\<bar> * 2 ^ i" "\<bar>x\<bar> * 2 ^ i < 2 ^ 53" "i \<le> 1074"
    and "\<bar>x * 2 ^ i - of_int m\<bar> = 1 / 2" "even m"
  shows "rnd x = Fin (of_int m / 2 ^ i)"
proof -
  note b = binade_powi [OF assms(1,2)]
  have near: "\<bar>x / 2 powi (52 - int i - 52) - of_int m\<bar> = 1 / 2" unfolding b(3) by (rule assms(4))
  have "rnd x = Fin (of_int m * 2 powi (52 - int i - 52))"
    by (rule rnd_eval_tie [OF b(1,2) _ _ near assms(5)]) (use assms(3) in simp_all)
  then show ?thesis unfolding b(4) .
qed

lemma rnd_sqrt_frac:
  fixes x :: real and i :: nat
  assumes "2 ^ 104 \<le> x * 4 ^ i" "x * 4 ^ i < 2 ^ 106" "i \<le> 1074" "0 < m"
    and "(of_int m - 1 / 2) ^ 2 < x * 4 ^ i" "x * 4 ^ i < (of_int m + 1 / 2) ^ 2"
  shows "rnd (sqrt x) = Fin (of_int m / 2 ^ i)"
proof -
  have x0: "0 \<le> x * 4 ^ i" using assms(1) by (rule order_trans [rotated]) simp
  have s: "sqrt (x * 4 ^ i) = sqrt x * 2 ^ i"
    by (simp add: real_sqrt_mult real_sqrt_power flip: power_mult_distrib)
  have "sqrt ((2 ^ 52) ^ 2) \<le> sqrt (x * 4 ^ i)" using assms(1) by (subst real_sqrt_le_iff) simp
  moreover have xs: "0 \<le> sqrt x"
  proof -
    have "x * 4 ^ i < 0" if "x < 0" using that by (intro mult_neg_pos) simp_all
    then have "0 \<le> x" using x0 by fastforce
    then show ?thesis by simp
  qed
  ultimately have lo: "2 ^ 52 \<le> \<bar>sqrt x\<bar> * 2 ^ i" unfolding s by simp
  have "sqrt (x * 4 ^ i) < sqrt ((2 ^ 53) ^ 2)" using assms(2) by (subst real_sqrt_less_iff) simp
  then have hi: "\<bar>sqrt x\<bar> * 2 ^ i < 2 ^ 53" unfolding s using xs by simp
  have m0: "0 \<le> real_of_int m - 1 / 2" using assms(4) by linarith
  have "sqrt ((of_int m - 1 / 2) ^ 2) < sqrt (x * 4 ^ i)" using assms(5) by (subst real_sqrt_less_iff)
  then have a: "of_int m - 1 / 2 < sqrt x * 2 ^ i" unfolding s using m0 by simp
  have "sqrt (x * 4 ^ i) < sqrt ((of_int m + 1 / 2) ^ 2)" using assms(6) by (subst real_sqrt_less_iff)
  then have b: "sqrt x * 2 ^ i < of_int m + 1 / 2" unfolding s using m0 by simp
  have "\<bar>sqrt x * 2 ^ i - of_int m\<bar> < 1 / 2" using a b by linarith
  then show ?thesis by (rule rnd_frac [OF lo hi assms(3)])
qed

lemma NaN_ops [simp]:
  "x * NaN = NaN" "NaN * x = NaN" "x + NaN = NaN" "NaN + x = NaN" "x / NaN = NaN" "NaN / x = NaN"
  "\<bar>NaN\<bar> = NaN"
  by (cases x; simp)+

lemma powr_unit_bounds:
  fixes b y :: real
  assumes "1 / 2 \<le> b" "b \<le> 1" "0 \<le> y" "y \<le> 2"
  shows "1 / 4 \<le> b powr y" "b powr y \<le> 1"
proof -
  have b0: "0 < b" using assms(1) by linarith
  have "b powr 2 \<le> b powr y" using assms(2,4) b0 by (intro powr_mono') simp_all
  moreover have "(1 / 2) powr 2 \<le> b powr 2" using assms(1) by (intro powr_mono2) simp_all
  ultimately show "1 / 4 \<le> b powr y" by (simp add: power2_eq_square)
  show "b powr y \<le> 1" using assms(2,3) b0 by (intro powr_le1) simp_all
qed

text \<open>
  The Mino-time quantities of the equatorial branch at \<open>a = p = 1 - 2\<^sup>-\<^sup>5\<^sup>3\<close>, the largest
  binary64 number below 1, step by step.
\<close>

lemma KerrEq_below_one:
  "KerrEqGeoMinoFrequencies (Fin (9007199254740991 / 2 ^ 53)) (Fin (9007199254740991 / 2 ^ 53)) e x =
     (PInf, PInf, NaN, Fin (9007199254740991 / 2 ^ 52))"
proof -
  have c: "(1::real) / 2 \<le> 9007199254740991 / 2 ^ 53" "(9007199254740991 / 2 ^ 53 :: real) \<le> 1" by simp_all
  have sp: "Sqrt (Fin (9007199254740991 / 2 ^ 53)) = Fin (9007199254740991 / 2 ^ 53)"
    using rnd_sqrt_frac [of "9007199254740991 / 2 ^ 53" 53 "9007199254740991"] by (simp add: power2_eq_square)
  have sq4: "Sqrt (Fin (9007199254740991 / 2 ^ 51)) = Fin (9007199254740991 / 2 ^ 52)"
    using rnd_sqrt_frac [of "9007199254740991 / 2 ^ 51" 52 "9007199254740991"] by (simp add: power2_eq_square)
  have sq0: "Sqrt (Fin 0) = Fin 0" by simp
  have sqn: "Sqrt (Fin (- (1 / 2 ^ 52))) = NaN" by simp
  have p0: "pow (Fin 0) (Fin 2) = Fin 0" by simp
  have ab: "\<bar>Fin (1 / 2 ^ 51)\<bar> = Fin (1 / 2 ^ 51)" by simp
  have s1: "Fin 2 * Fin (9007199254740991 / 2 ^ 53) = Fin (9007199254740991 / 2 ^ 52)"
    using rnd_frac [of "2 * (9007199254740991 / 2 ^ 53)" 52 "9007199254740991"] by simp
  have s2: "Fin (- 3) + Fin (9007199254740991 / 2 ^ 53) = Fin (- 2)"
    using rnd_frac [of "- 3 + (9007199254740991 / 2 ^ 53)" 51 "- 4503599627370496"] by simp
  have s3: "Fin (- 2) * Fin (9007199254740991 / 2 ^ 53) = Fin (- (9007199254740991 / 2 ^ 52))"
    using rnd_frac [of "(- 2) * (9007199254740991 / 2 ^ 53)" 52 "- 9007199254740991"] by simp
  have s4: "Fin (9007199254740991 / 2 ^ 52) + Fin (- (9007199254740991 / 2 ^ 52)) = Fin 0"
    by simp
  have s5: "pow (Fin (9007199254740991 / 2 ^ 53)) (Fin 2) = Fin (4503599627370495 / 2 ^ 52)"
    using rnd_frac [of "(9007199254740991 / 2 ^ 53) powr 2" 53 "9007199254740990"] by (simp add: power2_eq_square)
  have s6: "Fin 3 * Fin (4503599627370495 / 2 ^ 52) = Fin (3377699720527871 / 2 ^ 50)"
    using rnd_tie [of "3 * (4503599627370495 / 2 ^ 52)" 51 "6755399441055742"] by simp
  have s7: "Fin 4 * Fin (9007199254740991 / 2 ^ 53) = Fin (9007199254740991 / 2 ^ 51)"
    using rnd_frac [of "4 * (9007199254740991 / 2 ^ 53)" 51 "9007199254740991"] by simp
  have s8: "Fin (9007199254740991 / 2 ^ 51) * Fin (9007199254740991 / 2 ^ 53) = Fin (4503599627370495 / 2 ^ 50)"
    using rnd_frac [of "(9007199254740991 / 2 ^ 51) * (9007199254740991 / 2 ^ 53)" 51 "9007199254740990"] by simp
  have s9: "Fin (3377699720527871 / 2 ^ 50) - Fin (4503599627370495 / 2 ^ 50) = Fin (- 1)"
    using rnd_frac [of "(3377699720527871 / 2 ^ 50) - (4503599627370495 / 2 ^ 50)" 52 "- 4503599627370496"] by (simp add: minus_double_def)
  have s10: "Fin (- 1) + Fin (4503599627370495 / 2 ^ 52) = Fin (- (1 / 2 ^ 52))"
    using rnd_frac [of "- 1 + (4503599627370495 / 2 ^ 52)" 104 "- 4503599627370496"] by simp
  have s11: "Fin (- 2) * Fin (4503599627370495 / 2 ^ 52) = Fin (- (4503599627370495 / 2 ^ 51))"
    using rnd_frac [of "(- 2) * (4503599627370495 / 2 ^ 52)" 52 "- 9007199254740990"] by simp
  have s12: "Fin 6 * Fin (9007199254740991 / 2 ^ 53) = Fin (6755399441055743 / 2 ^ 50)"
    using rnd_frac [of "6 * (9007199254740991 / 2 ^ 53)" 50 "6755399441055743"] by simp
  have s13: "Fin (6755399441055743 / 2 ^ 50) * Fin (9007199254740991 / 2 ^ 53) = Fin (3377699720527871 / 2 ^ 49)"
    using rnd_frac [of "(6755399441055743 / 2 ^ 50) * (9007199254740991 / 2 ^ 53)" 50 "6755399441055742"] by simp
  have s14: "Fin (- 5) + Fin (9007199254740991 / 2 ^ 53) = Fin (- 4)"
    using rnd_frac [of "- 5 + (9007199254740991 / 2 ^ 53)" 50 "- 4503599627370496"] by simp
  have s15: "Fin (- 4) * Fin (9007199254740991 / 2 ^ 53) = Fin (- (9007199254740991 / 2 ^ 51))"
    using rnd_frac [of "(- 4) * (9007199254740991 / 2 ^ 53)" 51 "- 9007199254740991"] by simp
  have s16: "Fin (9007199254740991 / 2 ^ 53) - Fin (9007199254740991 / 2 ^ 53) = Fin 0"
    by (simp add: minus_double_def)
  have s17: "Fin (4503599627370495 / 2 ^ 52) - Fin (4503599627370495 / 2 ^ 50) = Fin (- (3377699720527871 / 2 ^ 50))"
    using rnd_tie [of "(4503599627370495 / 2 ^ 52) - (4503599627370495 / 2 ^ 50)" 51 "- 6755399441055742"] by (simp add: minus_double_def)
  have s18: "Fin (- 4) + Fin (9007199254740991 / 2 ^ 53) = Fin (- 3)"
    using rnd_frac [of "- 4 + (9007199254740991 / 2 ^ 53)" 51 "- 6755399441055744"] by simp
  have s19: "Fin (- 3) * Fin (9007199254740991 / 2 ^ 53) = Fin (- (6755399441055743 / 2 ^ 51))"
    using rnd_frac [of "(- 3) * (9007199254740991 / 2 ^ 53)" 51 "- 6755399441055743"] by simp
  have s20: "Fin (- (3377699720527871 / 2 ^ 50)) - Fin (- (6755399441055743 / 2 ^ 51)) = Fin (1 / 2 ^ 51)"
    using rnd_frac [of "(- (3377699720527871 / 2 ^ 50)) - (- (6755399441055743 / 2 ^ 51))" 103 "4503599627370496"] by (simp add: minus_double_def)
  have s21: "Fin (- (4503599627370495 / 2 ^ 51)) + Fin (3377699720527871 / 2 ^ 49) = Fin (9007199254740989 / 2 ^ 51)"
    using rnd_frac [of "- (4503599627370495 / 2 ^ 51) + (3377699720527871 / 2 ^ 49)" 51 "9007199254740989"] by simp
  have s22: "Fin (9007199254740989 / 2 ^ 51) + Fin (- (9007199254740991 / 2 ^ 51)) = Fin (- (1 / 2 ^ 50))"
    using rnd_frac [of "9007199254740989 / 2 ^ 51 + (- (9007199254740991 / 2 ^ 51))" 102 "- 4503599627370496"] by simp
  have s23: "Fin (9007199254740991 / 2 ^ 53) * Fin (- (1 / 2 ^ 50)) = Fin (- (9007199254740991 / 2 ^ 103))"
    using rnd_frac [of "(9007199254740991 / 2 ^ 53) * (- (1 / 2 ^ 50))" 103 "- 9007199254740991"] by simp
  have s24: "Fin (9007199254740991 / 2 ^ 52) * Fin (9007199254740991 / 2 ^ 53) = Fin (4503599627370495 / 2 ^ 51)"
    using rnd_frac [of "(9007199254740991 / 2 ^ 52) * (9007199254740991 / 2 ^ 53)" 52 "9007199254740990"] by simp
  have s25: "Fin (4503599627370495 / 2 ^ 51) + Fin (- (9007199254740991 / 2 ^ 52)) = Fin (- (1 / 2 ^ 52))"
    using rnd_frac [of "4503599627370495 / 2 ^ 51 + (- (9007199254740991 / 2 ^ 52))" 104 "- 4503599627370496"] by simp
  have s26: "Fin (- (9007199254740991 / 2 ^ 103)) / Fin (- (1 / 2 ^ 52)) = Fin (9007199254740991 / 2 ^ 51)"
    using rnd_frac [of "(- (9007199254740991 / 2 ^ 103)) / (- (1 / 2 ^ 52))" 51 "9007199254740991"] by simp
  have s27: "Fin 0 * Fin (1 / 2 ^ 51) = Fin 0"
    by simp
  have s28: "Fin 0 / Fin (1 / 2 ^ 51) = Fin 0"
    by simp
  have s29: "Fin (- (1 / 2 ^ 50)) + Fin 0 = Fin (- (1 / 2 ^ 50))"
    using rnd_frac [of "- (1 / 2 ^ 50) + 0" 102 "- 4503599627370496"] by simp
  have "\<exists>y. rnd ((9007199254740991 / 2 ^ 53) powr 1.25) = Fin y \<and> 1 / 5 \<le> y \<and> y \<le> 2"
    by (rule rnd_between [OF powr_unit_bounds [OF c]]) simp_all
  then obtain y where y: "Power (Fin (9007199254740991 / 2 ^ 53)) (Fin 1.25) = Fin y" "1 / 5 \<le> y" "y \<le> 2"
    by auto
  have "\<exists>z. rnd ((9007199254740991 / 2 ^ 53) powr 1.5) = Fin z \<and> 1 / 5 \<le> z \<and> z \<le> 2"
    by (rule rnd_between [OF powr_unit_bounds [OF c]]) simp_all
  then obtain z where z: "Power (Fin (9007199254740991 / 2 ^ 53)) (Fin 1.5) = Fin z" "1 / 5 \<le> z" "z \<le> 2"
    by auto
  have "1 / 2 + 1 / 5 \<le> 9007199254740991 / 2 ^ 53 + z" "9007199254740991 / 2 ^ 53 + z \<le> 1 + 2" using z(2,3) by simp_all
  then have "\<exists>w. rnd (9007199254740991 / 2 ^ 53 + z) = Fin w \<and> 1 / 2 \<le> w \<and> w \<le> 4"
    by (rule rnd_between) simp_all
  then obtain w where w: "Fin (9007199254740991 / 2 ^ 53) + Fin z = Fin w" "1 / 2 \<le> w" "w \<le> 4"
    by auto
  have "(1 / 5) * (1 / 2) \<le> y * w" by (rule mult_mono) (use y(2) w(2) in linarith)+
  moreover have "y * w \<le> 2 * 4" by (rule mult_mono) (use y(2,3) w(2,3) in linarith)+
  ultimately have "\<exists>v. rnd (y * w) = Fin v \<and> 1 / 20 \<le> v \<and> v \<le> 10"
    by (rule rnd_between) simp_all
  then obtain v where v: "Fin y * Fin w = Fin v" "1 / 20 \<le> v" "v \<le> 10"
    by auto
  have inf: "Fin y / Fin 0 = PInf" "Fin v / Fin 0 = PInf" using y(2) v(2) by simp_all
  have nan: "\<bar>Power (Fin (9007199254740991 / 2 ^ 53)) (Fin 0.25) * NaN / Fin 0\<bar> = NaN" by simp
  show ?thesis
    unfolding KerrEqGeoMinoFrequencies_def Let_def
    by (simp only: sp sq4 sq0 sqn p0 ab s1 s2 s3 s4 s5 s6 s7 s8 s9 s10 s11 s12 s13 s14 s15 s16 s17 s18 s19 s20 s21 s22 s23 s24 s25 s26 s27 s28 s29 y(1) z(1) w(1) v(1) inf nan)
qed

lemma powr_root:
  fixes x :: real
  assumes "0 < x" "0 < k"
  shows "(x powr (of_nat n / of_nat k)) ^ k = x ^ n"
proof -
  have "0 < x powr (of_nat n / of_nat k)" using assms(1) by simp
  then have "(x powr (of_nat n / of_nat k)) ^ k = (x powr (of_nat n / of_nat k)) powr (of_nat k)"
    by (rule powr_realpow [symmetric])
  also have "\<dots> = x powr (of_nat n)" using assms(2) by (simp add: powr_powr)
  also have "\<dots> = x ^ n" using assms(1) by (simp add: powr_realpow)
  finally show ?thesis .
qed

text \<open>Rounding a root of a rational power, decided by the powers of the two neighbours.\<close>

lemma rnd_powr_frac:
  fixes x :: real and i k n :: nat
  assumes "0 < x" "0 < k" "i \<le> 1074" "0 < m"
    and "(2 ^ 52) ^ k \<le> x ^ n * (2 ^ i) ^ k" "x ^ n * (2 ^ i) ^ k < (2 ^ 53) ^ k"
    and "(of_int m - 1 / 2) ^ k < x ^ n * (2 ^ i) ^ k" "x ^ n * (2 ^ i) ^ k < (of_int m + 1 / 2) ^ k"
  shows "rnd (x powr (of_nat n / of_nat k)) = Fin (of_int m / 2 ^ i)"
proof -
  define q where "q = x powr (of_nat n / of_nat k) * 2 ^ i"
  have q0: "0 \<le> q" unfolding q_def by simp
  have qk: "q ^ k = x ^ n * (2 ^ i) ^ k"
    unfolding q_def power_mult_distrib powr_root [OF assms(1,2)] ..
  have m0: "0 \<le> real_of_int m - 1 / 2" using assms(4) by linarith
  have "(2 ^ 52) ^ k \<le> q ^ k" "q ^ k < (2 ^ 53) ^ k" "(of_int m - 1 / 2) ^ k < q ^ k" "q ^ k < (of_int m + 1 / 2) ^ k"
    unfolding qk using assms(5-8) by blast+
  then have b: "2 ^ 52 \<le> q" "q < 2 ^ 53" "of_int m - 1 / 2 < q" "q < of_int m + 1 / 2"
    using q0 m0 assms(2) power_mono_iff [of "2 ^ 52" q k]
      power_less_imp_less_base [of q k "2 ^ 53"]
      power_less_imp_less_base [of "of_int m - 1 / 2" k q]
      power_less_imp_less_base [of q k "of_int m + 1 / 2"]
    by simp_all
  have a: "\<bar>x powr (of_nat n / of_nat k)\<bar> = x powr (of_nat n / of_nat k)" by simp
  have "\<bar>x powr (of_nat n / of_nat k) * 2 ^ i - of_int m\<bar> < 1 / 2" using b(3,4) unfolding q_def by linarith
  then show ?thesis using b(1,2) assms(3) unfolding q_def by (intro rnd_frac) (simp_all only: a)
qed

text \<open>
  The Mino-time quantities of the circular equatorial orbit at \<open>a = 0\<close>, \<open>p = 11\<close>, step by
  step.
\<close>

lemma KerrEq_0_11:
  "KerrEqGeoMinoFrequencies (Fin 0) (Fin 11) e x =
     (Fin (2496068666842357 / 2 ^ 44), Fin (4378723024861469 / 2 ^ 50), Fin (1094680756215367 / 2 ^ 48), Fin (5904268922252467 / 2 ^ 51))"
proof -
  have s1: "sqrt_d (Fin 11) = Fin (1867093771246541 / 2 ^ 49)"
    using rnd_sqrt_frac [of "11" 51 "7468375084986164"] by (simp add: power_divide)
  have s2: "pow (Fin 0) (Fin 2) = Fin 0"
    by simp
  have s3: "Fin (- 2) * Fin 0 = Fin 0"
    by simp
  have s4: "Fin 6 * Fin 0 = Fin 0"
    by simp
  have s5: "Fin 0 * Fin (1867093771246541 / 2 ^ 49) = Fin 0"
    by simp
  have s6: "Fin (- 5) + Fin 11 = Fin 6"
    using rnd_frac [of "(- 5) + 11" 50 "6755399441055744"] by simp
  have s7: "Fin 6 * Fin 11 = Fin 66"
    using rnd_frac [of "6 * 11" 46 "4644337115725824"] by simp
  have s8: "Fin 4 * Fin 0 = Fin 0"
    by simp
  have s9: "Fin 0 - Fin 0 = Fin 0"
    by (simp add: minus_double_def)
  have s10: "Fin (- 4) + Fin 11 = Fin 7"
    using rnd_frac [of "(- 4) + 11" 50 "7881299347898368"] by simp
  have s11: "Fin 7 * Fin 11 = Fin 77"
    using rnd_frac [of "7 * 11" 46 "5418393301680128"] by simp
  have s12: "Fin 0 - Fin 77 = Fin (- 77)"
    using rnd_frac [of "0 - 77" 46 "- 5418393301680128"] by (simp add: minus_double_def)
  have s13: "Fin 0 - Fin (1867093771246541 / 2 ^ 49) = Fin (- (1867093771246541 / 2 ^ 49))"
    using rnd_frac [of "0 - (1867093771246541 / 2 ^ 49)" 51 "- 7468375084986164"] by (simp add: minus_double_def)
  have s14: "pow (Fin (- (1867093771246541 / 2 ^ 49))) (Fin 2) = Fin 11"
    using rnd_frac [of "(1867093771246541 / 2 ^ 49) powr 2" 49 "6192449487634432"] by (simp add: power2_eq_square)
  have s15: "Fin 11 * Fin (- 77) = Fin (- 847)"
    using rnd_frac [of "11 * (- 77)" 43 "- 7450290789810176"] by simp
  have s16: "\<bar>Fin (- 77)\<bar> = Fin 77"
    by simp
  have s17: "Fin (- 847) / Fin 77 = Fin (- 11)"
    using rnd_frac [of "(- 847) / 77" 49 "- 6192449487634432"] by simp
  have s18: "Fin 0 + Fin 0 = Fin 0"
    by simp
  have s19: "Fin 0 + Fin 66 = Fin 66"
    using rnd_frac [of "0 + 66" 46 "4644337115725824"] by simp
  have s20: "Fin 66 + Fin (- 11) = Fin 55"
    using rnd_frac [of "66 + (- 11)" 47 "7740561859543040"] by simp
  have s21: "Fin 2 * Fin 0 = Fin 0"
    by simp
  have s22: "Fin (- 3) + Fin 11 = Fin 8"
    using rnd_frac [of "(- 3) + 11" 49 "4503599627370496"] by simp
  have s23: "Fin 8 * Fin 11 = Fin 88"
    using rnd_frac [of "8 * 11" 46 "6192449487634432"] by simp
  have s24: "Fin 0 + Fin 88 = Fin 88"
    using rnd_frac [of "0 + 88" 46 "6192449487634432"] by simp
  have s25: "Fin 11 * Fin 55 = Fin 605"
    using rnd_frac [of "11 * 55" 43 "5321636278435840"] by simp
  have s26: "Fin 605 / Fin 88 = Fin (55 / 2 ^ 3)"
    using rnd_frac [of "605 / 88" 50 "7740561859543040"] by simp
  have s27: "sqrt_d (Fin (55 / 2 ^ 3)) = Fin (5904268922252467 / 2 ^ 51)"
    using rnd_sqrt_frac [of "55 / 2 ^ 3" 51 "5904268922252467"] by (simp add: power_divide)
  have s28: "Fin 3 * Fin 0 = Fin 0"
    by simp
  have s29: "pow (Fin 11) (Fin 2) = Fin 121"
    using rnd_frac [of "11 powr 2" 46 "8514618045497344"] by (simp add: power2_eq_square)
  have s30: "Fin 0 + Fin 121 = Fin 121"
    using rnd_frac [of "0 + 121" 46 "8514618045497344"] by simp
  have s31: "Fin 8 * Fin (1867093771246541 / 2 ^ 49) = Fin (1867093771246541 / 2 ^ 46)"
    using rnd_frac [of "8 * (1867093771246541 / 2 ^ 49)" 48 "7468375084986164"] by simp
  have s32: "Fin 0 + Fin (1867093771246541 / 2 ^ 46) = Fin (1867093771246541 / 2 ^ 46)"
    using rnd_frac [of "0 + (1867093771246541 / 2 ^ 46)" 48 "7468375084986164"] by simp
  have s33: "sqrt_d (Fin (1867093771246541 / 2 ^ 46)) = Fin (1449882996352783 / 2 ^ 48)"
    using rnd_sqrt_frac [of "1867093771246541 / 2 ^ 46" 50 "5799531985411132"] by (simp add: power_divide)
  have s34: "pow (Fin 11) (Fin 0.25) = Fin (8201776789184985 / 2 ^ 52)"
    using rnd_powr_frac [of "11" 4 52 "8201776789184985" 1] by (simp add: power_divide)
  have s35: "sqrt_d (Fin 121) = Fin 11"
    using rnd_sqrt_frac [of "121" 49 "6192449487634432"] by (simp add: power_divide)
  have s36: "Fin (8201776789184985 / 2 ^ 52) * Fin 11 = Fin (5638721542564677 / 2 ^ 48)"
    using rnd_frac [of "(8201776789184985 / 2 ^ 52) * 11" 48 "5638721542564677"] by simp
  have s37: "Fin (5638721542564677 / 2 ^ 48) / Fin (1449882996352783 / 2 ^ 48) = Fin (1094680756215367 / 2 ^ 48)"
    using rnd_frac [of "(5638721542564677 / 2 ^ 48) / (1449882996352783 / 2 ^ 48)" 51 "8757446049722936"] by simp
  have s38: "\<bar>Fin (1094680756215367 / 2 ^ 48)\<bar> = Fin (1094680756215367 / 2 ^ 48)"
    by simp
  have s39: "pow (Fin 11) (Fin 1.25) = Fin (2819360771282339 / 2 ^ 47)"
    using rnd_powr_frac [of "11" 4 48 "5638721542564678" 5] by (simp add: power_divide)
  have s40: "Fin (2819360771282339 / 2 ^ 47) / Fin (1449882996352783 / 2 ^ 48) = Fin (4378723024861469 / 2 ^ 50)"
    using rnd_frac [of "(2819360771282339 / 2 ^ 47) / (1449882996352783 / 2 ^ 48)" 51 "8757446049722938"] by simp
  have s41: "pow (Fin 11) (Fin 1.5) = Fin (1283626967731997 / 2 ^ 45)"
    using rnd_powr_frac [of "11" 2 47 "5134507870927988" 3] by (simp add: power_divide)
  have s42: "Fin 0 + Fin (1283626967731997 / 2 ^ 45) = Fin (1283626967731997 / 2 ^ 45)"
    using rnd_frac [of "0 + (1283626967731997 / 2 ^ 45)" 47 "5134507870927988"] by simp
  have s43: "Fin (2819360771282339 / 2 ^ 47) * Fin (1283626967731997 / 2 ^ 45) = Fin (6428648756055987 / 2 ^ 43)"
    using rnd_frac [of "(2819360771282339 / 2 ^ 47) * (1283626967731997 / 2 ^ 45)" 43 "6428648756055987"] by simp
  have s44: "Fin (6428648756055987 / 2 ^ 43) / Fin (1449882996352783 / 2 ^ 48) = Fin (2496068666842357 / 2 ^ 44)"
    using rnd_frac [of "(6428648756055987 / 2 ^ 43) / (1449882996352783 / 2 ^ 48)" 45 "4992137333684714"] by simp
  show ?thesis
    unfolding KerrEqGeoMinoFrequencies_def Let_def
    by (simp only: s1 s2 s3 s4 s5 s6 s7 s8 s9 s10 s11 s12 s13 s14 s15 s16 s17 s18 s19 s20 s21 s22 s23 s24 s25 s26 s27 s28 s29 s30 s31 s32 s33 s34 s35 s36 s37 s38 s39 s40 s41 s42 s43 s44)
qed

lemma KerrGeoCoordinateFrequencies_0_11:
  "KerrGeoCoordinateFrequencies G (Fin 0) (Fin 11) (Fin 0) (Fin 1) =
     ret (Fin (7900429841968835 / 2 ^ 58), Fin (7900429841968833 / 2 ^ 58), Fin (5326468712855881 / 2 ^ 58))"
proof -
  have s45: "Fin (4378723024861469 / 2 ^ 50) / Fin (2496068666842357 / 2 ^ 44) = Fin (7900429841968835 / 2 ^ 58)"
    using rnd_frac [of "(4378723024861469 / 2 ^ 50) / (2496068666842357 / 2 ^ 44)" 58 "7900429841968835"] by simp
  have s46: "Fin (1094680756215367 / 2 ^ 48) / Fin (2496068666842357 / 2 ^ 44) = Fin (7900429841968833 / 2 ^ 58)"
    using rnd_frac [of "(1094680756215367 / 2 ^ 48) / (2496068666842357 / 2 ^ 44)" 58 "7900429841968833"] by simp
  have s47: "Fin (5904268922252467 / 2 ^ 51) / Fin (2496068666842357 / 2 ^ 44) = Fin (5326468712855881 / 2 ^ 58)"
    using rnd_frac [of "(5904268922252467 / 2 ^ 51) / (2496068666842357 / 2 ^ 44)" 58 "5326468712855881"] by simp
  have d: "dne (Fin v) (Fin v) = False" for v by (simp add: dne_def deq_def)
  have x: "deq \<bar>Fin 1\<bar> (Fin 1)" by (simp add: deq_def)
  show ?thesis
    unfolding KerrGeoCoordinateFrequencies_def KerrEq_0_11
    by (simp only: x if_True bind_res_ret prod.case d simp_thms if_False s45 s46 s47)
qed

section \<open>The value of \<open>\<pi>\<close> in binary64\<close>

text \<open>The partial sums of the series of the arc tangent enclose it.\<close>

lemma arctan_partial_sums:
  fixes x :: real
  assumes "0 \<le> x" "x \<le> 1"
  shows "(\<Sum>i<2 * n. (- 1) ^ i * (1 / real (i * 2 + 1) * x ^ (i * 2 + 1))) \<le> arctan x"
    and "arctan x \<le> (\<Sum>i<2 * n + 1. (- 1) ^ i * (1 / real (i * 2 + 1) * x ^ (i * 2 + 1)))"
proof -
  let ?a = "\<lambda>i. 1 / real (i * 2 + 1) * x ^ (i * 2 + 1)"
  have ax: "\<bar>x\<bar> \<le> 1" using assms by simp
  have z: "?a \<longlonglongrightarrow> 0" by (rule zeroseq_arctan_series [OF ax])
  have p: "0 \<le> ?a i" for i using assms(1) by simp
  have m: "?a (Suc i) \<le> ?a i" for i
  proof (rule mult_mono)
    show "1 / real (Suc i * 2 + 1) \<le> 1 / real (i * 2 + 1)" by (simp add: field_simps)
    show "x ^ (Suc i * 2 + 1) \<le> x ^ (i * 2 + 1)" using assms by (intro power_decreasing) simp_all
    show "0 \<le> 1 / real (i * 2 + 1)" by simp
    show "0 \<le> x ^ (Suc i * 2 + 1)" using assms(1) by simp
  qed
  have s: "arctan x = (\<Sum>i. (- 1) ^ i * ?a i)" by (rule arctan_series [OF ax])
  show "(\<Sum>i<2 * n. (- 1) ^ i * ?a i) \<le> arctan x"
    unfolding s by (rule summable_Leibniz'(2) [OF z p m])
  show "arctan x \<le> (\<Sum>i<2 * n + 1. (- 1) ^ i * ?a i)"
    unfolding s by (rule summable_Leibniz'(4) [OF z p m])
qed

lemma pi_bounds: "314159265358979323 / 10 ^ 17 < pi" "pi < 314159265358979324 / 10 ^ 17"
proof -
  have p: "pi = 16 * arctan (1 / 5) - 4 * arctan (1 / 239)" using machin by simp
  have l5: "(\<Sum>i<2 * 6. (- 1) ^ i * (1 / real (i * 2 + 1) * (1 / 5) ^ (i * 2 + 1))) \<le> arctan (1 / 5)"
    by (rule arctan_partial_sums(1)) simp_all
  have u5: "arctan (1 / 5) \<le> (\<Sum>i<2 * 6 + 1. (- 1) ^ i * (1 / real (i * 2 + 1) * (1 / 5) ^ (i * 2 + 1)))"
    by (rule arctan_partial_sums(2)) simp_all
  have l239: "(\<Sum>i<2 * 2. (- 1) ^ i * (1 / real (i * 2 + 1) * (1 / 239) ^ (i * 2 + 1))) \<le> arctan (1 / 239)"
    by (rule arctan_partial_sums(1)) simp_all
  have u239: "arctan (1 / 239) \<le> (\<Sum>i<2 * 2 + 1. (- 1) ^ i * (1 / real (i * 2 + 1) * (1 / 239) ^ (i * 2 + 1)))"
    by (rule arctan_partial_sums(2)) simp_all
  show "314159265358979323 / 10 ^ 17 < pi"
    unfolding p using l5 u239 by (simp add: eval_nat_numeral)
  show "pi < 314159265358979324 / 10 ^ 17"
    unfolding p using u5 l239 by (simp add: eval_nat_numeral)
qed

lemma M_PI_value: "M_PI = Fin (884279719003555 / 2 ^ 48)"
proof -
  note b = pi_bounds
  have a: "\<bar>pi\<bar> = pi" by simp
  have "rnd pi = Fin (of_int 7074237752028440 / 2 ^ 51)"
    using rnd_frac [of pi 51 7074237752028440] b by simp
  then show ?thesis unfolding M_PI_def lit_def by simp
qed

section \<open>A circular orbit without spin\<close>

text \<open>
  The two paths of the batch form on the circular orbit at \<open>p = 7\<close> without spin, step by
  step: the Schwarzschild formulas with the complete integrals at modulus 0, and the
  equatorial formulas of the scalar form.
\<close>

lemma Schwarzschild_circular_7:
  "SchwarzschildGeoCoordinateFrequencies circular_ellint (Fin 7) (Fin 0) = ret (Fin (3890744365265467 / 2 ^ 56), Fin (2941126287262365 / 2 ^ 57))"
proof -
  have s1: "Fin (884279719003555 / 2 ^ 48) / Fin 2 = Fin (884279719003555 / 2 ^ 49)"
    using rnd_frac [of "(884279719003555 / 2 ^ 48) / 2" 52 "7074237752028440"] by simp
  have s2: "pow (Fin 7) (Fin 1.5) = Fin (5212989520648653 / 2 ^ 48)"
    using rnd_powr_frac [of "7" 2 48 "5212989520648653" 3] by (simp add: power_divide)
  have s3: "Fin 2 * Fin (5212989520648653 / 2 ^ 48) = Fin (5212989520648653 / 2 ^ 47)"
    using rnd_frac [of "2 * (5212989520648653 / 2 ^ 48)" 47 "5212989520648653"] by simp
  have s4: "pow (Fin 0) (Fin 2) = Fin 0"
    by simp
  have s5: "Fin (- 4) * Fin 0 = Fin 0"
    by simp
  have s6: "Fin (- 2) + Fin 7 = Fin 5"
    using rnd_frac [of "(- 2) + 7" 50 "5629499534213120"] by simp
  have s7: "pow (Fin 5) (Fin 2) = Fin 25"
    using rnd_frac [of "5 powr 2" 48 "7036874417766400"] by (simp add: power2_eq_square)
  have s8: "Fin 0 + Fin 25 = Fin 25"
    using rnd_frac [of "0 + 25" 48 "7036874417766400"] by simp
  have s9: "sqrt_d (Fin 25) = Fin 5"
    using rnd_sqrt_frac [of "25" 50 "5629499534213120"] by (simp add: power_divide)
  have s10: "Fin (- 2) * Fin (884279719003555 / 2 ^ 49) = Fin (- (884279719003555 / 2 ^ 48))"
    using rnd_frac [of "(- 2) * (884279719003555 / 2 ^ 49)" 51 "- 7074237752028440"] by simp
  have s11: "Fin 2 * Fin 0 = Fin 0"
    by simp
  have s12: "Fin 6 + Fin 0 = Fin 6"
    using rnd_frac [of "6 + 0" 50 "6755399441055744"] by simp
  have s13: "Fin 6 - Fin 7 = Fin (- 1)"
    using rnd_frac [of "6 - 7" 52 "- 4503599627370496"] by (simp add: minus_double_def)
  have s14: "Fin (- (884279719003555 / 2 ^ 48)) * Fin (- 1) = Fin (884279719003555 / 2 ^ 48)"
    using rnd_frac [of "(- (884279719003555 / 2 ^ 48)) * (- 1)" 51 "7074237752028440"] by simp
  have s15: "Fin 3 + Fin 0 = Fin 3"
    using rnd_frac [of "3 + 0" 51 "6755399441055744"] by simp
  have s16: "Fin 3 - Fin 7 = Fin (- 4)"
    using rnd_frac [of "3 - 7" 50 "- 4503599627370496"] by (simp add: minus_double_def)
  have s17: "Fin (884279719003555 / 2 ^ 48) * Fin (- 4) = Fin (- (884279719003555 / 2 ^ 46))"
    using rnd_frac [of "(884279719003555 / 2 ^ 48) * (- 4)" 49 "- 7074237752028440"] by simp
  have s18: "pow (Fin 7) (Fin 2) = Fin 49"
    using rnd_frac [of "7 powr 2" 47 "6896136929411072"] by (simp add: power2_eq_square)
  have s19: "Fin (- (884279719003555 / 2 ^ 46)) * Fin 49 = Fin (- (2708106639448387 / 2 ^ 42))"
    using rnd_frac [of "(- (884279719003555 / 2 ^ 46)) * 49" 43 "- 5416213278896774"] by simp
  have s20: "Fin (- 1) + Fin 0 = Fin (- 1)"
    using rnd_frac [of "(- 1) + 0" 52 "- 4503599627370496"] by simp
  have s21: "Fin 1 + Fin 0 = Fin 1"
    using rnd_frac [of "1 + 0" 52 "4503599627370496"] by simp
  have s22: "pow (Fin 1) (Fin 2) = Fin 1"
    by simp
  have s23: "Fin (- 1) * Fin 1 = Fin (- 1)"
    using rnd_frac [of "(- 1) * 1" 52 "- 4503599627370496"] by simp
  have s24: "Fin (- (2708106639448387 / 2 ^ 42)) / Fin (- 1) = Fin (2708106639448387 / 2 ^ 42)"
    using rnd_frac [of "(- (2708106639448387 / 2 ^ 42)) / (- 1)" 43 "5416213278896774"] by simp
  have s25: "Fin (- 4) + Fin 7 = Fin 3"
    using rnd_frac [of "(- 4) + 7" 51 "6755399441055744"] by simp
  have s26: "Fin (884279719003555 / 2 ^ 49) * Fin 3 = Fin (2652839157010665 / 2 ^ 49)"
    using rnd_frac [of "(884279719003555 / 2 ^ 49) * 3" 50 "5305678314021330"] by simp
  have s27: "Fin (2652839157010665 / 2 ^ 49) * Fin 49 = Fin (4062159959172581 / 2 ^ 44)"
    using rnd_frac [of "(2652839157010665 / 2 ^ 49) * 49" 45 "8124319918345162"] by simp
  have s28: "Fin (- 6) + Fin 0 = Fin (- 6)"
    using rnd_frac [of "(- 6) + 0" 50 "- 6755399441055744"] by simp
  have s29: "Fin (- 6) + Fin 7 = Fin 1"
    using rnd_frac [of "(- 6) + 7" 52 "4503599627370496"] by simp
  have s30: "Fin (4062159959172581 / 2 ^ 44) * Fin 1 = Fin (4062159959172581 / 2 ^ 44)"
    using rnd_frac [of "(4062159959172581 / 2 ^ 44) * 1" 45 "8124319918345162"] by simp
  have s31: "Fin (4062159959172581 / 2 ^ 44) / Fin (- 1) = Fin (- (4062159959172581 / 2 ^ 44))"
    using rnd_frac [of "(4062159959172581 / 2 ^ 44) / (- 1)" 45 "- 8124319918345162"] by simp
  have s32: "Fin (2708106639448387 / 2 ^ 42) - Fin (- (4062159959172581 / 2 ^ 44)) = Fin (930911657310383 / 2 ^ 40)"
    using rnd_tie [of "(2708106639448387 / 2 ^ 42) - (- (4062159959172581 / 2 ^ 44))" 43 "7447293258483064"] by (simp add: minus_double_def)
  have s33: "Fin (884279719003555 / 2 ^ 49) * Fin 49 = Fin (2708106639448387 / 2 ^ 45)"
    using rnd_frac [of "(884279719003555 / 2 ^ 49) * 49" 46 "5416213278896774"] by simp
  have s34: "Fin 4 * Fin 0 = Fin 0"
    by simp
  have s35: "Fin 28 + Fin 0 = Fin 28"
    using rnd_frac [of "28 + 0" 48 "7881299347898368"] by simp
  have s36: "Fin 12 * Fin 7 = Fin 84"
    using rnd_frac [of "12 * 7" 46 "5910974510923776"] by simp
  have s37: "Fin 28 - Fin 84 = Fin (- 56)"
    using rnd_frac [of "28 - 84" 47 "- 7881299347898368"] by (simp add: minus_double_def)
  have s38: "Fin (- 56) + Fin 49 = Fin (- 7)"
    using rnd_frac [of "(- 56) + 49" 50 "- 7881299347898368"] by simp
  have s39: "Fin (2708106639448387 / 2 ^ 45) * Fin (- 7) = Fin (- (4739186619034677 / 2 ^ 43))"
    using rnd_frac [of "(2708106639448387 / 2 ^ 45) * (- 7)" 43 "- 4739186619034677"] by simp
  have s40: "Fin (- (4739186619034677 / 2 ^ 43)) / Fin (- 1) = Fin (4739186619034677 / 2 ^ 43)"
    using rnd_frac [of "(- (4739186619034677 / 2 ^ 43)) / (- 1)" 43 "4739186619034677"] by simp
  have s41: "Fin (930911657310383 / 2 ^ 40) + Fin (4739186619034677 / 2 ^ 43) = Fin (3046619969379435 / 2 ^ 41)"
    using rnd_tie [of "(930911657310383 / 2 ^ 40) + (4739186619034677 / 2 ^ 43)" 42 "6093239938758870"] by simp
  have s42: "Fin 4 * Fin 3 = Fin 12"
    using rnd_frac [of "4 * 3" 49 "6755399441055744"] by simp
  have s43: "Fin 2 * Fin 1 = Fin 2"
    using rnd_frac [of "2 * 1" 51 "4503599627370496"] by simp
  have s44: "Fin 2 * Fin (884279719003555 / 2 ^ 49) = Fin (884279719003555 / 2 ^ 48)"
    using rnd_frac [of "2 * (884279719003555 / 2 ^ 49)" 51 "7074237752028440"] by simp
  have s45: "Fin (- 6) - Fin 0 = Fin (- 6)"
    using rnd_frac [of "(- 6) - 0" 50 "- 6755399441055744"] by (simp add: minus_double_def)
  have s46: "Fin (884279719003555 / 2 ^ 49) * Fin 1 = Fin (884279719003555 / 2 ^ 49)"
    using rnd_frac [of "(884279719003555 / 2 ^ 49) * 1" 52 "7074237752028440"] by simp
  have s47: "Fin (884279719003555 / 2 ^ 48) + Fin (884279719003555 / 2 ^ 49) = Fin (2652839157010665 / 2 ^ 49)"
    using rnd_frac [of "(884279719003555 / 2 ^ 48) + (884279719003555 / 2 ^ 49)" 50 "5305678314021330"] by simp
  have s48: "Fin 84 * Fin (2652839157010665 / 2 ^ 49) = Fin (1740925696788249 / 2 ^ 42)"
    using rnd_frac [of "84 * (2652839157010665 / 2 ^ 49)" 44 "6963702787152996"] by simp
  have s49: "Fin (1740925696788249 / 2 ^ 42) / Fin 1 = Fin (1740925696788249 / 2 ^ 42)"
    using rnd_frac [of "(1740925696788249 / 2 ^ 42) / 1" 44 "6963702787152996"] by simp
  have s50: "Fin (3046619969379435 / 2 ^ 41) + Fin (1740925696788249 / 2 ^ 42) = Fin (7834165635547119 / 2 ^ 42)"
    using rnd_frac [of "(3046619969379435 / 2 ^ 41) + (1740925696788249 / 2 ^ 42)" 42 "7834165635547119"] by simp
  have s51: "pow (Fin 3) (Fin 2) = Fin 9"
    using rnd_frac [of "3 powr 2" 49 "5066549580791808"] by (simp add: power2_eq_square)
  have s52: "Fin 2 * Fin 9 = Fin 18"
    using rnd_frac [of "2 * 9" 48 "5066549580791808"] by simp
  have s53: "Fin (884279719003555 / 2 ^ 49) * Fin 7 = Fin (6189958033024885 / 2 ^ 49)"
    using rnd_frac [of "(884279719003555 / 2 ^ 49) * 7" 49 "6189958033024885"] by simp
  have s54: "Fin (6189958033024885 / 2 ^ 49) * Fin 1 = Fin (6189958033024885 / 2 ^ 49)"
    using rnd_frac [of "(6189958033024885 / 2 ^ 49) * 1" 49 "6189958033024885"] by simp
  have s55: "Fin 2 + Fin 0 = Fin 2"
    using rnd_frac [of "2 + 0" 51 "4503599627370496"] by simp
  have s56: "Fin 2 - Fin 7 = Fin (- 5)"
    using rnd_frac [of "2 - 7" 50 "- 5629499534213120"] by (simp add: minus_double_def)
  have s57: "Fin (6189958033024885 / 2 ^ 49) / Fin (- 5) = Fin (- (1237991606604977 / 2 ^ 49))"
    using rnd_frac [of "(6189958033024885 / 2 ^ 49) / (- 5)" 51 "- 4951966426419908"] by simp
  have s58: "Fin (2652839157010665 / 2 ^ 49) + Fin (- (1237991606604977 / 2 ^ 49)) = Fin (176855943800711 / 2 ^ 46)"
    using rnd_frac [of "(2652839157010665 / 2 ^ 49) + (- (1237991606604977 / 2 ^ 49))" 51 "5659390201622752"] by simp
  have s59: "Fin 18 * Fin (176855943800711 / 2 ^ 46) = Fin (1591703494206399 / 2 ^ 45)"
    using rnd_frac [of "18 * (176855943800711 / 2 ^ 46)" 47 "6366813976825596"] by simp
  have s60: "Fin (7834165635547119 / 2 ^ 42) + Fin (1591703494206399 / 2 ^ 45) = Fin (8033128572322919 / 2 ^ 42)"
    using rnd_frac [of "(7834165635547119 / 2 ^ 42) + (1591703494206399 / 2 ^ 45)" 42 "8033128572322919"] by simp
  have s61: "Fin (884279719003555 / 2 ^ 49) * Fin 9 = Fin (7958517471031995 / 2 ^ 49)"
    using rnd_frac [of "(884279719003555 / 2 ^ 49) * 9" 49 "7958517471031995"] by simp
  have s62: "Fin (8033128572322919 / 2 ^ 42) / Fin (7958517471031995 / 2 ^ 49) = Fin (2272910436938547 / 2 ^ 44)"
    using rnd_frac [of "(8033128572322919 / 2 ^ 42) / (7958517471031995 / 2 ^ 49)" 45 "4545820873877094"] by simp
  have s63: "Fin 8 + Fin (2272910436938547 / 2 ^ 44) = Fin (2413647925293875 / 2 ^ 44)"
    using rnd_frac [of "8 + (2272910436938547 / 2 ^ 44)" 45 "4827295850587750"] by simp
  have s64: "Fin 5 * Fin (2413647925293875 / 2 ^ 44) = Fin 686"
    using rnd_tie [of "5 * (2413647925293875 / 2 ^ 44)" 43 "6034119813234688"] by simp
  have s65: "Fin (5212989520648653 / 2 ^ 47) / Fin 686 = Fin (3890744365265467 / 2 ^ 56)"
    using rnd_frac [of "(5212989520648653 / 2 ^ 47) / 686" 57 "7781488730530934"] by simp
  have s66: "Fin 1 / Fin 25 = Fin (5764607523034235 / 2 ^ 57)"
    using rnd_frac [of "1 / 25" 57 "5764607523034235"] by simp
  have s67: "sqrt_d (Fin (5764607523034235 / 2 ^ 57)) = Fin (3602879701896397 / 2 ^ 54)"
    using rnd_sqrt_frac [of "5764607523034235 / 2 ^ 57" 55 "7205759403792794"] by (simp add: power_divide)
  have s68: "Fin 7 * Fin (3602879701896397 / 2 ^ 54) = Fin (6305039478318695 / 2 ^ 52)"
    using rnd_frac [of "7 * (3602879701896397 / 2 ^ 54)" 52 "6305039478318695"] by simp
  have s69: "Fin (6305039478318695 / 2 ^ 52) * Fin (884279719003555 / 2 ^ 48) = Fin (1237991606604977 / 2 ^ 48)"
    using rnd_frac [of "(6305039478318695 / 2 ^ 52) * (884279719003555 / 2 ^ 48)" 50 "4951966426419908"] by simp
  have s70: "Fin 8 * Fin (884279719003555 / 2 ^ 49) = Fin (884279719003555 / 2 ^ 46)"
    using rnd_frac [of "8 * (884279719003555 / 2 ^ 49)" 49 "7074237752028440"] by simp
  have s71: "Fin (8033128572322919 / 2 ^ 42) / Fin 9 = Fin (3570279365476853 / 2 ^ 44)"
    using rnd_frac [of "(8033128572322919 / 2 ^ 42) / 9" 45 "7140558730953706"] by simp
  have s72: "Fin (884279719003555 / 2 ^ 46) + Fin (3570279365476853 / 2 ^ 44) = Fin (1895674647613871 / 2 ^ 43)"
    using rnd_tie [of "(884279719003555 / 2 ^ 46) + (3570279365476853 / 2 ^ 44)" 45 "7582698590455484"] by simp
  have s73: "Fin (1237991606604977 / 2 ^ 48) / Fin (1895674647613871 / 2 ^ 43) = Fin (2941126287262365 / 2 ^ 57)"
    using rnd_frac [of "(1237991606604977 / 2 ^ 48) / (1895674647613871 / 2 ^ 43)" 58 "5882252574524730"] by simp
  show ?thesis
    unfolding SchwarzschildGeoCoordinateFrequencies_def Elliptic_circular bind_res_ret Let_def M_PI_value
    by (simp only: s1 s2 s3 s4 s5 s6 s7 s8 s9 s10 s11 s12 s13 s14 s15 s16 s17 s18 s19 s20 s21 s22 s23 s24 s25 s26 s27 s28 s29 s30 s31 s32 s33 s34 s35 s36 s37 s38 s39 s40 s41 s42 s43 s44 s45 s46 s47 s48 s49 s50 s51 s52 s53 s54 s55 s56 s57 s58 s59 s60 s61 s62 s63 s64 s65 s66 s67 s68 s69 s70 s71 s72 s73)
qed

lemma KerrEq_0_7:
  "KerrEqGeoMinoFrequencies (Fin 0) (Fin 7) e x =
     (Fin (4561365830567571 / 2 ^ 46), Fin (7881299347898367 / 2 ^ 51), Fin (7881299347898367 / 2 ^ 51), Fin (5957702309312745 / 2 ^ 52))"
proof -
  have s1: "sqrt_d (Fin 7) = Fin (2978851154656373 / 2 ^ 50)"
    using rnd_sqrt_frac [of "7" 51 "5957702309312746"] by (simp add: power_divide)
  have s2: "pow (Fin 0) (Fin 2) = Fin 0"
    by simp
  have s3: "Fin (- 2) * Fin 0 = Fin 0"
    by simp
  have s4: "Fin 6 * Fin 0 = Fin 0"
    by simp
  have s5: "Fin 0 * Fin (2978851154656373 / 2 ^ 50) = Fin 0"
    by simp
  have s6: "Fin (- 5) + Fin 7 = Fin 2"
    using rnd_frac [of "(- 5) + 7" 51 "4503599627370496"] by simp
  have s7: "Fin 2 * Fin 7 = Fin 14"
    using rnd_frac [of "2 * 7" 49 "7881299347898368"] by simp
  have s8: "Fin 4 * Fin 0 = Fin 0"
    by simp
  have s9: "Fin 0 - Fin 0 = Fin 0"
    by (simp add: minus_double_def)
  have s10: "Fin (- 4) + Fin 7 = Fin 3"
    using rnd_frac [of "(- 4) + 7" 51 "6755399441055744"] by simp
  have s11: "Fin 3 * Fin 7 = Fin 21"
    using rnd_frac [of "3 * 7" 48 "5910974510923776"] by simp
  have s12: "Fin 0 - Fin 21 = Fin (- 21)"
    using rnd_frac [of "0 - 21" 48 "- 5910974510923776"] by (simp add: minus_double_def)
  have s13: "Fin 0 - Fin (2978851154656373 / 2 ^ 50) = Fin (- (2978851154656373 / 2 ^ 50))"
    using rnd_frac [of "0 - (2978851154656373 / 2 ^ 50)" 51 "- 5957702309312746"] by (simp add: minus_double_def)
  have s14: "pow (Fin (- (2978851154656373 / 2 ^ 50))) (Fin 2) = Fin (7881299347898369 / 2 ^ 50)"
    using rnd_frac [of "(2978851154656373 / 2 ^ 50) powr 2" 50 "7881299347898369"] by (simp add: power2_eq_square)
  have s15: "Fin (7881299347898369 / 2 ^ 50) * Fin (- 21) = Fin (- (5172102697058305 / 2 ^ 45))"
    using rnd_frac [of "(7881299347898369 / 2 ^ 50) * (- 21)" 45 "- 5172102697058305"] by simp
  have s16: "\<bar>Fin (- 21)\<bar> = Fin 21"
    by simp
  have s17: "Fin (- (5172102697058305 / 2 ^ 45)) / Fin 21 = Fin (- (3940649673949185 / 2 ^ 49))"
    using rnd_frac [of "(- (5172102697058305 / 2 ^ 45)) / 21" 50 "- 7881299347898370"] by simp
  have s18: "Fin 0 + Fin 0 = Fin 0"
    by simp
  have s19: "Fin 0 + Fin 14 = Fin 14"
    using rnd_frac [of "0 + 14" 49 "7881299347898368"] by simp
  have s20: "Fin 14 + Fin (- (3940649673949185 / 2 ^ 49)) = Fin (3940649673949183 / 2 ^ 49)"
    using rnd_frac [of "14 + (- (3940649673949185 / 2 ^ 49))" 50 "7881299347898366"] by simp
  have s21: "Fin 2 * Fin 0 = Fin 0"
    by simp
  have s22: "Fin (- 3) + Fin 7 = Fin 4"
    using rnd_frac [of "(- 3) + 7" 50 "4503599627370496"] by simp
  have s23: "Fin 4 * Fin 7 = Fin 28"
    using rnd_frac [of "4 * 7" 48 "7881299347898368"] by simp
  have s24: "Fin 0 + Fin 28 = Fin 28"
    using rnd_frac [of "0 + 28" 48 "7881299347898368"] by simp
  have s25: "Fin 7 * Fin (3940649673949183 / 2 ^ 49) = Fin (3448068464705535 / 2 ^ 46)"
    using rnd_frac [of "7 * (3940649673949183 / 2 ^ 49)" 47 "6896136929411070"] by simp
  have s26: "Fin (3448068464705535 / 2 ^ 46) / Fin 28 = Fin (3940649673949183 / 2 ^ 51)"
    using rnd_frac [of "(3448068464705535 / 2 ^ 46) / 28" 52 "7881299347898366"] by simp
  have s27: "sqrt_d (Fin (3940649673949183 / 2 ^ 51)) = Fin (5957702309312745 / 2 ^ 52)"
    using rnd_sqrt_frac [of "3940649673949183 / 2 ^ 51" 52 "5957702309312745"] by (simp add: power_divide)
  have s28: "Fin 3 * Fin 0 = Fin 0"
    by simp
  have s29: "pow (Fin 7) (Fin 2) = Fin 49"
    using rnd_frac [of "7 powr 2" 47 "6896136929411072"] by (simp add: power2_eq_square)
  have s30: "Fin 0 + Fin 49 = Fin 49"
    using rnd_frac [of "0 + 49" 47 "6896136929411072"] by simp
  have s31: "Fin 4 * Fin (2978851154656373 / 2 ^ 50) = Fin (2978851154656373 / 2 ^ 48)"
    using rnd_frac [of "4 * (2978851154656373 / 2 ^ 50)" 49 "5957702309312746"] by simp
  have s32: "Fin 0 + Fin (2978851154656373 / 2 ^ 48) = Fin (2978851154656373 / 2 ^ 48)"
    using rnd_frac [of "0 + (2978851154656373 / 2 ^ 48)" 49 "5957702309312746"] by simp
  have s33: "sqrt_d (Fin (2978851154656373 / 2 ^ 48)) = Fin (7325449597151731 / 2 ^ 51)"
    using rnd_sqrt_frac [of "2978851154656373 / 2 ^ 48" 51 "7325449597151731"] by (simp add: power_divide)
  have s34: "pow (Fin 7) (Fin 0.25) = Fin (3662724798575865 / 2 ^ 51)"
    using rnd_powr_frac [of "7" 4 52 "7325449597151730" 1] by (simp add: power_divide)
  have s35: "sqrt_d (Fin 49) = Fin 7"
    using rnd_sqrt_frac [of "49" 50 "7881299347898368"] by (simp add: power_divide)
  have s36: "Fin (3662724798575865 / 2 ^ 51) * Fin 7 = Fin (1602442099376941 / 2 ^ 47)"
    using rnd_frac [of "(3662724798575865 / 2 ^ 51) * 7" 49 "6409768397507764"] by simp
  have s37: "Fin (1602442099376941 / 2 ^ 47) / Fin (7325449597151731 / 2 ^ 51) = Fin (7881299347898367 / 2 ^ 51)"
    using rnd_frac [of "(1602442099376941 / 2 ^ 47) / (7325449597151731 / 2 ^ 51)" 51 "7881299347898367"] by simp
  have s38: "\<bar>Fin (7881299347898367 / 2 ^ 51)\<bar> = Fin (7881299347898367 / 2 ^ 51)"
    by simp
  have s39: "pow (Fin 7) (Fin 1.25) = Fin (1602442099376941 / 2 ^ 47)"
    using rnd_powr_frac [of "7" 4 49 "6409768397507764" 5] by (simp add: power_divide)
  have s40: "pow (Fin 7) (Fin 1.5) = Fin (5212989520648653 / 2 ^ 48)"
    using rnd_powr_frac [of "7" 2 48 "5212989520648653" 3] by (simp add: power_divide)
  have s41: "Fin 0 + Fin (5212989520648653 / 2 ^ 48) = Fin (5212989520648653 / 2 ^ 48)"
    using rnd_frac [of "0 + (5212989520648653 / 2 ^ 48)" 48 "5212989520648653"] by simp
  have s42: "Fin (1602442099376941 / 2 ^ 47) * Fin (5212989520648653 / 2 ^ 48) = Fin (7419410749330365 / 2 ^ 45)"
    using rnd_frac [of "(1602442099376941 / 2 ^ 47) * (5212989520648653 / 2 ^ 48)" 45 "7419410749330365"] by simp
  have s43: "Fin (7419410749330365 / 2 ^ 45) / Fin (7325449597151731 / 2 ^ 51) = Fin (4561365830567571 / 2 ^ 46)"
    using rnd_frac [of "(7419410749330365 / 2 ^ 45) / (7325449597151731 / 2 ^ 51)" 46 "4561365830567571"] by simp
  show ?thesis
    unfolding KerrEqGeoMinoFrequencies_def Let_def
    by (simp only: s1 s2 s3 s4 s5 s6 s7 s8 s9 s10 s11 s12 s13 s14 s15 s16 s17 s18 s19 s20 s21 s22 s23 s24 s25 s26 s27 s28 s29 s30 s31 s32 s33 s34 s35 s36 s37 s38 s39 s40 s41 s42 s43)
qed

lemma KerrGeoCoordinateFrequencies_0_7:
  "KerrGeoCoordinateFrequencies G (Fin 0) (Fin 7) (Fin 0) (Fin 1) =
     ret (Fin (1945372182632733 / 2 ^ 55), Fin (1945372182632733 / 2 ^ 55), Fin (5882252574524729 / 2 ^ 58))"
proof -
  have s44: "Fin (7881299347898367 / 2 ^ 51) / Fin (4561365830567571 / 2 ^ 46) = Fin (1945372182632733 / 2 ^ 55)"
    using rnd_frac [of "(7881299347898367 / 2 ^ 51) / (4561365830567571 / 2 ^ 46)" 57 "7781488730530932"] by simp
  have s45: "Fin (5957702309312745 / 2 ^ 52) / Fin (4561365830567571 / 2 ^ 46) = Fin (5882252574524729 / 2 ^ 58)"
    using rnd_frac [of "(5957702309312745 / 2 ^ 52) / (4561365830567571 / 2 ^ 46)" 58 "5882252574524729"] by simp
  have d: "dne (Fin v) (Fin v) = False" for v by (simp add: dne_def deq_def)
  have x: "deq \<bar>Fin 1\<bar> (Fin 1)" by (simp add: deq_def)
  show ?thesis
    unfolding KerrGeoCoordinateFrequencies_def KerrEq_0_7
    by (simp only: x if_True bind_res_ret prod.case d simp_thms if_False s44 s45)
qed

lemma Vectorized_circular_7:
  "KerrGeoCoordinateFrequenciesVectorized circular_ellint ([Fin 0], [Fin 0], [Fin 0]) [Fin 0] [Fin 7] [Fin 0] [Fin 1] 1
     = ret ([Fin (3890744365265467 / 2 ^ 56)], [Fin (3890744365265467 / 2 ^ 56)], [Fin (2941126287262365 / 2 ^ 57)])"
  using Vectorized_one_zero_spin [of "Fin 7" "Fin 0" "Fin 1"] unfolding Schwarzschild_circular_7
  by (auto simp: ret_def)

text \<open>The same for a number of the binade \<open>[2\<^sup>5\<^sup>2\<^sup>+\<^sup>j, 2\<^sup>5\<^sup>3\<^sup>+\<^sup>j)\<close>.\<close>

lemma binade_big:
  fixes x :: real and j :: nat
  assumes "2 ^ 52 * 2 ^ j \<le> \<bar>x\<bar>" "\<bar>x\<bar> < 2 ^ 53 * 2 ^ j"
  shows "2 powi (52 + int j) \<le> \<bar>x\<bar>" "\<bar>x\<bar> < 2 powi (52 + int j + 1)" "x / 2 powi (52 + int j - 52) = x / 2 ^ j"
    "of_int m * 2 powi (52 + int j - 52) = of_int m * (2::real) ^ j"
proof -
  have p: "(2::real) powi (52 + int j) = 2 ^ 52 * 2 ^ j" "(2::real) powi (52 + int j + 1) = 2 ^ 53 * 2 ^ j"
    by (simp_all add: power_int_add)
  show "2 powi (52 + int j) \<le> \<bar>x\<bar>" unfolding p by (rule assms(1))
  show "\<bar>x\<bar> < 2 powi (52 + int j + 1)" unfolding p by (rule assms(2))
  have z: "52 + int j - 52 = int j" by simp
  show "x / 2 powi (52 + int j - 52) = x / 2 ^ j" unfolding z by simp
  show "of_int m * 2 powi (52 + int j - 52) = of_int m * (2::real) ^ j" unfolding z by simp
qed


lemma rnd_big_tie:
  fixes x :: real and j :: nat
  assumes "2 ^ 52 * 2 ^ j \<le> \<bar>x\<bar>" "\<bar>x\<bar> < 2 ^ 53 * 2 ^ j" "j \<le> 970"
    and "\<bar>x / 2 ^ j - of_int m\<bar> = 1 / 2" "even m"
  shows "rnd x = Fin (of_int m * 2 ^ j)"
proof -
  note b = binade_big [OF assms(1,2)]
  have near: "\<bar>x / 2 powi (52 + int j - 52) - of_int m\<bar> = 1 / 2" unfolding b(3) by (rule assms(4))
  have "rnd x = Fin (of_int m * 2 powi (52 + int j - 52))"
    by (rule rnd_eval_tie [OF b(1,2) _ _ near assms(5)]) (use assms(3) in simp_all)
  then show ?thesis unfolding b(4) .
qed

section \<open>Runs of the solver\<close>

text \<open>One round of the loop of \<^verbatim>\<open>solver\<close> with \<open>halving_fsolver\<close>.\<close>

lemma halving_step:
  "solver_iterations halving_fsolver epsrel mx (lo, hi) iter =
     (let lo' = Fin 0.5 * (lo + hi);
          status = (if \<bar>hi - lo'\<bar> < Fin 0 + epsrel * min \<bar>lo'\<bar> \<bar>hi\<bar> then GSL_SUCCESS else GSL_CONTINUE)
      in if status = GSL_CONTINUE \<and> iter + 1 < mx
         then solver_iterations halving_fsolver epsrel mx (lo', hi) (iter + 1)
         else (status, iter + 1, lo', lo', hi))"
  by (subst solver_iterations.simps) (simp add: halving_fsolver_def Let_def)

lemma halving_continue:
  assumes "Fin 0.5 * (lo + hi) = lo'"
    and "(\<bar>hi - lo'\<bar> < Fin 0 + epsrel * min \<bar>lo'\<bar> \<bar>hi\<bar>) = False"
    and "iter + 1 < mx"
  shows "solver_iterations halving_fsolver epsrel mx (lo, hi) iter =
           solver_iterations halving_fsolver epsrel mx (lo', hi) (iter + 1)"
  unfolding halving_step [of epsrel mx lo hi iter] Let_def assms(1) assms(2)
  using assms(3) by simp

lemma halving_stop:
  assumes "Fin 0.5 * (lo + hi) = lo'"
    and "\<bar>hi - lo'\<bar> < Fin 0 + epsrel * min \<bar>lo'\<bar> \<bar>hi\<bar>"
  shows "solver_iterations halving_fsolver epsrel mx (lo, hi) iter = (GSL_SUCCESS, iter + 1, lo', lo', hi)"
  unfolding halving_step [of epsrel mx lo hi iter] Let_def assms(1)
  using assms(2) by (simp add: GSL_SUCCESS_def GSL_CONTINUE_def)

lemma solver_halving:
  assumes "solver_iterations halving_fsolver (lit 0.001) 1000 (x_lo, x_hi) 0 = (GSL_SUCCESS, it, r, lo, hi)"
  shows "solver halving_fsolver n params func x_lo x_hi = Some (ret r)"
proof -
  have s: "snd (gsl_root_fsolver_set halving_fsolver s f x_lo x_hi) = (x_lo, x_hi)" for s f
    by (simp add: halving_fsolver_def)
  show ?thesis
    unfolding solver.simps [of halving_fsolver n params func x_lo x_hi] Let_def s assms by simp
qed

lemma lit_values:
  "lit 0.9 = Fin (8106479329266893 / 2 ^ 53)" "lit 0.2 = Fin (3602879701896397 / 2 ^ 54)" "lit 0.998 = Fin (4494592428115755 / 2 ^ 52)" "lit 0.15 = Fin (5404319552844595 / 2 ^ 55)" "lit 0.001 = Fin (1152921504606847 / 2 ^ 60)"
  using rnd_frac [of "0.9" 53 "8106479329266893"] rnd_frac [of "0.2" 55 "7205759403792794"] rnd_frac [of "0.998" 53 "8989184856231510"]
    rnd_frac [of "0.15" 55 "5404319552844595"] rnd_frac [of "0.001" 62 "4611686018427388"]
  by (simp_all add: lit_def)



text \<open>
  The separatrix of \<open>a = 0.5\<close>, \<open>e = 0.5\<close> with \<open>halving_fsolver\<close>: the solves for the polar
  and the equatorial polynomial, and the solves for the full polynomial of a prograde
  and of a retrograde orbit.
\<close>

lemma separatrix_runs:
  "Fin 1 + sqrt_d (Fin 3) + sqrt_d (Fin 3 + Fin 2 * sqrt_d (Fin 3)) = Fin (2969285476552739 / 2 ^ 49)"
  "Fin 1 + Fin 0.5 = Fin (3 / 2 ^ 1)"
  "Fin 6 + Fin 2 * Fin 0.5 = Fin 7"
  "solver halving_fsolver n params func (Fin (2969285476552739 / 2 ^ 49)) (Fin 8) = Some (ret (Fin (562575365005585 / 2 ^ 46)))"
  "solver halving_fsolver n params func (Fin (3 / 2 ^ 1)) (Fin 7) = Some (ret (Fin (14325 / 2 ^ 11)))"
  "solver halving_fsolver n params func (Fin (14325 / 2 ^ 11)) (Fin (562575365005585 / 2 ^ 46)) = Some (ret (Fin (4496204662989431 / 2 ^ 49)))"
  "solver halving_fsolver n params func (Fin (562575365005585 / 2 ^ 46)) (Fin 12) = Some (ret (Fin (1687748885400161 / 2 ^ 47)))"
proof -
  have eps: "lit 0.001 = Fin (1152921504606847 / 2 ^ 60)" by (rule lit_values)
  have s1: "sqrt_d (Fin 3) = Fin (3900231685776981 / 2 ^ 51)"
    using rnd_sqrt_frac [of "3" 52 "7800463371553962"] by (simp add: power_divide)
  have s2: "Fin 1 + Fin (3900231685776981 / 2 ^ 51) = Fin (6152031499462229 / 2 ^ 51)"
    using rnd_frac [of "1 + (3900231685776981 / 2 ^ 51)" 51 "6152031499462229"] by simp
  have s3: "Fin 2 * Fin (3900231685776981 / 2 ^ 51) = Fin (3900231685776981 / 2 ^ 50)"
    using rnd_frac [of "2 * (3900231685776981 / 2 ^ 51)" 51 "7800463371553962"] by simp
  have s4: "Fin 3 + Fin (3900231685776981 / 2 ^ 50) = Fin (7277931406304853 / 2 ^ 50)"
    using rnd_frac [of "3 + (3900231685776981 / 2 ^ 50)" 50 "7277931406304853"] by simp
  have s5: "sqrt_d (Fin (7277931406304853 / 2 ^ 50)) = Fin (2862555203374363 / 2 ^ 50)"
    using rnd_sqrt_frac [of "7277931406304853 / 2 ^ 50" 51 "5725110406748726"] by (simp add: power_divide)
  have s6: "Fin (6152031499462229 / 2 ^ 51) + Fin (2862555203374363 / 2 ^ 50) = Fin (2969285476552739 / 2 ^ 49)"
    using rnd_tie [of "(6152031499462229 / 2 ^ 51) + (2862555203374363 / 2 ^ 50)" 50 "5938570953105478"] by simp
  have s7: "Fin 1 + Fin (1 / 2 ^ 1) = Fin (3 / 2 ^ 1)"
    using rnd_frac [of "1 + (1 / 2 ^ 1)" 52 "6755399441055744"] by simp
  have s8: "Fin 2 * Fin (1 / 2 ^ 1) = Fin 1"
    using rnd_frac [of "2 * (1 / 2 ^ 1)" 52 "4503599627370496"] by simp
  have s9: "Fin 6 + Fin 1 = Fin 7"
    using rnd_frac [of "6 + 1" 50 "7881299347898368"] by simp
  have s10: "Fin (2969285476552739 / 2 ^ 49) + Fin 8 = Fin (7472885103923235 / 2 ^ 49)"
    using rnd_frac [of "(2969285476552739 / 2 ^ 49) + 8" 49 "7472885103923235"] by simp
  have s11: "Fin (1 / 2 ^ 1) * Fin (7472885103923235 / 2 ^ 49) = Fin (7472885103923235 / 2 ^ 50)"
    using rnd_frac [of "(1 / 2 ^ 1) * (7472885103923235 / 2 ^ 49)" 50 "7472885103923235"] by simp
  have s12: "Fin 8 - Fin (7472885103923235 / 2 ^ 50) = Fin (1534314150817757 / 2 ^ 50)"
    using rnd_frac [of "8 - (7472885103923235 / 2 ^ 50)" 52 "6137256603271028"] by (simp add: minus_double_def)
  have s13: "Fin (1152921504606847 / 2 ^ 60) * Fin (7472885103923235 / 2 ^ 50) = Fin (7652234346417393 / 2 ^ 60)"
    using rnd_frac [of "(1152921504606847 / 2 ^ 60) * (7472885103923235 / 2 ^ 50)" 60 "7652234346417393"] by simp
  have s14: "Fin 0 + Fin (7652234346417393 / 2 ^ 60) = Fin (7652234346417393 / 2 ^ 60)"
    using rnd_frac [of "0 + (7652234346417393 / 2 ^ 60)" 60 "7652234346417393"] by simp
  have s15: "Fin (7472885103923235 / 2 ^ 50) + Fin 8 = Fin (4120021089666057 / 2 ^ 48)"
    using rnd_tie [of "(7472885103923235 / 2 ^ 50) + 8" 49 "8240042179332114"] by simp
  have s16: "Fin (1 / 2 ^ 1) * Fin (4120021089666057 / 2 ^ 48) = Fin (4120021089666057 / 2 ^ 49)"
    using rnd_frac [of "(1 / 2 ^ 1) * (4120021089666057 / 2 ^ 48)" 50 "8240042179332114"] by simp
  have s17: "Fin 8 - Fin (4120021089666057 / 2 ^ 49) = Fin (383578537704439 / 2 ^ 49)"
    using rnd_frac [of "8 - (4120021089666057 / 2 ^ 49)" 53 "6137256603271024"] by (simp add: minus_double_def)
  have s18: "Fin (1152921504606847 / 2 ^ 60) * Fin (4120021089666057 / 2 ^ 49) = Fin (8437803191636085 / 2 ^ 60)"
    using rnd_frac [of "(1152921504606847 / 2 ^ 60) * (4120021089666057 / 2 ^ 49)" 60 "8437803191636085"] by simp
  have s19: "Fin 0 + Fin (8437803191636085 / 2 ^ 60) = Fin (8437803191636085 / 2 ^ 60)"
    using rnd_frac [of "0 + (8437803191636085 / 2 ^ 60)" 60 "8437803191636085"] by simp
  have s20: "Fin (4120021089666057 / 2 ^ 49) + Fin 8 = Fin (8623620717036553 / 2 ^ 49)"
    using rnd_frac [of "(4120021089666057 / 2 ^ 49) + 8" 49 "8623620717036553"] by simp
  have s21: "Fin (1 / 2 ^ 1) * Fin (8623620717036553 / 2 ^ 49) = Fin (8623620717036553 / 2 ^ 50)"
    using rnd_frac [of "(1 / 2 ^ 1) * (8623620717036553 / 2 ^ 49)" 50 "8623620717036553"] by simp
  have s22: "Fin 8 - Fin (8623620717036553 / 2 ^ 50) = Fin (383578537704439 / 2 ^ 50)"
    using rnd_frac [of "8 - (8623620717036553 / 2 ^ 50)" 54 "6137256603271024"] by (simp add: minus_double_def)
  have s23: "Fin (1152921504606847 / 2 ^ 60) * Fin (8623620717036553 / 2 ^ 50) = Fin (4415293807122715 / 2 ^ 59)"
    using rnd_frac [of "(1152921504606847 / 2 ^ 60) * (8623620717036553 / 2 ^ 50)" 60 "8830587614245430"] by simp
  have s24: "Fin 0 + Fin (4415293807122715 / 2 ^ 59) = Fin (4415293807122715 / 2 ^ 59)"
    using rnd_frac [of "0 + (4415293807122715 / 2 ^ 59)" 60 "8830587614245430"] by simp
  have s25: "Fin (8623620717036553 / 2 ^ 50) + Fin 8 = Fin (2203852496472193 / 2 ^ 47)"
    using rnd_tie [of "(8623620717036553 / 2 ^ 50) + 8" 49 "8815409985888772"] by simp
  have s26: "Fin (1 / 2 ^ 1) * Fin (2203852496472193 / 2 ^ 47) = Fin (2203852496472193 / 2 ^ 48)"
    using rnd_frac [of "(1 / 2 ^ 1) * (2203852496472193 / 2 ^ 47)" 50 "8815409985888772"] by simp
  have s27: "Fin 8 - Fin (2203852496472193 / 2 ^ 48) = Fin (47947317213055 / 2 ^ 48)"
    using rnd_frac [of "8 - (2203852496472193 / 2 ^ 48)" 55 "6137256603271040"] by (simp add: minus_double_def)
  have s28: "Fin (1152921504606847 / 2 ^ 60) * Fin (2203852496472193 / 2 ^ 48) = Fin (4513489912775051 / 2 ^ 59)"
    using rnd_frac [of "(1152921504606847 / 2 ^ 60) * (2203852496472193 / 2 ^ 48)" 59 "4513489912775051"] by simp
  have s29: "Fin 0 + Fin (4513489912775051 / 2 ^ 59) = Fin (4513489912775051 / 2 ^ 59)"
    using rnd_frac [of "0 + (4513489912775051 / 2 ^ 59)" 59 "4513489912775051"] by simp
  have s30: "Fin (2203852496472193 / 2 ^ 48) + Fin 8 = Fin (4455652310157441 / 2 ^ 48)"
    using rnd_frac [of "(2203852496472193 / 2 ^ 48) + 8" 49 "8911304620314882"] by simp
  have s31: "Fin (1 / 2 ^ 1) * Fin (4455652310157441 / 2 ^ 48) = Fin (4455652310157441 / 2 ^ 49)"
    using rnd_frac [of "(1 / 2 ^ 1) * (4455652310157441 / 2 ^ 48)" 50 "8911304620314882"] by simp
  have s32: "Fin 8 - Fin (4455652310157441 / 2 ^ 49) = Fin (47947317213055 / 2 ^ 49)"
    using rnd_frac [of "8 - (4455652310157441 / 2 ^ 49)" 56 "6137256603271040"] by (simp add: minus_double_def)
  have s33: "Fin (1152921504606847 / 2 ^ 60) * Fin (4455652310157441 / 2 ^ 49) = Fin (1140646991400305 / 2 ^ 57)"
    using rnd_frac [of "(1152921504606847 / 2 ^ 60) * (4455652310157441 / 2 ^ 49)" 59 "4562587965601220"] by simp
  have s34: "Fin 0 + Fin (1140646991400305 / 2 ^ 57) = Fin (1140646991400305 / 2 ^ 57)"
    using rnd_frac [of "0 + (1140646991400305 / 2 ^ 57)" 59 "4562587965601220"] by simp
  have s35: "Fin (4455652310157441 / 2 ^ 49) + Fin 8 = Fin (8959251937527937 / 2 ^ 49)"
    using rnd_frac [of "(4455652310157441 / 2 ^ 49) + 8" 49 "8959251937527937"] by simp
  have s36: "Fin (1 / 2 ^ 1) * Fin (8959251937527937 / 2 ^ 49) = Fin (8959251937527937 / 2 ^ 50)"
    using rnd_frac [of "(1 / 2 ^ 1) * (8959251937527937 / 2 ^ 49)" 50 "8959251937527937"] by simp
  have s37: "Fin 8 - Fin (8959251937527937 / 2 ^ 50) = Fin (47947317213055 / 2 ^ 50)"
    using rnd_frac [of "8 - (8959251937527937 / 2 ^ 50)" 57 "6137256603271040"] by (simp add: minus_double_def)
  have s38: "Fin (1152921504606847 / 2 ^ 60) * Fin (8959251937527937 / 2 ^ 50) = Fin (143348031000447 / 2 ^ 54)"
    using rnd_frac [of "(1152921504606847 / 2 ^ 60) * (8959251937527937 / 2 ^ 50)" 59 "4587136992014304"] by simp
  have s39: "Fin 0 + Fin (143348031000447 / 2 ^ 54) = Fin (143348031000447 / 2 ^ 54)"
    using rnd_frac [of "0 + (143348031000447 / 2 ^ 54)" 59 "4587136992014304"] by simp
  have s40: "Fin (8959251937527937 / 2 ^ 50) + Fin 8 = Fin (140362899939601 / 2 ^ 43)"
    using rnd_tie [of "(8959251937527937 / 2 ^ 50) + 8" 49 "8983225596134464"] by simp
  have s41: "Fin (1 / 2 ^ 1) * Fin (140362899939601 / 2 ^ 43) = Fin (140362899939601 / 2 ^ 44)"
    using rnd_frac [of "(1 / 2 ^ 1) * (140362899939601 / 2 ^ 43)" 50 "8983225596134464"] by simp
  have s42: "Fin 8 - Fin (140362899939601 / 2 ^ 44) = Fin (374588415727 / 2 ^ 44)"
    using rnd_frac [of "8 - (140362899939601 / 2 ^ 44)" 58 "6137256603271168"] by (simp add: minus_double_def)
  have s43: "Fin (1152921504606847 / 2 ^ 60) * Fin (140362899939601 / 2 ^ 44) = Fin (2299705752610423 / 2 ^ 58)"
    using rnd_frac [of "(1152921504606847 / 2 ^ 60) * (140362899939601 / 2 ^ 44)" 59 "4599411505220846"] by simp
  have s44: "Fin 0 + Fin (2299705752610423 / 2 ^ 58) = Fin (2299705752610423 / 2 ^ 58)"
    using rnd_frac [of "0 + (2299705752610423 / 2 ^ 58)" 59 "4599411505220846"] by simp
  have s45: "Fin (140362899939601 / 2 ^ 44) + Fin 8 = Fin (281100388294929 / 2 ^ 44)"
    using rnd_frac [of "(140362899939601 / 2 ^ 44) + 8" 49 "8995212425437728"] by simp
  have s46: "Fin (1 / 2 ^ 1) * Fin (281100388294929 / 2 ^ 44) = Fin (281100388294929 / 2 ^ 45)"
    using rnd_frac [of "(1 / 2 ^ 1) * (281100388294929 / 2 ^ 44)" 50 "8995212425437728"] by simp
  have s47: "Fin 8 - Fin (281100388294929 / 2 ^ 45) = Fin (374588415727 / 2 ^ 45)"
    using rnd_frac [of "8 - (281100388294929 / 2 ^ 45)" 59 "6137256603271168"] by (simp add: minus_double_def)
  have s48: "Fin (1152921504606847 / 2 ^ 60) * Fin (281100388294929 / 2 ^ 45) = Fin (4605548761824117 / 2 ^ 59)"
    using rnd_frac [of "(1152921504606847 / 2 ^ 60) * (281100388294929 / 2 ^ 45)" 59 "4605548761824117"] by simp
  have s49: "Fin 0 + Fin (4605548761824117 / 2 ^ 59) = Fin (4605548761824117 / 2 ^ 59)"
    using rnd_frac [of "0 + (4605548761824117 / 2 ^ 59)" 59 "4605548761824117"] by simp
  have s50: "Fin (281100388294929 / 2 ^ 45) + Fin 8 = Fin (562575365005585 / 2 ^ 45)"
    using rnd_frac [of "(281100388294929 / 2 ^ 45) + 8" 49 "9001205840089360"] by simp
  have s51: "Fin (1 / 2 ^ 1) * Fin (562575365005585 / 2 ^ 45) = Fin (562575365005585 / 2 ^ 46)"
    using rnd_frac [of "(1 / 2 ^ 1) * (562575365005585 / 2 ^ 45)" 50 "9001205840089360"] by simp
  have s52: "Fin 8 - Fin (562575365005585 / 2 ^ 46) = Fin (374588415727 / 2 ^ 46)"
    using rnd_frac [of "8 - (562575365005585 / 2 ^ 46)" 60 "6137256603271168"] by (simp add: minus_double_def)
  have s53: "Fin (1152921504606847 / 2 ^ 60) * Fin (562575365005585 / 2 ^ 46) = Fin (576077173765719 / 2 ^ 56)"
    using rnd_frac [of "(1152921504606847 / 2 ^ 60) * (562575365005585 / 2 ^ 46)" 59 "4608617390125752"] by simp
  have s54: "Fin 0 + Fin (576077173765719 / 2 ^ 56) = Fin (576077173765719 / 2 ^ 56)"
    using rnd_frac [of "0 + (576077173765719 / 2 ^ 56)" 59 "4608617390125752"] by simp
  have s55: "Fin (3 / 2 ^ 1) + Fin 7 = Fin (17 / 2 ^ 1)"
    using rnd_frac [of "(3 / 2 ^ 1) + 7" 49 "4785074604081152"] by simp
  have s56: "Fin (1 / 2 ^ 1) * Fin (17 / 2 ^ 1) = Fin (17 / 2 ^ 2)"
    using rnd_frac [of "(1 / 2 ^ 1) * (17 / 2 ^ 1)" 50 "4785074604081152"] by simp
  have s57: "Fin 7 - Fin (17 / 2 ^ 2) = Fin (11 / 2 ^ 2)"
    using rnd_frac [of "7 - (17 / 2 ^ 2)" 51 "6192449487634432"] by (simp add: minus_double_def)
  have s58: "Fin (1152921504606847 / 2 ^ 60) * Fin (17 / 2 ^ 2) = Fin (1224979098644775 / 2 ^ 58)"
    using rnd_frac [of "(1152921504606847 / 2 ^ 60) * (17 / 2 ^ 2)" 60 "4899916394579100"] by simp
  have s59: "Fin 0 + Fin (1224979098644775 / 2 ^ 58) = Fin (1224979098644775 / 2 ^ 58)"
    using rnd_frac [of "0 + (1224979098644775 / 2 ^ 58)" 60 "4899916394579100"] by simp
  have s60: "Fin (17 / 2 ^ 2) + Fin 7 = Fin (45 / 2 ^ 2)"
    using rnd_frac [of "(17 / 2 ^ 2) + 7" 49 "6333186975989760"] by simp
  have s61: "Fin (1 / 2 ^ 1) * Fin (45 / 2 ^ 2) = Fin (45 / 2 ^ 3)"
    using rnd_frac [of "(1 / 2 ^ 1) * (45 / 2 ^ 2)" 50 "6333186975989760"] by simp
  have s62: "Fin 7 - Fin (45 / 2 ^ 3) = Fin (11 / 2 ^ 3)"
    using rnd_frac [of "7 - (45 / 2 ^ 3)" 52 "6192449487634432"] by (simp add: minus_double_def)
  have s63: "Fin (1152921504606847 / 2 ^ 60) * Fin (45 / 2 ^ 3) = Fin (3242591731706757 / 2 ^ 59)"
    using rnd_frac [of "(1152921504606847 / 2 ^ 60) * (45 / 2 ^ 3)" 60 "6485183463413514"] by simp
  have s64: "Fin 0 + Fin (3242591731706757 / 2 ^ 59) = Fin (3242591731706757 / 2 ^ 59)"
    using rnd_frac [of "0 + (3242591731706757 / 2 ^ 59)" 60 "6485183463413514"] by simp
  have s65: "Fin (45 / 2 ^ 3) + Fin 7 = Fin (101 / 2 ^ 3)"
    using rnd_frac [of "(45 / 2 ^ 3) + 7" 49 "7107243161944064"] by simp
  have s66: "Fin (1 / 2 ^ 1) * Fin (101 / 2 ^ 3) = Fin (101 / 2 ^ 4)"
    using rnd_frac [of "(1 / 2 ^ 1) * (101 / 2 ^ 3)" 50 "7107243161944064"] by simp
  have s67: "Fin 7 - Fin (101 / 2 ^ 4) = Fin (11 / 2 ^ 4)"
    using rnd_frac [of "7 - (101 / 2 ^ 4)" 53 "6192449487634432"] by (simp add: minus_double_def)
  have s68: "Fin (1152921504606847 / 2 ^ 60) * Fin (101 / 2 ^ 4) = Fin (3638908498915361 / 2 ^ 59)"
    using rnd_frac [of "(1152921504606847 / 2 ^ 60) * (101 / 2 ^ 4)" 60 "7277816997830722"] by simp
  have s69: "Fin 0 + Fin (3638908498915361 / 2 ^ 59) = Fin (3638908498915361 / 2 ^ 59)"
    using rnd_frac [of "0 + (3638908498915361 / 2 ^ 59)" 60 "7277816997830722"] by simp
  have s70: "Fin (101 / 2 ^ 4) + Fin 7 = Fin (213 / 2 ^ 4)"
    using rnd_frac [of "(101 / 2 ^ 4) + 7" 49 "7494271254921216"] by simp
  have s71: "Fin (1 / 2 ^ 1) * Fin (213 / 2 ^ 4) = Fin (213 / 2 ^ 5)"
    using rnd_frac [of "(1 / 2 ^ 1) * (213 / 2 ^ 4)" 50 "7494271254921216"] by simp
  have s72: "Fin 7 - Fin (213 / 2 ^ 5) = Fin (11 / 2 ^ 5)"
    using rnd_frac [of "7 - (213 / 2 ^ 5)" 54 "6192449487634432"] by (simp add: minus_double_def)
  have s73: "Fin (1152921504606847 / 2 ^ 60) * Fin (213 / 2 ^ 5) = Fin (7674133765039325 / 2 ^ 60)"
    using rnd_frac [of "(1152921504606847 / 2 ^ 60) * (213 / 2 ^ 5)" 60 "7674133765039325"] by simp
  have s74: "Fin 0 + Fin (7674133765039325 / 2 ^ 60) = Fin (7674133765039325 / 2 ^ 60)"
    using rnd_frac [of "0 + (7674133765039325 / 2 ^ 60)" 60 "7674133765039325"] by simp
  have s75: "Fin (213 / 2 ^ 5) + Fin 7 = Fin (437 / 2 ^ 5)"
    using rnd_frac [of "(213 / 2 ^ 5) + 7" 49 "7687785301409792"] by simp
  have s76: "Fin (1 / 2 ^ 1) * Fin (437 / 2 ^ 5) = Fin (437 / 2 ^ 6)"
    using rnd_frac [of "(1 / 2 ^ 1) * (437 / 2 ^ 5)" 50 "7687785301409792"] by simp
  have s77: "Fin 7 - Fin (437 / 2 ^ 6) = Fin (11 / 2 ^ 6)"
    using rnd_frac [of "7 - (437 / 2 ^ 6)" 55 "6192449487634432"] by (simp add: minus_double_def)
  have s78: "Fin (1152921504606847 / 2 ^ 60) * Fin (437 / 2 ^ 6) = Fin (7872292148643627 / 2 ^ 60)"
    using rnd_frac [of "(1152921504606847 / 2 ^ 60) * (437 / 2 ^ 6)" 60 "7872292148643627"] by simp
  have s79: "Fin 0 + Fin (7872292148643627 / 2 ^ 60) = Fin (7872292148643627 / 2 ^ 60)"
    using rnd_frac [of "0 + (7872292148643627 / 2 ^ 60)" 60 "7872292148643627"] by simp
  have s80: "Fin (437 / 2 ^ 6) + Fin 7 = Fin (885 / 2 ^ 6)"
    using rnd_frac [of "(437 / 2 ^ 6) + 7" 49 "7784542324654080"] by simp
  have s81: "Fin (1 / 2 ^ 1) * Fin (885 / 2 ^ 6) = Fin (885 / 2 ^ 7)"
    using rnd_frac [of "(1 / 2 ^ 1) * (885 / 2 ^ 6)" 50 "7784542324654080"] by simp
  have s82: "Fin 7 - Fin (885 / 2 ^ 7) = Fin (11 / 2 ^ 7)"
    using rnd_frac [of "7 - (885 / 2 ^ 7)" 56 "6192449487634432"] by (simp add: minus_double_def)
  have s83: "Fin (1152921504606847 / 2 ^ 60) * Fin (885 / 2 ^ 7) = Fin (3985685670222889 / 2 ^ 59)"
    using rnd_frac [of "(1152921504606847 / 2 ^ 60) * (885 / 2 ^ 7)" 60 "7971371340445778"] by simp
  have s84: "Fin 0 + Fin (3985685670222889 / 2 ^ 59) = Fin (3985685670222889 / 2 ^ 59)"
    using rnd_frac [of "0 + (3985685670222889 / 2 ^ 59)" 60 "7971371340445778"] by simp
  have s85: "Fin (885 / 2 ^ 7) + Fin 7 = Fin (1781 / 2 ^ 7)"
    using rnd_frac [of "(885 / 2 ^ 7) + 7" 49 "7832920836276224"] by simp
  have s86: "Fin (1 / 2 ^ 1) * Fin (1781 / 2 ^ 7) = Fin (1781 / 2 ^ 8)"
    using rnd_frac [of "(1 / 2 ^ 1) * (1781 / 2 ^ 7)" 50 "7832920836276224"] by simp
  have s87: "Fin 7 - Fin (1781 / 2 ^ 8) = Fin (11 / 2 ^ 8)"
    using rnd_frac [of "7 - (1781 / 2 ^ 8)" 57 "6192449487634432"] by (simp add: minus_double_def)
  have s88: "Fin (1152921504606847 / 2 ^ 60) * Fin (1781 / 2 ^ 8) = Fin (4010455468173427 / 2 ^ 59)"
    using rnd_frac [of "(1152921504606847 / 2 ^ 60) * (1781 / 2 ^ 8)" 60 "8020910936346854"] by simp
  have s89: "Fin 0 + Fin (4010455468173427 / 2 ^ 59) = Fin (4010455468173427 / 2 ^ 59)"
    using rnd_frac [of "0 + (4010455468173427 / 2 ^ 59)" 60 "8020910936346854"] by simp
  have s90: "Fin (1781 / 2 ^ 8) + Fin 7 = Fin (3573 / 2 ^ 8)"
    using rnd_frac [of "(1781 / 2 ^ 8) + 7" 49 "7857110092087296"] by simp
  have s91: "Fin (1 / 2 ^ 1) * Fin (3573 / 2 ^ 8) = Fin (3573 / 2 ^ 9)"
    using rnd_frac [of "(1 / 2 ^ 1) * (3573 / 2 ^ 8)" 50 "7857110092087296"] by simp
  have s92: "Fin 7 - Fin (3573 / 2 ^ 9) = Fin (11 / 2 ^ 9)"
    using rnd_frac [of "7 - (3573 / 2 ^ 9)" 58 "6192449487634432"] by (simp add: minus_double_def)
  have s93: "Fin (1152921504606847 / 2 ^ 60) * Fin (3573 / 2 ^ 9) = Fin (8045680734297391 / 2 ^ 60)"
    using rnd_frac [of "(1152921504606847 / 2 ^ 60) * (3573 / 2 ^ 9)" 60 "8045680734297391"] by simp
  have s94: "Fin 0 + Fin (8045680734297391 / 2 ^ 60) = Fin (8045680734297391 / 2 ^ 60)"
    using rnd_frac [of "0 + (8045680734297391 / 2 ^ 60)" 60 "8045680734297391"] by simp
  have s95: "Fin (3573 / 2 ^ 9) + Fin 7 = Fin (7157 / 2 ^ 9)"
    using rnd_frac [of "(3573 / 2 ^ 9) + 7" 49 "7869204719992832"] by simp
  have s96: "Fin (1 / 2 ^ 1) * Fin (7157 / 2 ^ 9) = Fin (7157 / 2 ^ 10)"
    using rnd_frac [of "(1 / 2 ^ 1) * (7157 / 2 ^ 9)" 50 "7869204719992832"] by simp
  have s97: "Fin 7 - Fin (7157 / 2 ^ 10) = Fin (11 / 2 ^ 10)"
    using rnd_frac [of "7 - (7157 / 2 ^ 10)" 59 "6192449487634432"] by (simp add: minus_double_def)
  have s98: "Fin (1152921504606847 / 2 ^ 60) * Fin (7157 / 2 ^ 10) = Fin (2014516408318165 / 2 ^ 58)"
    using rnd_frac [of "(1152921504606847 / 2 ^ 60) * (7157 / 2 ^ 10)" 60 "8058065633272660"] by simp
  have s99: "Fin 0 + Fin (2014516408318165 / 2 ^ 58) = Fin (2014516408318165 / 2 ^ 58)"
    using rnd_frac [of "0 + (2014516408318165 / 2 ^ 58)" 60 "8058065633272660"] by simp
  have s100: "Fin (7157 / 2 ^ 10) + Fin 7 = Fin (14325 / 2 ^ 10)"
    using rnd_frac [of "(7157 / 2 ^ 10) + 7" 49 "7875252033945600"] by simp
  have s101: "Fin (1 / 2 ^ 1) * Fin (14325 / 2 ^ 10) = Fin (14325 / 2 ^ 11)"
    using rnd_frac [of "(1 / 2 ^ 1) * (14325 / 2 ^ 10)" 50 "7875252033945600"] by simp
  have s102: "Fin 7 - Fin (14325 / 2 ^ 11) = Fin (11 / 2 ^ 11)"
    using rnd_frac [of "7 - (14325 / 2 ^ 11)" 60 "6192449487634432"] by (simp add: minus_double_def)
  have s103: "Fin (1152921504606847 / 2 ^ 60) * Fin (14325 / 2 ^ 11) = Fin (8064258082760295 / 2 ^ 60)"
    using rnd_frac [of "(1152921504606847 / 2 ^ 60) * (14325 / 2 ^ 11)" 60 "8064258082760295"] by simp
  have s104: "Fin 0 + Fin (8064258082760295 / 2 ^ 60) = Fin (8064258082760295 / 2 ^ 60)"
    using rnd_frac [of "0 + (8064258082760295 / 2 ^ 60)" 60 "8064258082760295"] by simp
  have s105: "Fin (14325 / 2 ^ 11) + Fin (562575365005585 / 2 ^ 46) = Fin (1054778617127185 / 2 ^ 46)"
    using rnd_frac [of "(14325 / 2 ^ 11) + (562575365005585 / 2 ^ 46)" 49 "8438228937017480"] by simp
  have s106: "Fin (1 / 2 ^ 1) * Fin (1054778617127185 / 2 ^ 46) = Fin (1054778617127185 / 2 ^ 47)"
    using rnd_frac [of "(1 / 2 ^ 1) * (1054778617127185 / 2 ^ 46)" 50 "8438228937017480"] by simp
  have s107: "Fin (562575365005585 / 2 ^ 46) - Fin (1054778617127185 / 2 ^ 47) = Fin (70372112883985 / 2 ^ 47)"
    using rnd_frac [of "(562575365005585 / 2 ^ 46) - (1054778617127185 / 2 ^ 47)" 53 "4503815224575040"] by (simp add: minus_double_def)
  have s108: "Fin (1152921504606847 / 2 ^ 60) * Fin (1054778617127185 / 2 ^ 47) = Fin (2160186607876475 / 2 ^ 58)"
    using rnd_frac [of "(1152921504606847 / 2 ^ 60) * (1054778617127185 / 2 ^ 47)" 60 "8640746431505900"] by simp
  have s109: "Fin 0 + Fin (2160186607876475 / 2 ^ 58) = Fin (2160186607876475 / 2 ^ 58)"
    using rnd_frac [of "0 + (2160186607876475 / 2 ^ 58)" 60 "8640746431505900"] by simp
  have s110: "Fin (1054778617127185 / 2 ^ 47) + Fin (562575365005585 / 2 ^ 46) = Fin (2179929347138355 / 2 ^ 47)"
    using rnd_frac [of "(1054778617127185 / 2 ^ 47) + (562575365005585 / 2 ^ 46)" 49 "8719717388553420"] by simp
  have s111: "Fin (1 / 2 ^ 1) * Fin (2179929347138355 / 2 ^ 47) = Fin (2179929347138355 / 2 ^ 48)"
    using rnd_frac [of "(1 / 2 ^ 1) * (2179929347138355 / 2 ^ 47)" 50 "8719717388553420"] by simp
  have s112: "Fin (562575365005585 / 2 ^ 46) - Fin (2179929347138355 / 2 ^ 48) = Fin (70372112883985 / 2 ^ 48)"
    using rnd_frac [of "(562575365005585 / 2 ^ 46) - (2179929347138355 / 2 ^ 48)" 54 "4503815224575040"] by (simp add: minus_double_def)
  have s113: "Fin (1152921504606847 / 2 ^ 60) * Fin (2179929347138355 / 2 ^ 48) = Fin (4464495302939351 / 2 ^ 59)"
    using rnd_frac [of "(1152921504606847 / 2 ^ 60) * (2179929347138355 / 2 ^ 48)" 60 "8928990605878702"] by simp
  have s114: "Fin 0 + Fin (4464495302939351 / 2 ^ 59) = Fin (4464495302939351 / 2 ^ 59)"
    using rnd_frac [of "0 + (4464495302939351 / 2 ^ 59)" 60 "8928990605878702"] by simp
  have s115: "Fin (2179929347138355 / 2 ^ 48) + Fin (562575365005585 / 2 ^ 46) = Fin (4430230807160695 / 2 ^ 48)"
    using rnd_frac [of "(2179929347138355 / 2 ^ 48) + (562575365005585 / 2 ^ 46)" 49 "8860461614321390"] by simp
  have s116: "Fin (1 / 2 ^ 1) * Fin (4430230807160695 / 2 ^ 48) = Fin (4430230807160695 / 2 ^ 49)"
    using rnd_frac [of "(1 / 2 ^ 1) * (4430230807160695 / 2 ^ 48)" 50 "8860461614321390"] by simp
  have s117: "Fin (562575365005585 / 2 ^ 46) - Fin (4430230807160695 / 2 ^ 49) = Fin (70372112883985 / 2 ^ 49)"
    using rnd_frac [of "(562575365005585 / 2 ^ 46) - (4430230807160695 / 2 ^ 49)" 55 "4503815224575040"] by (simp add: minus_double_def)
  have s118: "Fin (1152921504606847 / 2 ^ 60) * Fin (4430230807160695 / 2 ^ 49) = Fin (567069543316569 / 2 ^ 56)"
    using rnd_frac [of "(1152921504606847 / 2 ^ 60) * (4430230807160695 / 2 ^ 49)" 59 "4536556346532552"] by simp
  have s119: "Fin 0 + Fin (567069543316569 / 2 ^ 56) = Fin (567069543316569 / 2 ^ 56)"
    using rnd_frac [of "0 + (567069543316569 / 2 ^ 56)" 59 "4536556346532552"] by simp
  have s120: "Fin (4430230807160695 / 2 ^ 49) + Fin (562575365005585 / 2 ^ 46) = Fin (8930833727205375 / 2 ^ 49)"
    using rnd_frac [of "(4430230807160695 / 2 ^ 49) + (562575365005585 / 2 ^ 46)" 49 "8930833727205375"] by simp
  have s121: "Fin (1 / 2 ^ 1) * Fin (8930833727205375 / 2 ^ 49) = Fin (8930833727205375 / 2 ^ 50)"
    using rnd_frac [of "(1 / 2 ^ 1) * (8930833727205375 / 2 ^ 49)" 50 "8930833727205375"] by simp
  have s122: "Fin (562575365005585 / 2 ^ 46) - Fin (8930833727205375 / 2 ^ 50) = Fin (70372112883985 / 2 ^ 50)"
    using rnd_frac [of "(562575365005585 / 2 ^ 46) - (8930833727205375 / 2 ^ 50)" 56 "4503815224575040"] by (simp add: minus_double_def)
  have s123: "Fin (1152921504606847 / 2 ^ 60) * Fin (8930833727205375 / 2 ^ 50) = Fin (71446669817643 / 2 ^ 53)"
    using rnd_frac [of "(1152921504606847 / 2 ^ 60) * (8930833727205375 / 2 ^ 50)" 59 "4572586868329152"] by simp
  have s124: "Fin 0 + Fin (71446669817643 / 2 ^ 53) = Fin (71446669817643 / 2 ^ 53)"
    using rnd_frac [of "0 + (71446669817643 / 2 ^ 53)" 59 "4572586868329152"] by simp
  have s125: "Fin (8930833727205375 / 2 ^ 50) + Fin (562575365005585 / 2 ^ 46) = Fin (1120752472955921 / 2 ^ 46)"
    using rnd_tie [of "(8930833727205375 / 2 ^ 50) + (562575365005585 / 2 ^ 46)" 49 "8966019783647368"] by simp
  have s126: "Fin (1 / 2 ^ 1) * Fin (1120752472955921 / 2 ^ 46) = Fin (1120752472955921 / 2 ^ 47)"
    using rnd_frac [of "(1 / 2 ^ 1) * (1120752472955921 / 2 ^ 46)" 50 "8966019783647368"] by simp
  have s127: "Fin (562575365005585 / 2 ^ 46) - Fin (1120752472955921 / 2 ^ 47) = Fin (4398257055249 / 2 ^ 47)"
    using rnd_frac [of "(562575365005585 / 2 ^ 46) - (1120752472955921 / 2 ^ 47)" 57 "4503815224574976"] by (simp add: minus_double_def)
  have s128: "Fin (1152921504606847 / 2 ^ 60) * Fin (1120752472955921 / 2 ^ 47) = Fin (4590602129227453 / 2 ^ 59)"
    using rnd_frac [of "(1152921504606847 / 2 ^ 60) * (1120752472955921 / 2 ^ 47)" 59 "4590602129227453"] by simp
  have s129: "Fin 0 + Fin (4590602129227453 / 2 ^ 59) = Fin (4590602129227453 / 2 ^ 59)"
    using rnd_frac [of "0 + (4590602129227453 / 2 ^ 59)" 59 "4590602129227453"] by simp
  have s130: "Fin (1120752472955921 / 2 ^ 47) + Fin (562575365005585 / 2 ^ 46) = Fin (2245903202967091 / 2 ^ 47)"
    using rnd_frac [of "(1120752472955921 / 2 ^ 47) + (562575365005585 / 2 ^ 46)" 49 "8983612811868364"] by simp
  have s131: "Fin (1 / 2 ^ 1) * Fin (2245903202967091 / 2 ^ 47) = Fin (2245903202967091 / 2 ^ 48)"
    using rnd_frac [of "(1 / 2 ^ 1) * (2245903202967091 / 2 ^ 47)" 50 "8983612811868364"] by simp
  have s132: "Fin (562575365005585 / 2 ^ 46) - Fin (2245903202967091 / 2 ^ 48) = Fin (4398257055249 / 2 ^ 48)"
    using rnd_frac [of "(562575365005585 / 2 ^ 46) - (2245903202967091 / 2 ^ 48)" 58 "4503815224574976"] by (simp add: minus_double_def)
  have s133: "Fin (1152921504606847 / 2 ^ 60) * Fin (2245903202967091 / 2 ^ 48) = Fin (2299804879838301 / 2 ^ 58)"
    using rnd_frac [of "(1152921504606847 / 2 ^ 60) * (2245903202967091 / 2 ^ 48)" 59 "4599609759676602"] by simp
  have s134: "Fin 0 + Fin (2299804879838301 / 2 ^ 58) = Fin (2299804879838301 / 2 ^ 58)"
    using rnd_frac [of "0 + (2299804879838301 / 2 ^ 58)" 59 "4599609759676602"] by simp
  have s135: "Fin (2245903202967091 / 2 ^ 48) + Fin (562575365005585 / 2 ^ 46) = Fin (4496204662989431 / 2 ^ 48)"
    using rnd_frac [of "(2245903202967091 / 2 ^ 48) + (562575365005585 / 2 ^ 46)" 49 "8992409325978862"] by simp
  have s136: "Fin (1 / 2 ^ 1) * Fin (4496204662989431 / 2 ^ 48) = Fin (4496204662989431 / 2 ^ 49)"
    using rnd_frac [of "(1 / 2 ^ 1) * (4496204662989431 / 2 ^ 48)" 50 "8992409325978862"] by simp
  have s137: "Fin (562575365005585 / 2 ^ 46) - Fin (4496204662989431 / 2 ^ 49) = Fin (4398257055249 / 2 ^ 49)"
    using rnd_frac [of "(562575365005585 / 2 ^ 46) - (4496204662989431 / 2 ^ 49)" 59 "4503815224574976"] by (simp add: minus_double_def)
  have s138: "Fin (1152921504606847 / 2 ^ 60) * Fin (4496204662989431 / 2 ^ 49) = Fin (4604113574901177 / 2 ^ 59)"
    using rnd_frac [of "(1152921504606847 / 2 ^ 60) * (4496204662989431 / 2 ^ 49)" 59 "4604113574901177"] by simp
  have s139: "Fin 0 + Fin (4604113574901177 / 2 ^ 59) = Fin (4604113574901177 / 2 ^ 59)"
    using rnd_frac [of "0 + (4604113574901177 / 2 ^ 59)" 59 "4604113574901177"] by simp
  have s140: "Fin (562575365005585 / 2 ^ 46) + Fin 12 = Fin (1407000295137553 / 2 ^ 46)"
    using rnd_frac [of "(562575365005585 / 2 ^ 46) + 12" 48 "5628001180550212"] by simp
  have s141: "Fin (1 / 2 ^ 1) * Fin (1407000295137553 / 2 ^ 46) = Fin (1407000295137553 / 2 ^ 47)"
    using rnd_frac [of "(1 / 2 ^ 1) * (1407000295137553 / 2 ^ 46)" 49 "5628001180550212"] by simp
  have s142: "Fin 12 - Fin (1407000295137553 / 2 ^ 47) = Fin (281849565126383 / 2 ^ 47)"
    using rnd_frac [of "12 - (1407000295137553 / 2 ^ 47)" 51 "4509593042022128"] by (simp add: minus_double_def)
  have s143: "Fin (1152921504606847 / 2 ^ 60) * Fin (1407000295137553 / 2 ^ 47) = Fin (5763073208883417 / 2 ^ 59)"
    using rnd_frac [of "(1152921504606847 / 2 ^ 60) * (1407000295137553 / 2 ^ 47)" 59 "5763073208883417"] by simp
  have s144: "Fin 0 + Fin (5763073208883417 / 2 ^ 59) = Fin (5763073208883417 / 2 ^ 59)"
    using rnd_frac [of "0 + (5763073208883417 / 2 ^ 59)" 59 "5763073208883417"] by simp
  have s145: "Fin (1407000295137553 / 2 ^ 47) + Fin 12 = Fin (3095850155401489 / 2 ^ 47)"
    using rnd_frac [of "(1407000295137553 / 2 ^ 47) + 12" 48 "6191700310802978"] by simp
  have s146: "Fin (1 / 2 ^ 1) * Fin (3095850155401489 / 2 ^ 47) = Fin (3095850155401489 / 2 ^ 48)"
    using rnd_frac [of "(1 / 2 ^ 1) * (3095850155401489 / 2 ^ 47)" 49 "6191700310802978"] by simp
  have s147: "Fin 12 - Fin (3095850155401489 / 2 ^ 48) = Fin (281849565126383 / 2 ^ 48)"
    using rnd_frac [of "12 - (3095850155401489 / 2 ^ 48)" 52 "4509593042022128"] by (simp add: minus_double_def)
  have s148: "Fin (1152921504606847 / 2 ^ 60) * Fin (3095850155401489 / 2 ^ 48) = Fin (3170150559131125 / 2 ^ 58)"
    using rnd_frac [of "(1152921504606847 / 2 ^ 60) * (3095850155401489 / 2 ^ 48)" 59 "6340301118262250"] by simp
  have s149: "Fin 0 + Fin (3170150559131125 / 2 ^ 58) = Fin (3170150559131125 / 2 ^ 58)"
    using rnd_frac [of "0 + (3170150559131125 / 2 ^ 58)" 59 "6340301118262250"] by simp
  have s150: "Fin (3095850155401489 / 2 ^ 48) + Fin 12 = Fin (6473549875929361 / 2 ^ 48)"
    using rnd_frac [of "(3095850155401489 / 2 ^ 48) + 12" 48 "6473549875929361"] by simp
  have s151: "Fin (1 / 2 ^ 1) * Fin (6473549875929361 / 2 ^ 48) = Fin (6473549875929361 / 2 ^ 49)"
    using rnd_frac [of "(1 / 2 ^ 1) * (6473549875929361 / 2 ^ 48)" 49 "6473549875929361"] by simp
  have s152: "Fin 12 - Fin (6473549875929361 / 2 ^ 49) = Fin (281849565126383 / 2 ^ 49)"
    using rnd_frac [of "12 - (6473549875929361 / 2 ^ 49)" 53 "4509593042022128"] by (simp add: minus_double_def)
  have s153: "Fin (1152921504606847 / 2 ^ 60) * Fin (6473549875929361 / 2 ^ 49) = Fin (3314457536475833 / 2 ^ 58)"
    using rnd_frac [of "(1152921504606847 / 2 ^ 60) * (6473549875929361 / 2 ^ 49)" 59 "6628915072951666"] by simp
  have s154: "Fin 0 + Fin (3314457536475833 / 2 ^ 58) = Fin (3314457536475833 / 2 ^ 58)"
    using rnd_frac [of "0 + (3314457536475833 / 2 ^ 58)" 59 "6628915072951666"] by simp
  have s155: "Fin (6473549875929361 / 2 ^ 49) + Fin 12 = Fin (826809332311569 / 2 ^ 45)"
    using rnd_tie [of "(6473549875929361 / 2 ^ 49) + 12" 48 "6614474658492552"] by simp
  have s156: "Fin (1 / 2 ^ 1) * Fin (826809332311569 / 2 ^ 45) = Fin (826809332311569 / 2 ^ 46)"
    using rnd_frac [of "(1 / 2 ^ 1) * (826809332311569 / 2 ^ 45)" 49 "6614474658492552"] by simp
  have s157: "Fin 12 - Fin (826809332311569 / 2 ^ 46) = Fin (17615597820399 / 2 ^ 46)"
    using rnd_frac [of "12 - (826809332311569 / 2 ^ 46)" 54 "4509593042022144"] by (simp add: minus_double_def)
  have s158: "Fin (1152921504606847 / 2 ^ 60) * Fin (826809332311569 / 2 ^ 46) = Fin (6773222050296373 / 2 ^ 59)"
    using rnd_frac [of "(1152921504606847 / 2 ^ 60) * (826809332311569 / 2 ^ 46)" 59 "6773222050296373"] by simp
  have s159: "Fin 0 + Fin (6773222050296373 / 2 ^ 59) = Fin (6773222050296373 / 2 ^ 59)"
    using rnd_frac [of "0 + (6773222050296373 / 2 ^ 59)" 59 "6773222050296373"] by simp
  have s160: "Fin (826809332311569 / 2 ^ 46) + Fin 12 = Fin (1671234262443537 / 2 ^ 46)"
    using rnd_frac [of "(826809332311569 / 2 ^ 46) + 12" 48 "6684937049774148"] by simp
  have s161: "Fin (1 / 2 ^ 1) * Fin (1671234262443537 / 2 ^ 46) = Fin (1671234262443537 / 2 ^ 47)"
    using rnd_frac [of "(1 / 2 ^ 1) * (1671234262443537 / 2 ^ 46)" 49 "6684937049774148"] by simp
  have s162: "Fin 12 - Fin (1671234262443537 / 2 ^ 47) = Fin (17615597820399 / 2 ^ 47)"
    using rnd_frac [of "12 - (1671234262443537 / 2 ^ 47)" 55 "4509593042022144"] by (simp add: minus_double_def)
  have s163: "Fin (1152921504606847 / 2 ^ 60) * Fin (1671234262443537 / 2 ^ 47) = Fin (855671942371091 / 2 ^ 56)"
    using rnd_frac [of "(1152921504606847 / 2 ^ 60) * (1671234262443537 / 2 ^ 47)" 59 "6845375538968728"] by simp
  have s164: "Fin 0 + Fin (855671942371091 / 2 ^ 56) = Fin (855671942371091 / 2 ^ 56)"
    using rnd_frac [of "0 + (855671942371091 / 2 ^ 56)" 59 "6845375538968728"] by simp
  have s165: "Fin (1671234262443537 / 2 ^ 47) + Fin 12 = Fin (3360084122707473 / 2 ^ 47)"
    using rnd_frac [of "(1671234262443537 / 2 ^ 47) + 12" 48 "6720168245414946"] by simp
  have s166: "Fin (1 / 2 ^ 1) * Fin (3360084122707473 / 2 ^ 47) = Fin (3360084122707473 / 2 ^ 48)"
    using rnd_frac [of "(1 / 2 ^ 1) * (3360084122707473 / 2 ^ 47)" 49 "6720168245414946"] by simp
  have s167: "Fin 12 - Fin (3360084122707473 / 2 ^ 48) = Fin (17615597820399 / 2 ^ 48)"
    using rnd_frac [of "12 - (3360084122707473 / 2 ^ 48)" 56 "4509593042022144"] by (simp add: minus_double_def)
  have s168: "Fin (1152921504606847 / 2 ^ 60) * Fin (3360084122707473 / 2 ^ 48) = Fin (6881452283304905 / 2 ^ 59)"
    using rnd_frac [of "(1152921504606847 / 2 ^ 60) * (3360084122707473 / 2 ^ 48)" 59 "6881452283304905"] by simp
  have s169: "Fin 0 + Fin (6881452283304905 / 2 ^ 59) = Fin (6881452283304905 / 2 ^ 59)"
    using rnd_frac [of "0 + (6881452283304905 / 2 ^ 59)" 59 "6881452283304905"] by simp
  have s170: "Fin (3360084122707473 / 2 ^ 48) + Fin 12 = Fin (6737783843235345 / 2 ^ 48)"
    using rnd_frac [of "(3360084122707473 / 2 ^ 48) + 12" 48 "6737783843235345"] by simp
  have s171: "Fin (1 / 2 ^ 1) * Fin (6737783843235345 / 2 ^ 48) = Fin (6737783843235345 / 2 ^ 49)"
    using rnd_frac [of "(1 / 2 ^ 1) * (6737783843235345 / 2 ^ 48)" 49 "6737783843235345"] by simp
  have s172: "Fin 12 - Fin (6737783843235345 / 2 ^ 49) = Fin (17615597820399 / 2 ^ 49)"
    using rnd_frac [of "12 - (6737783843235345 / 2 ^ 49)" 57 "4509593042022144"] by (simp add: minus_double_def)
  have s173: "Fin (1152921504606847 / 2 ^ 60) * Fin (6737783843235345 / 2 ^ 49) = Fin (6899490655472993 / 2 ^ 59)"
    using rnd_frac [of "(1152921504606847 / 2 ^ 60) * (6737783843235345 / 2 ^ 49)" 59 "6899490655472993"] by simp
  have s174: "Fin 0 + Fin (6899490655472993 / 2 ^ 59) = Fin (6899490655472993 / 2 ^ 59)"
    using rnd_frac [of "0 + (6899490655472993 / 2 ^ 59)" 59 "6899490655472993"] by simp
  have s175: "Fin (6737783843235345 / 2 ^ 49) + Fin 12 = Fin (843323955268193 / 2 ^ 45)"
    using rnd_tie [of "(6737783843235345 / 2 ^ 49) + 12" 48 "6746591642145544"] by simp
  have s176: "Fin (1 / 2 ^ 1) * Fin (843323955268193 / 2 ^ 45) = Fin (843323955268193 / 2 ^ 46)"
    using rnd_frac [of "(1 / 2 ^ 1) * (843323955268193 / 2 ^ 45)" 49 "6746591642145544"] by simp
  have s177: "Fin 12 - Fin (843323955268193 / 2 ^ 46) = Fin (1100974863775 / 2 ^ 46)"
    using rnd_frac [of "12 - (843323955268193 / 2 ^ 46)" 58 "4509593042022400"] by (simp add: minus_double_def)
  have s178: "Fin (1152921504606847 / 2 ^ 60) * Fin (843323955268193 / 2 ^ 46) = Fin (6908509841557037 / 2 ^ 59)"
    using rnd_frac [of "(1152921504606847 / 2 ^ 60) * (843323955268193 / 2 ^ 46)" 59 "6908509841557037"] by simp
  have s179: "Fin 0 + Fin (6908509841557037 / 2 ^ 59) = Fin (6908509841557037 / 2 ^ 59)"
    using rnd_frac [of "0 + (6908509841557037 / 2 ^ 59)" 59 "6908509841557037"] by simp
  have s180: "Fin (843323955268193 / 2 ^ 46) + Fin 12 = Fin (1687748885400161 / 2 ^ 46)"
    using rnd_frac [of "(843323955268193 / 2 ^ 46) + 12" 48 "6750995541600644"] by simp
  have s181: "Fin (1 / 2 ^ 1) * Fin (1687748885400161 / 2 ^ 46) = Fin (1687748885400161 / 2 ^ 47)"
    using rnd_frac [of "(1 / 2 ^ 1) * (1687748885400161 / 2 ^ 46)" 49 "6750995541600644"] by simp
  have s182: "Fin 12 - Fin (1687748885400161 / 2 ^ 47) = Fin (1100974863775 / 2 ^ 47)"
    using rnd_frac [of "12 - (1687748885400161 / 2 ^ 47)" 59 "4509593042022400"] by (simp add: minus_double_def)
  have s183: "Fin (1152921504606847 / 2 ^ 60) * Fin (1687748885400161 / 2 ^ 47) = Fin (1728254858649765 / 2 ^ 57)"
    using rnd_frac [of "(1152921504606847 / 2 ^ 60) * (1687748885400161 / 2 ^ 47)" 59 "6913019434599060"] by simp
  have s184: "Fin 0 + Fin (1728254858649765 / 2 ^ 57) = Fin (1728254858649765 / 2 ^ 57)"
    using rnd_frac [of "0 + (1728254858649765 / 2 ^ 57)" 59 "6913019434599060"] by simp
  have polara0: "Fin 0.5 * (Fin (2969285476552739 / 2 ^ 49) + Fin 8) = Fin (7472885103923235 / 2 ^ 50)"
    using s10 s11 by simp
  have polarb0: "(\<bar>Fin 8 - Fin (7472885103923235 / 2 ^ 50)\<bar> < Fin 0 + lit 0.001 * min \<bar>Fin (7472885103923235 / 2 ^ 50)\<bar> \<bar>Fin 8\<bar>) = False"
    using s12 s13 s14 eps by (simp add: min_def)
  have polarr0: "solver_iterations halving_fsolver (lit 0.001) 1000 (Fin (2969285476552739 / 2 ^ 49), Fin 8) (0) =
      solver_iterations halving_fsolver (lit 0.001) 1000 (Fin (7472885103923235 / 2 ^ 50), Fin 8) (0 + 1)"
    by (rule halving_continue [OF polara0 polarb0]) simp
  have polara1: "Fin 0.5 * (Fin (7472885103923235 / 2 ^ 50) + Fin 8) = Fin (4120021089666057 / 2 ^ 49)"
    using s15 s16 by simp
  have polarb1: "(\<bar>Fin 8 - Fin (4120021089666057 / 2 ^ 49)\<bar> < Fin 0 + lit 0.001 * min \<bar>Fin (4120021089666057 / 2 ^ 49)\<bar> \<bar>Fin 8\<bar>) = False"
    using s17 s18 s19 eps by (simp add: min_def)
  have polarr1: "solver_iterations halving_fsolver (lit 0.001) 1000 (Fin (7472885103923235 / 2 ^ 50), Fin 8) (0 + 1) =
      solver_iterations halving_fsolver (lit 0.001) 1000 (Fin (4120021089666057 / 2 ^ 49), Fin 8) (0 + 1 + 1)"
    by (rule halving_continue [OF polara1 polarb1]) simp
  have polara2: "Fin 0.5 * (Fin (4120021089666057 / 2 ^ 49) + Fin 8) = Fin (8623620717036553 / 2 ^ 50)"
    using s20 s21 by simp
  have polarb2: "(\<bar>Fin 8 - Fin (8623620717036553 / 2 ^ 50)\<bar> < Fin 0 + lit 0.001 * min \<bar>Fin (8623620717036553 / 2 ^ 50)\<bar> \<bar>Fin 8\<bar>) = False"
    using s22 s23 s24 eps by (simp add: min_def)
  have polarr2: "solver_iterations halving_fsolver (lit 0.001) 1000 (Fin (4120021089666057 / 2 ^ 49), Fin 8) (0 + 1 + 1) =
      solver_iterations halving_fsolver (lit 0.001) 1000 (Fin (8623620717036553 / 2 ^ 50), Fin 8) (0 + 1 + 1 + 1)"
    by (rule halving_continue [OF polara2 polarb2]) simp
  have polara3: "Fin 0.5 * (Fin (8623620717036553 / 2 ^ 50) + Fin 8) = Fin (2203852496472193 / 2 ^ 48)"
    using s25 s26 by simp
  have polarb3: "(\<bar>Fin 8 - Fin (2203852496472193 / 2 ^ 48)\<bar> < Fin 0 + lit 0.001 * min \<bar>Fin (2203852496472193 / 2 ^ 48)\<bar> \<bar>Fin 8\<bar>) = False"
    using s27 s28 s29 eps by (simp add: min_def)
  have polarr3: "solver_iterations halving_fsolver (lit 0.001) 1000 (Fin (8623620717036553 / 2 ^ 50), Fin 8) (0 + 1 + 1 + 1) =
      solver_iterations halving_fsolver (lit 0.001) 1000 (Fin (2203852496472193 / 2 ^ 48), Fin 8) (0 + 1 + 1 + 1 + 1)"
    by (rule halving_continue [OF polara3 polarb3]) simp
  have polara4: "Fin 0.5 * (Fin (2203852496472193 / 2 ^ 48) + Fin 8) = Fin (4455652310157441 / 2 ^ 49)"
    using s30 s31 by simp
  have polarb4: "(\<bar>Fin 8 - Fin (4455652310157441 / 2 ^ 49)\<bar> < Fin 0 + lit 0.001 * min \<bar>Fin (4455652310157441 / 2 ^ 49)\<bar> \<bar>Fin 8\<bar>) = False"
    using s32 s33 s34 eps by (simp add: min_def)
  have polarr4: "solver_iterations halving_fsolver (lit 0.001) 1000 (Fin (2203852496472193 / 2 ^ 48), Fin 8) (0 + 1 + 1 + 1 + 1) =
      solver_iterations halving_fsolver (lit 0.001) 1000 (Fin (4455652310157441 / 2 ^ 49), Fin 8) (0 + 1 + 1 + 1 + 1 + 1)"
    by (rule halving_continue [OF polara4 polarb4]) simp
  have polara5: "Fin 0.5 * (Fin (4455652310157441 / 2 ^ 49) + Fin 8) = Fin (8959251937527937 / 2 ^ 50)"
    using s35 s36 by simp
  have polarb5: "(\<bar>Fin 8 - Fin (8959251937527937 / 2 ^ 50)\<bar> < Fin 0 + lit 0.001 * min \<bar>Fin (8959251937527937 / 2 ^ 50)\<bar> \<bar>Fin 8\<bar>) = False"
    using s37 s38 s39 eps by (simp add: min_def)
  have polarr5: "solver_iterations halving_fsolver (lit 0.001) 1000 (Fin (4455652310157441 / 2 ^ 49), Fin 8) (0 + 1 + 1 + 1 + 1 + 1) =
      solver_iterations halving_fsolver (lit 0.001) 1000 (Fin (8959251937527937 / 2 ^ 50), Fin 8) (0 + 1 + 1 + 1 + 1 + 1 + 1)"
    by (rule halving_continue [OF polara5 polarb5]) simp
  have polara6: "Fin 0.5 * (Fin (8959251937527937 / 2 ^ 50) + Fin 8) = Fin (140362899939601 / 2 ^ 44)"
    using s40 s41 by simp
  have polarb6: "(\<bar>Fin 8 - Fin (140362899939601 / 2 ^ 44)\<bar> < Fin 0 + lit 0.001 * min \<bar>Fin (140362899939601 / 2 ^ 44)\<bar> \<bar>Fin 8\<bar>) = False"
    using s42 s43 s44 eps by (simp add: min_def)
  have polarr6: "solver_iterations halving_fsolver (lit 0.001) 1000 (Fin (8959251937527937 / 2 ^ 50), Fin 8) (0 + 1 + 1 + 1 + 1 + 1 + 1) =
      solver_iterations halving_fsolver (lit 0.001) 1000 (Fin (140362899939601 / 2 ^ 44), Fin 8) (0 + 1 + 1 + 1 + 1 + 1 + 1 + 1)"
    by (rule halving_continue [OF polara6 polarb6]) simp
  have polara7: "Fin 0.5 * (Fin (140362899939601 / 2 ^ 44) + Fin 8) = Fin (281100388294929 / 2 ^ 45)"
    using s45 s46 by simp
  have polarb7: "(\<bar>Fin 8 - Fin (281100388294929 / 2 ^ 45)\<bar> < Fin 0 + lit 0.001 * min \<bar>Fin (281100388294929 / 2 ^ 45)\<bar> \<bar>Fin 8\<bar>) = False"
    using s47 s48 s49 eps by (simp add: min_def)
  have polarr7: "solver_iterations halving_fsolver (lit 0.001) 1000 (Fin (140362899939601 / 2 ^ 44), Fin 8) (0 + 1 + 1 + 1 + 1 + 1 + 1 + 1) =
      solver_iterations halving_fsolver (lit 0.001) 1000 (Fin (281100388294929 / 2 ^ 45), Fin 8) (0 + 1 + 1 + 1 + 1 + 1 + 1 + 1 + 1)"
    by (rule halving_continue [OF polara7 polarb7]) simp
  have polara8: "Fin 0.5 * (Fin (281100388294929 / 2 ^ 45) + Fin 8) = Fin (562575365005585 / 2 ^ 46)"
    using s50 s51 by simp
  have polarb8: "\<bar>Fin 8 - Fin (562575365005585 / 2 ^ 46)\<bar> < Fin 0 + lit 0.001 * min \<bar>Fin (562575365005585 / 2 ^ 46)\<bar> \<bar>Fin 8\<bar>"
    using s52 s53 s54 eps by (simp add: min_def)
  have polarr8: "solver_iterations halving_fsolver (lit 0.001) 1000 (Fin (281100388294929 / 2 ^ 45), Fin 8) (0 + 1 + 1 + 1 + 1 + 1 + 1 + 1 + 1) =
      (GSL_SUCCESS, 0 + 1 + 1 + 1 + 1 + 1 + 1 + 1 + 1 + 1, Fin (562575365005585 / 2 ^ 46), Fin (562575365005585 / 2 ^ 46), Fin 8)"
    by (rule halving_stop [OF polara8 polarb8])
  have polar: "solver halving_fsolver n params func (Fin (2969285476552739 / 2 ^ 49)) (Fin 8) = Some (ret (Fin (562575365005585 / 2 ^ 46)))" for n params func
    by (rule solver_halving) (simp only: polarr0 polarr1 polarr2 polarr3 polarr4 polarr5 polarr6 polarr7 polarr8)
  have equata0: "Fin 0.5 * (Fin (3 / 2 ^ 1) + Fin 7) = Fin (17 / 2 ^ 2)"
    using s55 s56 by simp
  have equatb0: "(\<bar>Fin 7 - Fin (17 / 2 ^ 2)\<bar> < Fin 0 + lit 0.001 * min \<bar>Fin (17 / 2 ^ 2)\<bar> \<bar>Fin 7\<bar>) = False"
    using s57 s58 s59 eps by (simp add: min_def)
  have equatr0: "solver_iterations halving_fsolver (lit 0.001) 1000 (Fin (3 / 2 ^ 1), Fin 7) (0) =
      solver_iterations halving_fsolver (lit 0.001) 1000 (Fin (17 / 2 ^ 2), Fin 7) (0 + 1)"
    by (rule halving_continue [OF equata0 equatb0]) simp
  have equata1: "Fin 0.5 * (Fin (17 / 2 ^ 2) + Fin 7) = Fin (45 / 2 ^ 3)"
    using s60 s61 by simp
  have equatb1: "(\<bar>Fin 7 - Fin (45 / 2 ^ 3)\<bar> < Fin 0 + lit 0.001 * min \<bar>Fin (45 / 2 ^ 3)\<bar> \<bar>Fin 7\<bar>) = False"
    using s62 s63 s64 eps by (simp add: min_def)
  have equatr1: "solver_iterations halving_fsolver (lit 0.001) 1000 (Fin (17 / 2 ^ 2), Fin 7) (0 + 1) =
      solver_iterations halving_fsolver (lit 0.001) 1000 (Fin (45 / 2 ^ 3), Fin 7) (0 + 1 + 1)"
    by (rule halving_continue [OF equata1 equatb1]) simp
  have equata2: "Fin 0.5 * (Fin (45 / 2 ^ 3) + Fin 7) = Fin (101 / 2 ^ 4)"
    using s65 s66 by simp
  have equatb2: "(\<bar>Fin 7 - Fin (101 / 2 ^ 4)\<bar> < Fin 0 + lit 0.001 * min \<bar>Fin (101 / 2 ^ 4)\<bar> \<bar>Fin 7\<bar>) = False"
    using s67 s68 s69 eps by (simp add: min_def)
  have equatr2: "solver_iterations halving_fsolver (lit 0.001) 1000 (Fin (45 / 2 ^ 3), Fin 7) (0 + 1 + 1) =
      solver_iterations halving_fsolver (lit 0.001) 1000 (Fin (101 / 2 ^ 4), Fin 7) (0 + 1 + 1 + 1)"
    by (rule halving_continue [OF equata2 equatb2]) simp
  have equata3: "Fin 0.5 * (Fin (101 / 2 ^ 4) + Fin 7) = Fin (213 / 2 ^ 5)"
    using s70 s71 by simp
  have equatb3: "(\<bar>Fin 7 - Fin (213 / 2 ^ 5)\<bar> < Fin 0 + lit 0.001 * min \<bar>Fin (213 / 2 ^ 5)\<bar> \<bar>Fin 7\<bar>) = False"
    using s72 s73 s74 eps by (simp add: min_def)
  have equatr3: "solver_iterations halving_fsolver (lit 0.001) 1000 (Fin (101 / 2 ^ 4), Fin 7) (0 + 1 + 1 + 1) =
      solver_iterations halving_fsolver (lit 0.001) 1000 (Fin (213 / 2 ^ 5), Fin 7) (0 + 1 + 1 + 1 + 1)"
    by (rule halving_continue [OF equata3 equatb3]) simp
  have equata4: "Fin 0.5 * (Fin (213 / 2 ^ 5) + Fin 7) = Fin (437 / 2 ^ 6)"
    using s75 s76 by simp
  have equatb4: "(\<bar>Fin 7 - Fin (437 / 2 ^ 6)\<bar> < Fin 0 + lit 0.001 * min \<bar>Fin (437 / 2 ^ 6)\<bar> \<bar>Fin 7\<bar>) = False"
    using s77 s78 s79 eps by (simp add: min_def)
  have equatr4: "solver_iterations halving_fsolver (lit 0.001) 1000 (Fin (213 / 2 ^ 5), Fin 7) (0 + 1 + 1 + 1 + 1) =
      solver_iterations halving_fsolver (lit 0.001) 1000 (Fin (437 / 2 ^ 6), Fin 7) (0 + 1 + 1 + 1 + 1 + 1)"
    by (rule halving_continue [OF equata4 equatb4]) simp
  have equata5: "Fin 0.5 * (Fin (437 / 2 ^ 6) + Fin 7) = Fin (885 / 2 ^ 7)"
    using s80 s81 by simp
  have equatb5: "(\<bar>Fin 7 - Fin (885 / 2 ^ 7)\<bar> < Fin 0 + lit 0.001 * min \<bar>Fin (885 / 2 ^ 7)\<bar> \<bar>Fin 7\<bar>) = False"
    using s82 s83 s84 eps by (simp add: min_def)
  have equatr5: "solver_iterations halving_fsolver (lit 0.001) 1000 (Fin (437 / 2 ^ 6), Fin 7) (0 + 1 + 1 + 1 + 1 + 1) =
      solver_iterations halving_fsolver (lit 0.001) 1000 (Fin (885 / 2 ^ 7), Fin 7) (0 + 1 + 1 + 1 + 1 + 1 + 1)"
    by (rule halving_continue [OF equata5 equatb5]) simp
  have equata6: "Fin 0.5 * (Fin (885 / 2 ^ 7) + Fin 7) = Fin (1781 / 2 ^ 8)"
    using s85 s86 by simp
  have equatb6: "(\<bar>Fin 7 - Fin (1781 / 2 ^ 8)\<bar> < Fin 0 + lit 0.001 * min \<bar>Fin (1781 / 2 ^ 8)\<bar> \<bar>Fin 7\<bar>) = False"
    using s87 s88 s89 eps by (simp add: min_def)
  have equatr6: "solver_iterations halving_fsolver (lit 0.001) 1000 (Fin (885 / 2 ^ 7), Fin 7) (0 + 1 + 1 + 1 + 1 + 1 + 1) =
      solver_iterations halving_fsolver (lit 0.001) 1000 (Fin (1781 / 2 ^ 8), Fin 7) (0 + 1 + 1 + 1 + 1 + 1 + 1 + 1)"
    by (rule halving_continue [OF equata6 equatb6]) simp
  have equata7: "Fin 0.5 * (Fin (1781 / 2 ^ 8) + Fin 7) = Fin (3573 / 2 ^ 9)"
    using s90 s91 by simp
  have equatb7: "(\<bar>Fin 7 - Fin (3573 / 2 ^ 9)\<bar> < Fin 0 + lit 0.001 * min \<bar>Fin (3573 / 2 ^ 9)\<bar> \<bar>Fin 7\<bar>) = False"
    using s92 s93 s94 eps by (simp add: min_def)
  have equatr7: "solver_iterations halving_fsolver (lit 0.001) 1000 (Fin (1781 / 2 ^ 8), Fin 7) (0 + 1 + 1 + 1 + 1 + 1 + 1 + 1) =
      solver_iterations halving_fsolver (lit 0.001) 1000 (Fin (3573 / 2 ^ 9), Fin 7) (0 + 1 + 1 + 1 + 1 + 1 + 1 + 1 + 1)"
    by (rule halving_continue [OF equata7 equatb7]) simp
  have equata8: "Fin 0.5 * (Fin (3573 / 2 ^ 9) + Fin 7) = Fin (7157 / 2 ^ 10)"
    using s95 s96 by simp
  have equatb8: "(\<bar>Fin 7 - Fin (7157 / 2 ^ 10)\<bar> < Fin 0 + lit 0.001 * min \<bar>Fin (7157 / 2 ^ 10)\<bar> \<bar>Fin 7\<bar>) = False"
    using s97 s98 s99 eps by (simp add: min_def)
  have equatr8: "solver_iterations halving_fsolver (lit 0.001) 1000 (Fin (3573 / 2 ^ 9), Fin 7) (0 + 1 + 1 + 1 + 1 + 1 + 1 + 1 + 1) =
      solver_iterations halving_fsolver (lit 0.001) 1000 (Fin (7157 / 2 ^ 10), Fin 7) (0 + 1 + 1 + 1 + 1 + 1 + 1 + 1 + 1 + 1)"
    by (rule halving_continue [OF equata8 equatb8]) simp
  have equata9: "Fin 0.5 * (Fin (7157 / 2 ^ 10) + Fin 7) = Fin (14325 / 2 ^ 11)"
    using s100 s101 by simp
  have equatb9: "\<bar>Fin 7 - Fin (14325 / 2 ^ 11)\<bar> < Fin 0 + lit 0.001 * min \<bar>Fin (14325 / 2 ^ 11)\<bar> \<bar>Fin 7\<bar>"
    using s102 s103 s104 eps by (simp add: min_def)
  have equatr9: "solver_iterations halving_fsolver (lit 0.001) 1000 (Fin (7157 / 2 ^ 10), Fin 7) (0 + 1 + 1 + 1 + 1 + 1 + 1 + 1 + 1 + 1) =
      (GSL_SUCCESS, 0 + 1 + 1 + 1 + 1 + 1 + 1 + 1 + 1 + 1 + 1, Fin (14325 / 2 ^ 11), Fin (14325 / 2 ^ 11), Fin 7)"
    by (rule halving_stop [OF equata9 equatb9])
  have equat: "solver halving_fsolver n params func (Fin (3 / 2 ^ 1)) (Fin 7) = Some (ret (Fin (14325 / 2 ^ 11)))" for n params func
    by (rule solver_halving) (simp only: equatr0 equatr1 equatr2 equatr3 equatr4 equatr5 equatr6 equatr7 equatr8 equatr9)
  have fullpa0: "Fin 0.5 * (Fin (14325 / 2 ^ 11) + Fin (562575365005585 / 2 ^ 46)) = Fin (1054778617127185 / 2 ^ 47)"
    using s105 s106 by simp
  have fullpb0: "(\<bar>Fin (562575365005585 / 2 ^ 46) - Fin (1054778617127185 / 2 ^ 47)\<bar> < Fin 0 + lit 0.001 * min \<bar>Fin (1054778617127185 / 2 ^ 47)\<bar> \<bar>Fin (562575365005585 / 2 ^ 46)\<bar>) = False"
    using s107 s108 s109 eps by (simp add: min_def)
  have fullpr0: "solver_iterations halving_fsolver (lit 0.001) 1000 (Fin (14325 / 2 ^ 11), Fin (562575365005585 / 2 ^ 46)) (0) =
      solver_iterations halving_fsolver (lit 0.001) 1000 (Fin (1054778617127185 / 2 ^ 47), Fin (562575365005585 / 2 ^ 46)) (0 + 1)"
    by (rule halving_continue [OF fullpa0 fullpb0]) simp
  have fullpa1: "Fin 0.5 * (Fin (1054778617127185 / 2 ^ 47) + Fin (562575365005585 / 2 ^ 46)) = Fin (2179929347138355 / 2 ^ 48)"
    using s110 s111 by simp
  have fullpb1: "(\<bar>Fin (562575365005585 / 2 ^ 46) - Fin (2179929347138355 / 2 ^ 48)\<bar> < Fin 0 + lit 0.001 * min \<bar>Fin (2179929347138355 / 2 ^ 48)\<bar> \<bar>Fin (562575365005585 / 2 ^ 46)\<bar>) = False"
    using s112 s113 s114 eps by (simp add: min_def)
  have fullpr1: "solver_iterations halving_fsolver (lit 0.001) 1000 (Fin (1054778617127185 / 2 ^ 47), Fin (562575365005585 / 2 ^ 46)) (0 + 1) =
      solver_iterations halving_fsolver (lit 0.001) 1000 (Fin (2179929347138355 / 2 ^ 48), Fin (562575365005585 / 2 ^ 46)) (0 + 1 + 1)"
    by (rule halving_continue [OF fullpa1 fullpb1]) simp
  have fullpa2: "Fin 0.5 * (Fin (2179929347138355 / 2 ^ 48) + Fin (562575365005585 / 2 ^ 46)) = Fin (4430230807160695 / 2 ^ 49)"
    using s115 s116 by simp
  have fullpb2: "(\<bar>Fin (562575365005585 / 2 ^ 46) - Fin (4430230807160695 / 2 ^ 49)\<bar> < Fin 0 + lit 0.001 * min \<bar>Fin (4430230807160695 / 2 ^ 49)\<bar> \<bar>Fin (562575365005585 / 2 ^ 46)\<bar>) = False"
    using s117 s118 s119 eps by (simp add: min_def)
  have fullpr2: "solver_iterations halving_fsolver (lit 0.001) 1000 (Fin (2179929347138355 / 2 ^ 48), Fin (562575365005585 / 2 ^ 46)) (0 + 1 + 1) =
      solver_iterations halving_fsolver (lit 0.001) 1000 (Fin (4430230807160695 / 2 ^ 49), Fin (562575365005585 / 2 ^ 46)) (0 + 1 + 1 + 1)"
    by (rule halving_continue [OF fullpa2 fullpb2]) simp
  have fullpa3: "Fin 0.5 * (Fin (4430230807160695 / 2 ^ 49) + Fin (562575365005585 / 2 ^ 46)) = Fin (8930833727205375 / 2 ^ 50)"
    using s120 s121 by simp
  have fullpb3: "(\<bar>Fin (562575365005585 / 2 ^ 46) - Fin (8930833727205375 / 2 ^ 50)\<bar> < Fin 0 + lit 0.001 * min \<bar>Fin (8930833727205375 / 2 ^ 50)\<bar> \<bar>Fin (562575365005585 / 2 ^ 46)\<bar>) = False"
    using s122 s123 s124 eps by (simp add: min_def)
  have fullpr3: "solver_iterations halving_fsolver (lit 0.001) 1000 (Fin (4430230807160695 / 2 ^ 49), Fin (562575365005585 / 2 ^ 46)) (0 + 1 + 1 + 1) =
      solver_iterations halving_fsolver (lit 0.001) 1000 (Fin (8930833727205375 / 2 ^ 50), Fin (562575365005585 / 2 ^ 46)) (0 + 1 + 1 + 1 + 1)"
    by (rule halving_continue [OF fullpa3 fullpb3]) simp
  have fullpa4: "Fin 0.5 * (Fin (8930833727205375 / 2 ^ 50) + Fin (562575365005585 / 2 ^ 46)) = Fin (1120752472955921 / 2 ^ 47)"
    using s125 s126 by simp
  have fullpb4: "(\<bar>Fin (562575365005585 / 2 ^ 46) - Fin (1120752472955921 / 2 ^ 47)\<bar> < Fin 0 + lit 0.001 * min \<bar>Fin (1120752472955921 / 2 ^ 47)\<bar> \<bar>Fin (562575365005585 / 2 ^ 46)\<bar>) = False"
    using s127 s128 s129 eps by (simp add: min_def)
  have fullpr4: "solver_iterations halving_fsolver (lit 0.001) 1000 (Fin (8930833727205375 / 2 ^ 50), Fin (562575365005585 / 2 ^ 46)) (0 + 1 + 1 + 1 + 1) =
      solver_iterations halving_fsolver (lit 0.001) 1000 (Fin (1120752472955921 / 2 ^ 47), Fin (562575365005585 / 2 ^ 46)) (0 + 1 + 1 + 1 + 1 + 1)"
    by (rule halving_continue [OF fullpa4 fullpb4]) simp
  have fullpa5: "Fin 0.5 * (Fin (1120752472955921 / 2 ^ 47) + Fin (562575365005585 / 2 ^ 46)) = Fin (2245903202967091 / 2 ^ 48)"
    using s130 s131 by simp
  have fullpb5: "(\<bar>Fin (562575365005585 / 2 ^ 46) - Fin (2245903202967091 / 2 ^ 48)\<bar> < Fin 0 + lit 0.001 * min \<bar>Fin (2245903202967091 / 2 ^ 48)\<bar> \<bar>Fin (562575365005585 / 2 ^ 46)\<bar>) = False"
    using s132 s133 s134 eps by (simp add: min_def)
  have fullpr5: "solver_iterations halving_fsolver (lit 0.001) 1000 (Fin (1120752472955921 / 2 ^ 47), Fin (562575365005585 / 2 ^ 46)) (0 + 1 + 1 + 1 + 1 + 1) =
      solver_iterations halving_fsolver (lit 0.001) 1000 (Fin (2245903202967091 / 2 ^ 48), Fin (562575365005585 / 2 ^ 46)) (0 + 1 + 1 + 1 + 1 + 1 + 1)"
    by (rule halving_continue [OF fullpa5 fullpb5]) simp
  have fullpa6: "Fin 0.5 * (Fin (2245903202967091 / 2 ^ 48) + Fin (562575365005585 / 2 ^ 46)) = Fin (4496204662989431 / 2 ^ 49)"
    using s135 s136 by simp
  have fullpb6: "\<bar>Fin (562575365005585 / 2 ^ 46) - Fin (4496204662989431 / 2 ^ 49)\<bar> < Fin 0 + lit 0.001 * min \<bar>Fin (4496204662989431 / 2 ^ 49)\<bar> \<bar>Fin (562575365005585 / 2 ^ 46)\<bar>"
    using s137 s138 s139 eps by (simp add: min_def)
  have fullpr6: "solver_iterations halving_fsolver (lit 0.001) 1000 (Fin (2245903202967091 / 2 ^ 48), Fin (562575365005585 / 2 ^ 46)) (0 + 1 + 1 + 1 + 1 + 1 + 1) =
      (GSL_SUCCESS, 0 + 1 + 1 + 1 + 1 + 1 + 1 + 1, Fin (4496204662989431 / 2 ^ 49), Fin (4496204662989431 / 2 ^ 49), Fin (562575365005585 / 2 ^ 46))"
    by (rule halving_stop [OF fullpa6 fullpb6])
  have fullp: "solver halving_fsolver n params func (Fin (14325 / 2 ^ 11)) (Fin (562575365005585 / 2 ^ 46)) = Some (ret (Fin (4496204662989431 / 2 ^ 49)))" for n params func
    by (rule solver_halving) (simp only: fullpr0 fullpr1 fullpr2 fullpr3 fullpr4 fullpr5 fullpr6)
  have fullna0: "Fin 0.5 * (Fin (562575365005585 / 2 ^ 46) + Fin 12) = Fin (1407000295137553 / 2 ^ 47)"
    using s140 s141 by simp
  have fullnb0: "(\<bar>Fin 12 - Fin (1407000295137553 / 2 ^ 47)\<bar> < Fin 0 + lit 0.001 * min \<bar>Fin (1407000295137553 / 2 ^ 47)\<bar> \<bar>Fin 12\<bar>) = False"
    using s142 s143 s144 eps by (simp add: min_def)
  have fullnr0: "solver_iterations halving_fsolver (lit 0.001) 1000 (Fin (562575365005585 / 2 ^ 46), Fin 12) (0) =
      solver_iterations halving_fsolver (lit 0.001) 1000 (Fin (1407000295137553 / 2 ^ 47), Fin 12) (0 + 1)"
    by (rule halving_continue [OF fullna0 fullnb0]) simp
  have fullna1: "Fin 0.5 * (Fin (1407000295137553 / 2 ^ 47) + Fin 12) = Fin (3095850155401489 / 2 ^ 48)"
    using s145 s146 by simp
  have fullnb1: "(\<bar>Fin 12 - Fin (3095850155401489 / 2 ^ 48)\<bar> < Fin 0 + lit 0.001 * min \<bar>Fin (3095850155401489 / 2 ^ 48)\<bar> \<bar>Fin 12\<bar>) = False"
    using s147 s148 s149 eps by (simp add: min_def)
  have fullnr1: "solver_iterations halving_fsolver (lit 0.001) 1000 (Fin (1407000295137553 / 2 ^ 47), Fin 12) (0 + 1) =
      solver_iterations halving_fsolver (lit 0.001) 1000 (Fin (3095850155401489 / 2 ^ 48), Fin 12) (0 + 1 + 1)"
    by (rule halving_continue [OF fullna1 fullnb1]) simp
  have fullna2: "Fin 0.5 * (Fin (3095850155401489 / 2 ^ 48) + Fin 12) = Fin (6473549875929361 / 2 ^ 49)"
    using s150 s151 by simp
  have fullnb2: "(\<bar>Fin 12 - Fin (6473549875929361 / 2 ^ 49)\<bar> < Fin 0 + lit 0.001 * min \<bar>Fin (6473549875929361 / 2 ^ 49)\<bar> \<bar>Fin 12\<bar>) = False"
    using s152 s153 s154 eps by (simp add: min_def)
  have fullnr2: "solver_iterations halving_fsolver (lit 0.001) 1000 (Fin (3095850155401489 / 2 ^ 48), Fin 12) (0 + 1 + 1) =
      solver_iterations halving_fsolver (lit 0.001) 1000 (Fin (6473549875929361 / 2 ^ 49), Fin 12) (0 + 1 + 1 + 1)"
    by (rule halving_continue [OF fullna2 fullnb2]) simp
  have fullna3: "Fin 0.5 * (Fin (6473549875929361 / 2 ^ 49) + Fin 12) = Fin (826809332311569 / 2 ^ 46)"
    using s155 s156 by simp
  have fullnb3: "(\<bar>Fin 12 - Fin (826809332311569 / 2 ^ 46)\<bar> < Fin 0 + lit 0.001 * min \<bar>Fin (826809332311569 / 2 ^ 46)\<bar> \<bar>Fin 12\<bar>) = False"
    using s157 s158 s159 eps by (simp add: min_def)
  have fullnr3: "solver_iterations halving_fsolver (lit 0.001) 1000 (Fin (6473549875929361 / 2 ^ 49), Fin 12) (0 + 1 + 1 + 1) =
      solver_iterations halving_fsolver (lit 0.001) 1000 (Fin (826809332311569 / 2 ^ 46), Fin 12) (0 + 1 + 1 + 1 + 1)"
    by (rule halving_continue [OF fullna3 fullnb3]) simp
  have fullna4: "Fin 0.5 * (Fin (826809332311569 / 2 ^ 46) + Fin 12) = Fin (1671234262443537 / 2 ^ 47)"
    using s160 s161 by simp
  have fullnb4: "(\<bar>Fin 12 - Fin (1671234262443537 / 2 ^ 47)\<bar> < Fin 0 + lit 0.001 * min \<bar>Fin (1671234262443537 / 2 ^ 47)\<bar> \<bar>Fin 12\<bar>) = False"
    using s162 s163 s164 eps by (simp add: min_def)
  have fullnr4: "solver_iterations halving_fsolver (lit 0.001) 1000 (Fin (826809332311569 / 2 ^ 46), Fin 12) (0 + 1 + 1 + 1 + 1) =
      solver_iterations halving_fsolver (lit 0.001) 1000 (Fin (1671234262443537 / 2 ^ 47), Fin 12) (0 + 1 + 1 + 1 + 1 + 1)"
    by (rule halving_continue [OF fullna4 fullnb4]) simp
  have fullna5: "Fin 0.5 * (Fin (1671234262443537 / 2 ^ 47) + Fin 12) = Fin (3360084122707473 / 2 ^ 48)"
    using s165 s166 by simp
  have fullnb5: "(\<bar>Fin 12 - Fin (3360084122707473 / 2 ^ 48)\<bar> < Fin 0 + lit 0.001 * min \<bar>Fin (3360084122707473 / 2 ^ 48)\<bar> \<bar>Fin 12\<bar>) = False"
    using s167 s168 s169 eps by (simp add: min_def)
  have fullnr5: "solver_iterations halving_fsolver (lit 0.001) 1000 (Fin (1671234262443537 / 2 ^ 47), Fin 12) (0 + 1 + 1 + 1 + 1 + 1) =
      solver_iterations halving_fsolver (lit 0.001) 1000 (Fin (3360084122707473 / 2 ^ 48), Fin 12) (0 + 1 + 1 + 1 + 1 + 1 + 1)"
    by (rule halving_continue [OF fullna5 fullnb5]) simp
  have fullna6: "Fin 0.5 * (Fin (3360084122707473 / 2 ^ 48) + Fin 12) = Fin (6737783843235345 / 2 ^ 49)"
    using s170 s171 by simp
  have fullnb6: "(\<bar>Fin 12 - Fin (6737783843235345 / 2 ^ 49)\<bar> < Fin 0 + lit 0.001 * min \<bar>Fin (6737783843235345 / 2 ^ 49)\<bar> \<bar>Fin 12\<bar>) = False"
    using s172 s173 s174 eps by (simp add: min_def)
  have fullnr6: "solver_iterations halving_fsolver (lit 0.001) 1000 (Fin (3360084122707473 / 2 ^ 48), Fin 12) (0 + 1 + 1 + 1 + 1 + 1 + 1) =
      solver_iterations halving_fsolver (lit 0.001) 1000 (Fin (6737783843235345 / 2 ^ 49), Fin 12) (0 + 1 + 1 + 1 + 1 + 1 + 1 + 1)"
    by (rule halving_continue [OF fullna6 fullnb6]) simp
  have fullna7: "Fin 0.5 * (Fin (6737783843235345 / 2 ^ 49) + Fin 12) = Fin (843323955268193 / 2 ^ 46)"
    using s175 s176 by simp
  have fullnb7: "(\<bar>Fin 12 - Fin (843323955268193 / 2 ^ 46)\<bar> < Fin 0 + lit 0.001 * min \<bar>Fin (843323955268193 / 2 ^ 46)\<bar> \<bar>Fin 12\<bar>) = False"
    using s177 s178 s179 eps by (simp add: min_def)
  have fullnr7: "solver_iterations halving_fsolver (lit 0.001) 1000 (Fin (6737783843235345 / 2 ^ 49), Fin 12) (0 + 1 + 1 + 1 + 1 + 1 + 1 + 1) =
      solver_iterations halving_fsolver (lit 0.001) 1000 (Fin (843323955268193 / 2 ^ 46), Fin 12) (0 + 1 + 1 + 1 + 1 + 1 + 1 + 1 + 1)"
    by (rule halving_continue [OF fullna7 fullnb7]) simp
  have fullna8: "Fin 0.5 * (Fin (843323955268193 / 2 ^ 46) + Fin 12) = Fin (1687748885400161 / 2 ^ 47)"
    using s180 s181 by simp
  have fullnb8: "\<bar>Fin 12 - Fin (1687748885400161 / 2 ^ 47)\<bar> < Fin 0 + lit 0.001 * min \<bar>Fin (1687748885400161 / 2 ^ 47)\<bar> \<bar>Fin 12\<bar>"
    using s182 s183 s184 eps by (simp add: min_def)
  have fullnr8: "solver_iterations halving_fsolver (lit 0.001) 1000 (Fin (843323955268193 / 2 ^ 46), Fin 12) (0 + 1 + 1 + 1 + 1 + 1 + 1 + 1 + 1) =
      (GSL_SUCCESS, 0 + 1 + 1 + 1 + 1 + 1 + 1 + 1 + 1 + 1, Fin (1687748885400161 / 2 ^ 47), Fin (1687748885400161 / 2 ^ 47), Fin 12)"
    by (rule halving_stop [OF fullna8 fullnb8])
  have fulln: "solver halving_fsolver n params func (Fin (562575365005585 / 2 ^ 46)) (Fin 12) = Some (ret (Fin (1687748885400161 / 2 ^ 47)))" for n params func
    by (rule solver_halving) (simp only: fullnr0 fullnr1 fullnr2 fullnr3 fullnr4 fullnr5 fullnr6 fullnr7 fullnr8)
  show "Fin 1 + sqrt_d (Fin 3) + sqrt_d (Fin 3 + Fin 2 * sqrt_d (Fin 3)) = Fin (2969285476552739 / 2 ^ 49)"
    by (simp only: s1 s2 s3 s4 s5 s6)
  show "Fin 1 + Fin 0.5 = Fin (3 / 2 ^ 1)" using s7 by simp
  show "Fin 6 + Fin 2 * Fin 0.5 = Fin 7" using s8 s9 by simp
  show "solver halving_fsolver n params func (Fin (2969285476552739 / 2 ^ 49)) (Fin 8) = Some (ret (Fin (562575365005585 / 2 ^ 46)))" by (rule polar)
  show "solver halving_fsolver n params func (Fin (3 / 2 ^ 1)) (Fin 7) = Some (ret (Fin (14325 / 2 ^ 11)))" by (rule equat)
  show "solver halving_fsolver n params func (Fin (14325 / 2 ^ 11)) (Fin (562575365005585 / 2 ^ 46)) = Some (ret (Fin (4496204662989431 / 2 ^ 49)))" by (rule fullp)
  show "solver halving_fsolver n params func (Fin (562575365005585 / 2 ^ 46)) (Fin 12) = Some (ret (Fin (1687748885400161 / 2 ^ 47)))" by (rule fulln)
qed

lemma staged_separatrix_runs:
  "staged_separatrix halving_fsolver 0 (Fin 0.5) (Fin 0.5) (Fin 0.5) = Some (ret (Fin (4496204662989431 / 2 ^ 49)))"
  "staged_separatrix halving_fsolver 0 (Fin 0.5) (Fin 0.5) (Fin 0) = Some (ret (Fin (562575365005585 / 2 ^ 46)))"
  "staged_separatrix halving_fsolver 0 (Fin 0.5) (Fin 0.5) (Fin (- 0.5)) = Some (ret (Fin (1687748885400161 / 2 ^ 47)))"
  unfolding staged_separatrix_def Let_def separatrix_runs bind_opt_Some_ret by simp_all

lemma SchwarzEccFlux_calls_frequencies:
  assumes "\<not> p < Fin 6 + Fin 2 * e" "SchwarzschildGeoCoordinateFrequencies G p e = (out, Inl ex)"
  shows "SchwarzEccFlux_deriv_func G interps st epsilon a p e x = (out, Inl ex)"
  using assms by (simp add: SchwarzEccFlux_deriv_func_def bind_res_def)

lemma KerrEccentricEquatorial_calls_frequencies:
  assumes "get_separatrix R n a e x = Some (out1, Inr p_sep)" "\<not> (e < Fin 0 \<or> p < p_sep)"
    and "KerrGeoEquatorialCoordinateFrequencies K a p e x = (out2, Inl ex)"
  shows "KerrEccentricEquatorial_deriv_func R n K st epsilon a p e x = Some (out1 @ out2, Inl ex)"
  using assms by (simp add: KerrEccentricEquatorial_deriv_func_def bind_opt_def)

section \<open>The input check\<close>

text \<open>
  C10: \<^verbatim>\<open>sanity_check\<close> returns 1 exactly when \<open>p < 0\<close>, \<open>e > 1\<close>, \<open>e < 0\<close>,
  \<open>Y > 1\<close>, \<open>Y < -1\<close>, \<open>a > 1\<close> or \<open>a < 0\<close>, and 0 otherwise; it accepts \<open>e = 1\<close>; it
  prints nothing and throws nothing, whatever the input.
\<close>

theorem sanity_check_result:
  "sanity_check a p e Y =
     ([], if p < Fin 0 \<or> Fin 1 < e \<or> e < Fin 0 \<or> Fin 1 < Y \<or> Y < Fin (- 1) \<or> Fin 1 < a \<or> a < Fin 0
          then 1 else 0)
   \<and> sanity_check a p (Fin 1) Y =
     ([], if p < Fin 0 \<or> Fin 1 < Y \<or> Y < Fin (- 1) \<or> Fin 1 < a \<or> a < Fin 0 then 1 else 0)"
  by (simp add: sanity_check_def)

theorem sanity_check_result_witness:
  "sanity_check (Fin 0.5) (Fin 10) (Fin 1) (Fin 0.5) = ([], 0)
   \<and> sanity_check (Fin 0.5) (Fin 10) (Fin 1.5) (Fin 0.5) = ([], 1)"
  using sanity_check_result [of "Fin 0.5" "Fin 10" "Fin 1" "Fin 0.5"]
    sanity_check_result [of "Fin 0.5" "Fin 10" "Fin 1.5" "Fin 0.5"]
  by simp

section \<open>The order of the constants of motion\<close>

text \<open>
  C8: \<^verbatim>\<open>KerrGeoConstantsOfMotion\<close> computes the energy first, the angular momentum
  from the energy, and the Carter constant from both as
  \<open>zm\<^sup>2 (a\<^sup>2 (1 - E\<^sup>2) + L\<^sup>2 / (1 - zm\<^sup>2))\<close> with \<open>zm = sqrt (1 - x\<^sup>2)\<close>; the result depends on
  \<open>(a, p, e, x)\<close> only.
\<close>

theorem KerrGeoConstantsOfMotion_order:
  "KerrGeoConstantsOfMotion a p e x =
     (let E = KerrGeoEnergy a p e x;
          L = KerrGeoAngularMomentum a p e x E;
          zm = sqrt_d (Fin 1 - pow x (Fin 2));
          Q = pow zm (Fin 2) * (pow a (Fin 2) * (Fin 1 - pow E (Fin 2)) + pow L (Fin 2) / (Fin 1 - pow zm (Fin 2)))
      in (E, L, Q))"
  by (simp add: KerrGeoConstantsOfMotion_def KerrGeoCarterConstant_def Let_def)

theorem KerrGeoConstantsOfMotion_order_witness:
  "fst (KerrGeoConstantsOfMotion (Fin 0.5) (Fin 10) (Fin 0.5) (Fin 0.5)) =
     KerrGeoEnergy (Fin 0.5) (Fin 10) (Fin 0.5) (Fin 0.5)"
  using KerrGeoConstantsOfMotion_order [of "Fin 0.5" "Fin 10" "Fin 0.5" "Fin 0.5"]
  by (simp add: Let_def)

section \<open>The inclination mapping\<close>



section \<open>The separatrix without spin\<close>

text \<open>
  C4: for every eccentricity and inclination \<^verbatim>\<open>get_separatrix (0, e, x)\<close> returns
  \<open>6 + 2 e\<close> and solves nothing, and the separatrix of the circular prograde orbit,
  \<^verbatim>\<open>get_separatrix (a, 0, 1)\<close>, tends to 6 as \<open>a\<close> tends to 0 from above: in binary64
  arithmetic it is 6 for every positive \<open>a\<close> below \<open>2\<^sup>-\<^sup>6\<^sup>0\<close>.
\<close>

theorem get_separatrix_schwarzschild:
  "get_separatrix R n (Fin 0) e x = Some (ret (Fin 6 + Fin 2 * e))
   \<and> eventually (\<lambda>a. get_separatrix R n (Fin a) (Fin 0) (Fin 1) = Some (ret (Fin 6))) (at_right 0)
   \<and> ((\<lambda>a. returned_real (get_separatrix R n (Fin a) (Fin 0) (Fin 1))) \<longlongrightarrow> 6) (at_right 0)"
proof (intro conjI)
  show "get_separatrix R n (Fin 0) e x = Some (ret (Fin 6 + Fin 2 * e))"
    by (simp add: get_separatrix.simps deq_def)
  have "\<forall>a>0. a < 1 / 2 ^ 60 \<longrightarrow> get_separatrix R n (Fin a) (Fin 0) (Fin 1) = Some (ret (Fin 6))"
    by (simp add: get_separatrix_small_spin)
  moreover have "(0::real) < 1 / 2 ^ 60" by simp
  ultimately show ev: "eventually (\<lambda>a. get_separatrix R n (Fin a) (Fin 0) (Fin 1) = Some (ret (Fin 6))) (at_right 0)"
    unfolding eventually_at_right [of 0 1, OF zero_less_one] by blast
  have "eventually (\<lambda>a. returned_real (get_separatrix R n (Fin a) (Fin 0) (Fin 1)) = 6) (at_right 0)"
    by (rule eventually_mono [OF ev]) (simp add: returned_real_def ret_def)
  then show "((\<lambda>a. returned_real (get_separatrix R n (Fin a) (Fin 0) (Fin 1))) \<longlongrightarrow> 6) (at_right 0)"
    by (rule tendsto_eventually)
qed

theorem get_separatrix_schwarzschild_witness:
  "get_separatrix midpoint_fsolver 0 (Fin 0) (Fin 0.5) (Fin 0.5) = Some (ret (Fin 7))"
  using get_separatrix_schwarzschild [of midpoint_fsolver 0 "Fin 0.5" "Fin 0.5"] by simp

section \<open>The staged search for the separatrix\<close>

text \<open>
  C5: for a spin \<open>a\<close> in \<open>(0, 1]\<close> and an orbit that is not both circular and
  equatorial, \<^verbatim>\<open>get_separatrix\<close> follows the staged strategy: \<open>staged_separatrix\<close> is
  that strategy in the words of the specification.
\<close>

theorem get_separatrix_staged:
  assumes "Fin 0 < a" "a \<le> Fin 1" "\<not> (e = Fin 0 \<and> \<bar>x\<bar> = Fin 1)" "x \<noteq> NaN"
  shows "get_separatrix R n a e x = staged_separatrix R n a e x"
proof -
  have a: "deq a (Fin 0) = False" using assms(1) by (cases a) (auto simp: deq_def)
  have e: "(deq e (Fin 0) \<and> deq \<bar>x\<bar> (Fin 1)) = False" using assms(3) by (auto simp: deq_def)
  have x: "deq x (Fin 0) = (x = Fin 0)" by (auto simp: deq_def)
  show ?thesis
    unfolding get_separatrix.simps [of R n a e x] staged_separatrix_def Let_def a e x
    by (simp only: if_False)
qed

theorem get_separatrix_staged_witness:
  "get_separatrix halving_fsolver 0 (Fin 0.5) (Fin 0.5) (Fin 0.5) = Some (ret (Fin (4496204662989431 / 2 ^ 49)))
   \<and> get_separatrix halving_fsolver 0 (Fin 0.5) (Fin 0.5) (Fin 0) = Some (ret (Fin (562575365005585 / 2 ^ 46)))
   \<and> get_separatrix halving_fsolver 0 (Fin 0.5) (Fin 0.5) (Fin (- 0.5)) = Some (ret (Fin (1687748885400161 / 2 ^ 47)))"
  using get_separatrix_staged [of "Fin 0.5" "Fin 0.5" "Fin 0.5" halving_fsolver 0]
    get_separatrix_staged [of "Fin 0.5" "Fin 0.5" "Fin 0" halving_fsolver 0]
    get_separatrix_staged [of "Fin 0.5" "Fin 0.5" "Fin (- 0.5)" halving_fsolver 0]
  unfolding staged_separatrix_runs by simp

section \<open>Failures of the root solver\<close>

text \<open>
  C6: a solve that uses up its 1000 iterations prints a diagnostic and returns its
  estimate; every other failure, an initial interval without a change of sign included,
  is to raise an error. The code does not do the second: below, the library refuses the
  interval \<open>[1000, 1000.5]\<close>, on which the function is 1 throughout, with \<open>GSL_EINVAL\<close>,
  and \<^verbatim>\<open>solver\<close> returns the midpoint as a root.
\<close>

theorem solver_returns_without_bracket:
  "fst (gsl_root_fsolver_set midpoint_fsolver (gsl_root_fsolver_alloc midpoint_fsolver)
          (\<lambda>v. Fin 1) (Fin 1000) (Fin 1000.5)) = GSL_EINVAL
   \<and> GSL_EINVAL \<noteq> GSL_SUCCESS
   \<and> solver midpoint_fsolver 0
        \<lparr>params_a = Fin 0.5, params_p = Fin 10, params_e = Fin 0.5, params_x = Fin 0, params_Y = Fin 0\<rparr>
        (\<lambda>v params. Fin 1) (Fin 1000) (Fin 1000.5) = Some (ret (Fin 1000.25))"
proof -
  obtain c where c: "lit 0.001 = Fin c" "9 / 10000 \<le> c" "c \<le> 11 / 10000"
    using epsrel_bounds by blast
  obtain t where t: "rnd (c * 1000) = Fin t" "(9 / 10) * (999 / 1000) \<le> t" "t \<le> (11 / 10) * (1001 / 1000)"
    by (rule rnd_pos_bounds [of "9 / 10" "c * 1000" "11 / 10"]) (use c in simp_all)
  obtain t' where t': "rnd t = Fin t'" "(8 / 10) * (999 / 1000) \<le> t'" "t' \<le> (12 / 10) * (1001 / 1000)"
    by (rule rnd_pos_bounds [of "8 / 10" t "12 / 10"]) (use t in simp_all)
  have r1: "rnd (4001 / 2) = Fin (4001 / 2)" using rnd_dyadic [of 4001 1] by simp
  have r2: "rnd (4001 / 4) = Fin (4001 / 4)" using rnd_dyadic [of 4001 2] by simp
  have tol: "Fin 0 + lit 0.001 * min \<bar>Fin 1000\<bar> \<bar>Fin 1000.5\<bar> = Fin t'"
    unfolding c(1) using t(1) t'(1) by (simp add: min_def)
  have width: "\<bar>Fin 1000.5 - Fin 1000\<bar> = Fin (1 / 2)" by (simp add: minus_double_def)
  have ti: "gsl_root_test_interval midpoint_fsolver =
      (\<lambda>x_lo x_hi epsabs epsrel.
         if \<bar>x_hi - x_lo\<bar> < epsabs + epsrel * min \<bar>x_lo\<bar> \<bar>x_hi\<bar> then GSL_SUCCESS else GSL_CONTINUE)"
    by (simp add: midpoint_fsolver_def)
  have test: "gsl_root_test_interval midpoint_fsolver (Fin 1000) (Fin 1000.5) (Fin 0) (lit 0.001) = GSL_SUCCESS"
    unfolding ti tol width using t'(2) by simp
  have root: "Fin 0.5 * (Fin 1000 + Fin 1000.5) = Fin 1000.25" by (simp add: r1 r2)
  have it: "gsl_root_fsolver_iterate midpoint_fsolver s = (GSL_SUCCESS, s)" for s
    by (simp add: midpoint_fsolver_def)
  have rt: "gsl_root_fsolver_root midpoint_fsolver s = Fin 0.5 * (fst s + snd s)" for s
    by (simp add: midpoint_fsolver_def)
  have lower: "gsl_root_fsolver_x_lower midpoint_fsolver s = fst s" for s
    by (simp add: midpoint_fsolver_def)
  have upper: "gsl_root_fsolver_x_upper midpoint_fsolver s = snd s" for s
    by (simp add: midpoint_fsolver_def)
  have st: "gsl_root_fsolver_set midpoint_fsolver s (\<lambda>v. Fin 1) (Fin 1000) (Fin 1000.5)
              = (GSL_EINVAL, (Fin 1000, Fin 1000.5))" for s
    by (simp add: midpoint_fsolver_def)
  have loop: "solver_iterations midpoint_fsolver (lit 0.001) 1000 (Fin 1000, Fin 1000.5) 0
                = (GSL_SUCCESS, 1, Fin 1000.25, Fin 1000, Fin 1000.5)"
    apply (subst solver_iterations.simps)
    apply (simp only: Let_def it rt lower upper fst_conv snd_conv test root)
    apply (simp add: GSL_SUCCESS_def GSL_CONTINUE_def)
    done
  show ?thesis
    apply (intro conjI)
      apply (simp only: st fst_conv)
     apply (simp add: GSL_EINVAL_def GSL_SUCCESS_def)
    apply (subst solver.simps)
    apply (simp only: Let_def st fst_conv snd_conv loop)
    apply simp
    done
qed

section \<open>The guards of the right-hand sides\<close>

text \<open>
  C9: for \<open>p\<close> strictly below the separatrix, \<open>6 + 2 e\<close> in \<^verbatim>\<open>SchwarzEccFlux::deriv_func\<close>
  and the value of \<^verbatim>\<open>get_separatrix\<close> in \<^verbatim>\<open>KerrEccentricEquatorial::deriv_func\<close> (or
  for a negative \<open>e\<close> there), the function sets \<open>pdot\<close>, \<open>edot\<close> and \<open>xdot\<close> to zero and
  returns, leaving the cells of the frequencies as they were; the second function
  computes the separatrix first and passes on its diagnostics.
\<close>

theorem deriv_func_below_separatrix:
  "(p < Fin 6 + Fin 2 * e \<longrightarrow>
      SchwarzEccFlux_deriv_func G interps st epsilon a p e x =
        ret (st\<lparr>pdot := Fin 0, edot := Fin 0, xdot := Fin 0\<rparr>))
   \<and> (get_separatrix R n a e x = Some (out, Inr p_sep) \<and> (e < Fin 0 \<or> p < p_sep) \<longrightarrow>
      KerrEccentricEquatorial_deriv_func R n K st epsilon a p e x =
        Some (out, Inr (st\<lparr>pdot := Fin 0, edot := Fin 0, xdot := Fin 0\<rparr>)))"
  by (auto simp: SchwarzEccFlux_deriv_func_def KerrEccentricEquatorial_deriv_func_def bind_opt_def ret_def)

theorem deriv_func_below_separatrix_witness:
  "Fin 6 < Fin 6 + Fin 2 * Fin 0.5
   \<and> SchwarzEccFlux_deriv_func failing_ellint zero_interps st0 (Fin 1) (Fin 0) (Fin 6) (Fin 0.5) (Fin 1) =
       ret (st0\<lparr>pdot := Fin 0, edot := Fin 0, xdot := Fin 0\<rparr>)
   \<and> get_separatrix midpoint_fsolver 0 (Fin 0) (Fin 0.5) (Fin 1) = Some ([], Inr (Fin 7))
   \<and> Fin 6 < Fin 7
   \<and> KerrEccentricEquatorial_deriv_func midpoint_fsolver 0 zero_env st0 (Fin 1) (Fin 0) (Fin 6) (Fin 0.5) (Fin 1) =
       Some ([], Inr (st0\<lparr>pdot := Fin 0, edot := Fin 0, xdot := Fin 0\<rparr>))"
proof -
  have s: "get_separatrix midpoint_fsolver 0 (Fin 0) (Fin 0.5) (Fin 1) = Some ([], Inr (Fin 7))"
    by (simp add: get_separatrix.simps deq_def ret_def)
  have lt: "Fin 6 < Fin 6 + Fin 2 * Fin 0.5" "Fin 6 < Fin 7" by simp_all
  show ?thesis
    using deriv_func_below_separatrix [of "Fin 6" "Fin 0.5" failing_ellint zero_interps st0 "Fin 1"
        "Fin 0" "Fin 1" midpoint_fsolver 0 "[]" "Fin 7" zero_env] s lt
    by (simp only: simp_thms)
qed

text \<open>
  At the separatrix itself the guard does not hold, since it compares with \<open><\<close>: for
  \<open>e = 0.5\<close> and \<open>p = 7 = 6 + 2 e\<close> the first function goes on to the frequencies, which
  ask for the complete elliptic integral at modulus 1, outside its domain.
\<close>

theorem deriv_func_at_separatrix:
  "\<not> (Fin 7 < Fin 6 + Fin 2 * Fin 0.5)
   \<and> Fin 4 * Fin 0.5 / (Fin 7 - Fin 6 + Fin 2 * Fin 0.5) = Fin 1
   \<and> SchwarzEccFlux_deriv_func failing_ellint zero_interps st0 (Fin 1) (Fin 0) (Fin 7) (Fin 0.5) (Fin 1)
       = throw (EllipticE_failed (Fin 1))"
  by (simp add: SchwarzEccFlux_deriv_func_def SchwarzschildGeoCoordinateFrequencies_def
      EllipticE_def failing_ellint_def minus_double_def GSL_EDOM_def GSL_SUCCESS_def)

text \<open>
  Whenever a guard does not hold, at the separatrix in particular, the function calls
  the frequencies, and an exception of theirs is the result: for both functions in
  general, and for the second at \<open>p = 7\<close>, the separatrix of \<open>a = 0\<close>, \<open>e = 0.5\<close>, with
  frequencies that throw.
\<close>

theorem deriv_func_calls_frequencies:
  "(\<not> p < Fin 6 + Fin 2 * e \<and> SchwarzschildGeoCoordinateFrequencies G p e = (out, Inl ex) \<longrightarrow>
      SchwarzEccFlux_deriv_func G interps st epsilon a p e x = (out, Inl ex))
   \<and> (get_separatrix R n a e x = Some (out1, Inr p_sep) \<and> \<not> (e < Fin 0 \<or> p < p_sep)
        \<and> KerrGeoEquatorialCoordinateFrequencies K a p e x = (out2, Inl ex) \<longrightarrow>
      KerrEccentricEquatorial_deriv_func R n K st epsilon a p e x = Some (out1 @ out2, Inl ex))
   \<and> get_separatrix midpoint_fsolver 0 (Fin 0) (Fin 0.5) (Fin 1) = Some (ret (Fin 7))
   \<and> KerrEccentricEquatorial_deriv_func midpoint_fsolver 0 failing_env st0 (Fin 1) (Fin 0) (Fin 7) (Fin 0.5) (Fin 1)
       = Some (throw Nan_in_fundamental_frequencies)"
proof -
  have s: "get_separatrix midpoint_fsolver 0 (Fin 0) (Fin 0.5) (Fin 1) = Some (ret (Fin 7))"
    by (simp add: get_separatrix.simps deq_def)
  have "KerrEccentricEquatorial_deriv_func midpoint_fsolver 0 failing_env st0 (Fin 1) (Fin 0) (Fin 7) (Fin 0.5) (Fin 1)
       = Some ([] @ [], Inl Nan_in_fundamental_frequencies)"
    by (rule KerrEccentricEquatorial_calls_frequencies [OF s [unfolded ret_def]])
       (simp_all add: failing_env_def throw_def)
  then have i: "KerrEccentricEquatorial_deriv_func midpoint_fsolver 0 failing_env st0 (Fin 1) (Fin 0) (Fin 7) (Fin 0.5) (Fin 1)
       = Some (throw Nan_in_fundamental_frequencies)"
    by (simp add: throw_def)
  show ?thesis
    using SchwarzEccFlux_calls_frequencies [of p e G out ex interps st epsilon a x]
      KerrEccentricEquatorial_calls_frequencies [of R n a e x out1 p_sep p K out2 ex st epsilon] s i
    by blast
qed

section \<open>The batch form and the scalar form\<close>

text \<open>
  C1: when the batch form \<^verbatim>\<open>KerrGeoCoordinateFrequenciesVectorized\<close> returns, then at every
  index \<open>i\<close> below the length with \<open>a[i] \<noteq> 0\<close> the three output arrays hold exactly what the
  scalar form \<^verbatim>\<open>KerrGeoCoordinateFrequencies\<close> returns on \<open>(a[i], p[i], e[i], x[i])\<close>, and
  at every index with \<open>a[i] = 0\<close> they hold the two values of
  \<^verbatim>\<open>SchwarzschildGeoCoordinateFrequencies\<close> on \<open>(p[i], e[i])\<close>, the polar frequency being a
  copy of the azimuthal one.
\<close>

theorem Vectorized_index:
  assumes "KerrGeoCoordinateFrequenciesVectorized G outs a p e x len = (out, Inr (OmegaPhi, OmegaTheta, OmegaR))"
    and "int i < len"
  shows "if dne (a ! i) (Fin 0)
         then snd (KerrGeoCoordinateFrequencies G (a ! i) (p ! i) (e ! i) (x ! i))
                = Inr (OmegaPhi ! i, OmegaTheta ! i, OmegaR ! i)
         else snd (SchwarzschildGeoCoordinateFrequencies G (p ! i) (e ! i)) = Inr (OmegaPhi ! i, OmegaR ! i)
              \<and> OmegaTheta ! i = OmegaPhi ! i"
proof -
  have "loop_post G a p e x len 0 outs (OmegaPhi, OmegaTheta, OmegaR)"
    using assms(1) unfolding KerrGeoCoordinateFrequenciesVectorized_def by (rule loop_Inr)
  then have "index_done G a p e x (OmegaPhi, OmegaTheta, OmegaR) i"
    using assms(2) unfolding loop_post_def by simp
  then show ?thesis unfolding index_done_def by simp
qed

theorem Vectorized_index_witness:
  "\<exists>OmegaPhi OmegaTheta OmegaR.
     KerrGeoCoordinateFrequenciesVectorized circular_ellint ([Fin 0, Fin 0], [Fin 0, Fin 0], [Fin 0, Fin 0])
       [Fin 1, Fin 0] [Fin 16, Fin 16] [Fin 0, Fin 0] [Fin 1, Fin 1] 2 = ([], Inr (OmegaPhi, OmegaTheta, OmegaR))
     \<and> snd (KerrGeoCoordinateFrequencies circular_ellint (Fin 1) (Fin 16) (Fin 0) (Fin 1))
          = Inr (OmegaPhi ! 0, OmegaTheta ! 0, OmegaR ! 0)
     \<and> snd (SchwarzschildGeoCoordinateFrequencies circular_ellint (Fin 16) (Fin 0)) = Inr (OmegaPhi ! 1, OmegaR ! 1)
     \<and> OmegaTheta ! 1 = OmegaPhi ! 1"
proof -
  obtain P T R where run: "KerrGeoCoordinateFrequenciesVectorized circular_ellint
       ([Fin 0, Fin 0], [Fin 0, Fin 0], [Fin 0, Fin 0])
       [Fin 1, Fin 0] [Fin 16, Fin 16] [Fin 0, Fin 0] [Fin 1, Fin 1] 2 = ([], Inr (P, T, R))"
    using Vectorized_two by blast
  have "snd (KerrGeoCoordinateFrequencies circular_ellint (Fin 1) (Fin 16) (Fin 0) (Fin 1)) = Inr (P ! 0, T ! 0, R ! 0)"
    using Vectorized_index [OF run, of 0] by (simp add: dne_def deq_def)
  moreover have "snd (SchwarzschildGeoCoordinateFrequencies circular_ellint (Fin 16) (Fin 0)) = Inr (P ! 1, R ! 1)
      \<and> T ! 1 = P ! 1"
    using Vectorized_index [OF run, of 1] by (simp add: dne_def deq_def)
  ultimately show ?thesis using run by blast
qed

text \<open>
  With \<open>a[i] = 0\<close> the batch form does not call the scalar form, and the two differ. On
  the circular orbit \<open>(a, p, e, x) = (0, 7, 0, 1)\<close>, with the complete elliptic integrals
  at modulus 0 equal to the binary64 value of \<open>\<pi>/2\<close>, the azimuthal frequency of the batch
  form is one unit of \<open>2\<^sup>-\<^sup>5\<^sup>6\<close> above that of the scalar form, and the radial frequencies
  differ as well. On \<open>(0, 1, 0, 1)\<close> the scalar form finds a NaN, since
  \<open>2 a + (p - 3) sqrt p = -2\<close> has no square root, prints the input and throws, while the
  batch form returns values.
\<close>

theorem Vectorized_zero_spin_differs:
  "KerrGeoCoordinateFrequencies circular_ellint (Fin 0) (Fin 7) (Fin 0) (Fin 1) =
     ret (Fin (1945372182632733 / 2 ^ 55), Fin (1945372182632733 / 2 ^ 55), Fin (5882252574524729 / 2 ^ 58))
   \<and> KerrGeoCoordinateFrequenciesVectorized circular_ellint ([Fin 0], [Fin 0], [Fin 0])
         [Fin 0] [Fin 7] [Fin 0] [Fin 1] 1 =
       ret ([Fin (3890744365265467 / 2 ^ 56)], [Fin (3890744365265467 / 2 ^ 56)],
            [Fin (2941126287262365 / 2 ^ 57)])
   \<and> KerrGeoCoordinateFrequencies circular_ellint (Fin 0) (Fin 1) (Fin 0) (Fin 1) =
       ([Printf_apex (Fin 0) (Fin 1) (Fin 0) (Fin 1)], Inl Nan_in_fundamental_frequencies)
   \<and> (\<exists>v w. SchwarzschildGeoCoordinateFrequencies circular_ellint (Fin 1) (Fin 0) = ret (v, w)
          \<and> KerrGeoCoordinateFrequenciesVectorized circular_ellint ([Fin 0], [Fin 0], [Fin 0])
              [Fin 0] [Fin 1] [Fin 0] [Fin 1] 1 = ret ([v], [v], [w]))"
  using KerrGeoCoordinateFrequencies_0_7 [of circular_ellint] Vectorized_circular_7
    KerrGeoCoordinateFrequencies_throws [of circular_ellint]
    Vectorized_one_zero_spin [of "Fin 1" "Fin 0" "Fin 1"]
  by blast

section \<open>Circular equatorial orbits\<close>

text \<open>
  C3: at an index with zero spin the batch form returns a polar frequency equal to the
  azimuthal one, exactly: it copies it. With spin the two differ.
\<close>

theorem Vectorized_zero_spin_theta:
  assumes "KerrGeoCoordinateFrequenciesVectorized G outs a p e x len = (out, Inr (OmegaPhi, OmegaTheta, OmegaR))"
    and "int i < len" and "a ! i = Fin 0"
  shows "OmegaTheta ! i = OmegaPhi ! i"
proof -
  have "loop_post G a p e x len 0 outs (OmegaPhi, OmegaTheta, OmegaR)"
    using assms(1) unfolding KerrGeoCoordinateFrequenciesVectorized_def by (rule loop_Inr)
  then have "index_done G a p e x (OmegaPhi, OmegaTheta, OmegaR) i"
    using assms(2) unfolding loop_post_def by simp
  then show ?thesis unfolding index_done_def using assms(3) by (simp add: dne_def deq_def)
qed

theorem Vectorized_zero_spin_theta_witness:
  "\<exists>OmegaPhi OmegaTheta OmegaR.
     KerrGeoCoordinateFrequenciesVectorized circular_ellint ([Fin 0], [Fin 0], [Fin 0])
       [Fin 0] [Fin 16] [Fin 0] [Fin 1] 1 = ([], Inr (OmegaPhi, OmegaTheta, OmegaR))
     \<and> OmegaTheta ! 0 = OmegaPhi ! 0"
proof -
  obtain P T R where run: "KerrGeoCoordinateFrequenciesVectorized circular_ellint ([Fin 0], [Fin 0], [Fin 0])
              [Fin 0] [Fin 16] [Fin 0] [Fin 1] 1 = ([], Inr (P, T, R))"
    using Vectorized_one_zero_spin [of "Fin 16" "Fin 0" "Fin 1"] unfolding ret_def by blast
  have "T ! 0 = P ! 0"
    using Vectorized_zero_spin_theta [OF run, of 0] by simp
  then show ?thesis using run by blast
qed

text \<open>
  For \<open>a = 1\<close> and the circular prograde equatorial orbit at \<open>p = 16\<close> the scalar form
  returns a polar frequency below 0.0152 and an azimuthal frequency above 0.01525.
\<close>

theorem circular_spin_theta_differs:
  "\<exists>OmegaPhi OmegaTheta OmegaR.
     KerrGeoCoordinateFrequencies circular_ellint (Fin 1) (Fin 16) (Fin 0) (Fin 1)
       = ret (Fin OmegaPhi, Fin OmegaTheta, Fin OmegaR)
     \<and> OmegaTheta \<le> 1520 / 100000 \<and> 1525 / 100000 \<le> OmegaPhi"
  by (rule KerrGeoCoordinateFrequencies_1_16)

text \<open>
  Without spin the scalar form computes the two frequencies by different expressions,
  \<open>p\<^sup>1\<^sup>/\<^sup>4 sqrt (p\<^sup>2)\<close> and \<open>p\<^sup>5\<^sup>/\<^sup>4\<close> over the same square root, which agree up to
  rounding only: for \<open>p = 11\<close> the polar frequency it returns is two units in the last
  place below the azimuthal one.
\<close>

theorem circular_zero_spin_scalar:
  "KerrGeoCoordinateFrequencies G (Fin 0) (Fin 11) (Fin 0) (Fin 1) =
     ret (Fin (7900429841968835 / 2 ^ 58), Fin (7900429841968833 / 2 ^ 58), Fin (5326468712855881 / 2 ^ 58))"
  by (rule KerrGeoCoordinateFrequencies_0_11)

section \<open>The test for NaN\<close>

text \<open>
  C2: \<^verbatim>\<open>KerrGeoCoordinateFrequencies\<close> is to throw whenever one of the four Mino-time
  quantities \<open>\<Gamma>\<close>, \<open>\<Upsilon>\<^sub>\<phi>\<close>, \<open>\<Upsilon>\<^sub>\<theta>\<close>, \<open>\<Upsilon>\<^sub>r\<close> is NaN, and to return the three quotients
  otherwise. The code throws exactly when \<open>\<Upsilon>\<^sub>\<phi>\<close>, \<open>\<Gamma>\<close> or \<open>\<Upsilon>\<^sub>r\<close> is NaN, having printed the
  input, and returns the quotients otherwise; it does not look at \<open>\<Upsilon>\<^sub>\<theta>\<close>. For the circular
  equatorial orbit at \<open>a = p = 1 - 2\<^sup>-\<^sup>5\<^sup>3\<close>, written \<open>9007199254740991 / 2\<^sup>5\<^sup>3\<close> below, \<open>\<Upsilon>\<^sub>\<theta>\<close>
  is NaN, \<open>\<Upsilon>\<^sub>\<phi>\<close> and \<open>\<Gamma>\<close> are infinite and \<open>\<Upsilon>\<^sub>r\<close> is finite: nothing is thrown, and two of
  the three frequencies returned are NaN.
\<close>

theorem KerrGeoCoordinateFrequencies_nan_check:
  "KerrGeoCoordinateFrequencies G a p e x =
     bind_res (if deq \<bar>x\<bar> (Fin 1) then ret (KerrEqGeoMinoFrequencies a p e x)
               else KerrGeoMinoFrequencies G a p e x)
       (\<lambda>(CapitalGamma, CapitalUpsilonPhi, CapitalUpsilonTheta, CapitalUpsilonR).
          if CapitalUpsilonPhi = NaN \<or> CapitalGamma = NaN \<or> CapitalUpsilonR = NaN
          then ([Printf_apex a p e x], Inl Nan_in_fundamental_frequencies)
          else ret (CapitalUpsilonPhi / CapitalGamma, CapitalUpsilonTheta / CapitalGamma,
                    CapitalUpsilonR / CapitalGamma))
   \<and> KerrEqGeoMinoFrequencies (Fin (9007199254740991 / 2 ^ 53)) (Fin (9007199254740991 / 2 ^ 53)) (Fin 0) (Fin 1)
       = (PInf, PInf, NaN, Fin (9007199254740991 / 2 ^ 52))
   \<and> KerrGeoCoordinateFrequencies G (Fin (9007199254740991 / 2 ^ 53)) (Fin (9007199254740991 / 2 ^ 53)) (Fin 0) (Fin 1)
       = ret (NaN, NaN, Fin 0)"
proof (intro conjI)
  have d: "dne v v \<longleftrightarrow> v = NaN" for v by (auto simp: dne_def deq_def)
  have t: "bind_res (printf m) (\<lambda>_. throw ex) = ([m], Inl ex)" for m ex
    by (simp add: bind_res_def printf_def throw_def)
  show "KerrGeoCoordinateFrequencies G a p e x =
     bind_res (if deq \<bar>x\<bar> (Fin 1) then ret (KerrEqGeoMinoFrequencies a p e x)
               else KerrGeoMinoFrequencies G a p e x)
       (\<lambda>(CapitalGamma, CapitalUpsilonPhi, CapitalUpsilonTheta, CapitalUpsilonR).
          if CapitalUpsilonPhi = NaN \<or> CapitalGamma = NaN \<or> CapitalUpsilonR = NaN
          then ([Printf_apex a p e x], Inl Nan_in_fundamental_frequencies)
          else ret (CapitalUpsilonPhi / CapitalGamma, CapitalUpsilonTheta / CapitalGamma,
                    CapitalUpsilonR / CapitalGamma))"
    unfolding KerrGeoCoordinateFrequencies_def d t ..
  show m: "KerrEqGeoMinoFrequencies (Fin (9007199254740991 / 2 ^ 53)) (Fin (9007199254740991 / 2 ^ 53)) (Fin 0) (Fin 1)
       = (PInf, PInf, NaN, Fin (9007199254740991 / 2 ^ 52))"
    by (rule KerrEq_below_one)
  show "KerrGeoCoordinateFrequencies G (Fin (9007199254740991 / 2 ^ 53)) (Fin (9007199254740991 / 2 ^ 53)) (Fin 0) (Fin 1)
       = ret (NaN, NaN, Fin 0)"
    unfolding KerrGeoCoordinateFrequencies_def m by (simp add: deq_def dne_def)
qed

end
